theory Spec2Isabelle
  imports Complex_Main
begin

section \<open>Force integration and edge colouring of CFVMFlowSolverBase\<close>

text \<open>
  A shallow embedding of \<^verbatim>\<open>SU2_CFD/include/solvers/CFVMFlowSolverBase.inl\<close>.
  The type \<^verbatim>\<open>su2double\<close> is modelled by the real numbers: sums and products are exact.
  Where a divisor is zero, or a square root has a negative argument, IEEE arithmetic gives
  an infinity or a NaN and the program goes on with it; the real numbers have no such value.
  In the loop over the vertices of Friction\_Forces the model writes the quotients with
  \<open>fdiv\<close> and the square root of a quotient with \<open>fsqrt\<close>, and the pass ends there with an
  error. Everywhere else \<open>x / 0\<close> is \<open>0\<close> as in HOL, and no statement below relies on the
  value of such a quotient.
\<close>

type_synonym su2double = real

text \<open>A fixed-size array \<^verbatim>\<open>su2double[MAXNDIM]\<close>, or a pointer to coordinates.\<close>

type_synonym vec = "nat \<Rightarrow> su2double"

subsection \<open>AeroCoeffs and AeroCoeffsArray\<close>

record AeroCoeffs =
  CD :: su2double
  CL :: su2double
  CSF :: su2double
  CEff :: su2double
  CFx :: su2double
  CFy :: su2double
  CFz :: su2double
  CMx :: su2double
  CMy :: su2double
  CMz :: su2double
  CoPx :: su2double
  CoPy :: su2double
  CoPz :: su2double
  CT :: su2double
  CQ :: su2double
  CMerit :: su2double

text \<open>
  Modelled from the spec: the struct \<^verbatim>\<open>AeroCoeffs\<close> and its \<^verbatim>\<open>setZero()\<close> are declared in
  the header, which is not part of the sources at hand. The spec describes a fixed schema of
  sixteen named scalars that is zeroable.
\<close>

definition AeroCoeffs_setZero :: AeroCoeffs where
  "AeroCoeffs_setZero =
     \<lparr>CD = 0, CL = 0, CSF = 0, CEff = 0, CFx = 0, CFy = 0, CFz = 0, CMx = 0,
      CMy = 0, CMz = 0, CoPx = 0, CoPy = 0, CoPz = 0, CT = 0, CQ = 0, CMerit = 0\<rparr>"

text \<open>The sixteen field readers, in the order of the declaration.\<close>

definition coefficient_fields :: "(AeroCoeffs \<Rightarrow> su2double) list" where
  "coefficient_fields =
     [CD, CL, CSF, CEff, CFx, CFy, CFz, CMx, CMy, CMz, CoPx, CoPy, CoPz, CT, CQ, CMerit]"

text \<open>
  \<^verbatim>\<open>AeroCoeffsArray\<close> holds sixteen parallel arrays \<^verbatim>\<open>CD[i]\<close>, ..., \<^verbatim>\<open>CMerit[i]\<close> of one
  common length \<^verbatim>\<open>_size\<close>. They are only ever indexed together, so the model stores at
  index \<open>i\<close> the sixteen values as one \<open>AeroCoeffs\<close>: \<^verbatim>\<open>X.CD[i]\<close> is \<open>CD (slots X i)\<close>.
  The storage is a map from indices to values; only the indices below \<open>size'\<close> belong to
  the arrays.
\<close>

record AeroCoeffsArray =
  size' :: int
  slots :: "nat \<Rightarrow> AeroCoeffs"

datatype alloc_error = bad_array_new_length

text \<open>\<^verbatim>\<open>AeroCoeffsArray::setZero(int i)\<close>: all sixteen arrays are set to 0.0 at index i.\<close>

definition setZero_i :: "nat \<Rightarrow> AeroCoeffsArray \<Rightarrow> AeroCoeffsArray" where
  "setZero_i i a =
     a\<lparr>slots := (slots a)(i := \<lparr>CD = 0, CL = 0, CSF = 0, CEff = 0, CFx = 0, CFy = 0,
        CFz = 0, CMx = 0, CMy = 0, CMz = 0, CoPx = 0, CoPy = 0, CoPz = 0, CT = 0, CQ = 0,
        CMerit = 0\<rparr>)\<rparr>"

text \<open>
  Modelled from the spec: \<^verbatim>\<open>AeroCoeffsArray::setZero()\<close> without argument is defined in the
  header, which is not part of the sources at hand. The spec says that it resets every
  slot: \<^verbatim>\<open>setZero(i)\<close> for each of the \<^verbatim>\<open>_size\<close> slots.
\<close>

definition setZero :: "AeroCoeffsArray \<Rightarrow> AeroCoeffsArray" where
  "setZero a = fold setZero_i [0 ..< nat (size' a)] a"

text \<open>
  \<^verbatim>\<open>AeroCoeffsArray::allocate(int size)\<close>. The sixteen \<^verbatim>\<open>new su2double[size]\<close> return
  uninitialised storage, whose content is the argument \<open>fresh\<close>; a negative size makes
  \<^verbatim>\<open>new\<close> throw.
\<close>

definition allocate :: "(nat \<Rightarrow> AeroCoeffs) \<Rightarrow> int \<Rightarrow> alloc_error + AeroCoeffsArray" where
  "allocate fresh n =
     (if n < 0 then Inl bad_array_new_length
      else Inr (setZero \<lparr>size' = n, slots = fresh\<rparr>))"

text \<open>A client's later calls of the two zeroing functions, in order.\<close>

datatype zero_call = SetZero | SetZeroAt nat

fun run_zero_calls :: "zero_call list \<Rightarrow> AeroCoeffsArray \<Rightarrow> AeroCoeffsArray" where
  "run_zero_calls [] a = a"
| "run_zero_calls (SetZero # cs) a = run_zero_calls cs (setZero a)"
| "run_zero_calls (SetZeroAt i # cs) a = run_zero_calls cs (setZero_i i a)"

fun call_in_range :: "int \<Rightarrow> zero_call \<Rightarrow> bool" where
  "call_in_range n SetZero = True"
| "call_in_range n (SetZeroAt i) = (int i < n)"


subsection \<open>Configuration, geometry, flow field and solver data\<close>

text \<open>
  The enumerations come from the option header, which is not part of the sources at hand;
  the constructors are the constants that the solver compares with.
\<close>

datatype ENUM_REGIME = COMPRESSIBLE | INCOMPRESSIBLE

datatype BC_TYPE =
    EULER_WALL | HEAT_FLUX | ISOTHERMAL | CHT_WALL_INTERFACE | NEARFIELD_BOUNDARY
  | INLET_FLOW | OUTLET_FLOW | ACTDISK_INLET | ACTDISK_OUTLET | ENGINE_INFLOW
  | ENGINE_EXHAUST | FLUID_INTERFACE | SYMMETRY_PLANE | FAR_FIELD

datatype ENUM_INC_NONDIM = DIMENSIONAL | INITIAL_VALUES | REFERENCE_VALUES

datatype COMM_LEVEL = COMM_NONE | COMM_MINIMAL | COMM_FULL

text \<open>
  \<^verbatim>\<open>CConfig\<close>, read through its getters; a field \<open>X\<close> is the getter \<^verbatim>\<open>GetX\<close>. The field
  \<open>Marker_All_Monitoring\<close> tells whether the flag of the marker equals \<^verbatim>\<open>YES\<close>.
\<close>

record CConfig =
  AoA :: su2double
  AoS :: su2double
  RefArea :: su2double
  RefLength :: su2double
  Gas_ConstantND :: su2double
  RefOriginMoment :: "nat \<Rightarrow> vec"
  Axisymmetric :: bool
  Mach_Motion :: su2double
  Ref_Inc_NonDim :: ENUM_INC_NONDIM
  Inc_Density_Ref :: su2double
  Inc_Velocity_Ref :: su2double
  Marker_All_KindBC :: "nat \<Rightarrow> BC_TYPE"
  Marker_All_Monitoring :: "nat \<Rightarrow> bool"
  Marker_All_TagBound :: "nat \<Rightarrow> string"
  nMarker_Monitoring :: nat
  Marker_Monitoring_TagBound :: "nat \<Rightarrow> string"
  Solid_Wall :: "nat \<Rightarrow> bool"
  Comm_Level :: COMM_LEVEL
  Heat_Flux_Ref :: su2double
  Prandtl_Lam :: su2double
  Energy_Equation :: bool
  QCR :: bool

text \<open>A boundary vertex: \<^verbatim>\<open>GetNode\<close>, \<^verbatim>\<open>GetNormal\<close>, \<^verbatim>\<open>GetNormal_Neighbor\<close>.\<close>

record CVertex =
  Node :: nat
  Normal :: vec
  Normal_Neighbor :: nat

text \<open>
  \<^verbatim>\<open>CGeometry\<close>: the vertices of each marker (\<^verbatim>\<open>GetnVertex(iMarker)\<close> is the length of the
  list), and per node the ownership flag and the coordinates.
\<close>

record CGeometry =
  vertex :: "nat \<Rightarrow> CVertex list"
  GetDomain :: "nat \<Rightarrow> bool"
  Coord :: "nat \<Rightarrow> vec"

text \<open>The flow variables \<^verbatim>\<open>nodes\<close> of the solver, read through their getters.\<close>

record CVariable =
  Pressure :: "nat \<Rightarrow> su2double"
  Density :: "nat \<Rightarrow> su2double"
  Velocity :: "nat \<Rightarrow> vec"
  LaminarViscosity :: "nat \<Rightarrow> su2double"
  ThermalConductivity :: "nat \<Rightarrow> su2double"
  Gradient_Primitive :: "nat \<Rightarrow> nat \<Rightarrow> nat \<Rightarrow> su2double"

text \<open>
  The members of the solver that the integration reads but does not write, the template
  parameter \<^verbatim>\<open>FlowRegime\<close>, the constants \<^verbatim>\<open>EPS\<close>, \<^verbatim>\<open>PI_NUMBER\<close> and \<^verbatim>\<open>TWO3\<close> of the option
  header (parameters here, the header is not at hand), and whether the build has MPI.
\<close>

record CSolverData =
  FlowRegime :: ENUM_REGIME
  nDim :: nat
  nMarker :: nat
  Gamma :: su2double
  Gamma_Minus_One :: su2double
  Density_Inf :: su2double
  Pressure_Inf :: su2double
  Temperature_Inf :: su2double
  Velocity_Inf :: vec
  dynamic_grid :: bool
  EPS :: su2double
  PI_NUMBER :: su2double
  TWO3 :: su2double
  HAVE_MPI :: bool

text \<open>
  The members of the solver that the integration writes. \<^verbatim>\<open>CSkinFriction\<close> has the layout
  that \<^verbatim>\<open>Allocate\<close> gives it with \<^verbatim>\<open>Alloc3D(nMarker, nVertex, nDim, CSkinFriction)\<close>: for a
  marker, one row per vertex, each of \<open>nDim\<close> numbers. The other arrays over the vertices
  come from \<^verbatim>\<open>Alloc2D(nMarker, nVertex, ...)\<close> and are only written at
  \<^verbatim>\<open>[iMarker][iVertex]\<close> in a loop over the vertices of the marker; they are functions of the
  two indices.
\<close>

record CFVMFlowSolverBase =
  InvCoeff :: AeroCoeffsArray
  MntCoeff :: AeroCoeffsArray
  ViscCoeff :: AeroCoeffsArray
  SurfaceInvCoeff :: AeroCoeffsArray
  SurfaceMntCoeff :: AeroCoeffsArray
  SurfaceViscCoeff :: AeroCoeffsArray
  SurfaceCoeff :: AeroCoeffsArray
  AllBoundInvCoeff :: AeroCoeffs
  AllBoundMntCoeff :: AeroCoeffs
  AllBoundViscCoeff :: AeroCoeffs
  TotalCoeff :: AeroCoeffs
  CNearFieldOF_Inv :: "nat \<Rightarrow> su2double"
  HF_Visc :: "nat \<Rightarrow> su2double"
  MaxHF_Visc :: "nat \<Rightarrow> su2double"
  Surface_HF_Visc :: "nat \<Rightarrow> su2double"
  Surface_MaxHF_Visc :: "nat \<Rightarrow> su2double"
  AllBound_CNearFieldOF_Inv :: su2double
  AllBound_HF_Visc :: su2double
  AllBound_MaxHF_Visc :: su2double
  Total_CNearFieldOF :: su2double
  Total_Heat :: su2double
  Total_MaxHeat :: su2double
  CPressure :: "nat \<Rightarrow> nat \<Rightarrow> su2double"
  HeatFlux :: "nat \<Rightarrow> nat \<Rightarrow> su2double"
  YPlus :: "nat \<Rightarrow> nat \<Rightarrow> su2double"
  CSkinFriction :: "nat \<Rightarrow> su2double list list"

text \<open>
  The sums that an integration keeps per marker while it walks the vertices:
  \<open>ForceSum\<close> is \<^verbatim>\<open>ForceInviscid\<close>, \<^verbatim>\<open>ForceMomentum\<close> or \<^verbatim>\<open>ForceViscous\<close>, and \<open>MomentSum\<close>
  is \<^verbatim>\<open>MomentInviscid\<close>, \<^verbatim>\<open>MomentMomentum\<close> or \<^verbatim>\<open>MomentViscous\<close>.
\<close>

record marker_sums =
  ForceSum :: vec
  MomentSum :: vec
  MomentX_Force :: vec
  MomentY_Force :: vec
  MomentZ_Force :: vec

definition zero_sums :: marker_sums where
  "zero_sums = \<lparr>ForceSum = (\<lambda>_. 0), MomentSum = (\<lambda>_. 0), MomentX_Force = (\<lambda>_. 0),
                 MomentY_Force = (\<lambda>_. 0), MomentZ_Force = (\<lambda>_. 0)\<rparr>"

subsection \<open>Loops over the dimensions\<close>

text \<open>
  \<^verbatim>\<open>for (iDim = start; iDim < nDim; iDim++) body\<close>. The counter is declared outside the
  loop and is alive after it, so the loop returns it together with the state.
\<close>

function for_iDim :: "nat \<Rightarrow> nat \<Rightarrow> (nat \<Rightarrow> 'a \<Rightarrow> 'a) \<Rightarrow> 'a \<Rightarrow> nat \<times> 'a" where
  "for_iDim iDim n body s =
     (if iDim < n then for_iDim (Suc iDim) n body (body iDim s) else (iDim, s))"
  by pat_completeness auto
termination
  by (relation "measure (\<lambda>(iDim, n, body, s). n - iDim)") auto

declare for_iDim.simps [simp del]

subsection \<open>Reference values\<close>

text \<open>
  The non-dimensionalisation at the head of the three integrations (the same statements in
  each): the pair \<^verbatim>\<open>(RefDensity, RefVel2)\<close>, both initialised with 0.0.
\<close>

definition Velocity_Inf_sq :: "CSolverData \<Rightarrow> su2double" where
  "Velocity_Inf_sq d = (\<Sum>iDim<nDim d. Velocity_Inf d iDim * Velocity_Inf d iDim)"

definition reference_values :: "CSolverData \<Rightarrow> CConfig \<Rightarrow> su2double \<times> su2double" where
  "reference_values d config =
     (case FlowRegime d of
        COMPRESSIBLE \<Rightarrow>
          (let RefTemp = Temperature_Inf d;
               RefDensity = Density_Inf d
           in if dynamic_grid d
              then (let Mach2Vel = sqrt (Gamma d * Gas_ConstantND config * RefTemp);
                        Mach_Motion = Mach_Motion config
                    in (RefDensity, (Mach_Motion * Mach2Vel) * (Mach_Motion * Mach2Vel)))
              else (RefDensity, Velocity_Inf_sq d))
      | INCOMPRESSIBLE \<Rightarrow>
          (if Ref_Inc_NonDim config = DIMENSIONAL \<or> Ref_Inc_NonDim config = INITIAL_VALUES
           then (Density_Inf d, Velocity_Inf_sq d)
           else if Ref_Inc_NonDim config = REFERENCE_VALUES
           then (Inc_Density_Ref config, Inc_Velocity_Ref config * Inc_Velocity_Ref config)
           else (0, 0)))"

definition force_factor :: "CSolverData \<Rightarrow> CConfig \<Rightarrow> su2double" where
  "force_factor d config =
     (case reference_values d config of
        (RefDensity, RefVel2) \<Rightarrow> 1 / (0.5 * RefDensity * RefArea config * RefVel2))"

text \<open>
  The origin of the moments for a marker: every monitored surface whose tag equals the tag
  of the marker overwrites \<^verbatim>\<open>Origin\<close>, which otherwise keeps the value it had.
\<close>

definition moment_origin :: "CConfig \<Rightarrow> nat \<Rightarrow> vec \<Rightarrow> vec" where
  "moment_origin config iMarker Origin =
     fold (\<lambda>iMarker_Monitoring Origin.
             if Marker_All_TagBound config iMarker
                  = Marker_Monitoring_TagBound config iMarker_Monitoring
             then RefOriginMoment config iMarker_Monitoring else Origin)
          [0 ..< nMarker_Monitoring config] Origin"

text \<open>The revolution factor of axisymmetric simulations.\<close>

definition axi_factor :: "CSolverData \<Rightarrow> CConfig \<Rightarrow> CGeometry \<Rightarrow> nat \<Rightarrow> su2double" where
  "axi_factor d config geometry iPoint =
     (if Axisymmetric config then 2 * PI_NUMBER d * Coord geometry iPoint 1 else 1)"

subsection \<open>The all-reduce over the processes\<close>

text \<open>
  \<^verbatim>\<open>SU2_MPI::Allreduce\<close> with \<^verbatim>\<open>MPI_SUM\<close> is a collaborator: every process receives the sum
  of the values of all processes. The values of the other processes are an argument.
\<close>

definition Allreduce :: "su2double \<Rightarrow> su2double list \<Rightarrow> su2double" where
  "Allreduce x others = x + sum_list others"

definition Allreduce_inplace ::
  "nat \<Rightarrow> (nat \<Rightarrow> su2double) \<Rightarrow> (nat \<Rightarrow> su2double) list \<Rightarrow> (nat \<Rightarrow> su2double)" where
  "Allreduce_inplace n x others =
     (\<lambda>i. if i < n then x i + sum_list (map (\<lambda>y. y i) others) else x i)"

text \<open>
  \<^verbatim>\<open>Allreduce_inplace(n, X.F)\<close> on one of the sixteen arrays of an \<^verbatim>\<open>AeroCoeffsArray\<close>: \<open>F\<close>
  reads the array and \<open>F_update\<close> writes it.
\<close>

definition Allreduce_array ::
  "nat \<Rightarrow> (AeroCoeffs \<Rightarrow> su2double)
     \<Rightarrow> ((su2double \<Rightarrow> su2double) \<Rightarrow> AeroCoeffs \<Rightarrow> AeroCoeffs)
     \<Rightarrow> AeroCoeffsArray \<Rightarrow> AeroCoeffsArray list \<Rightarrow> AeroCoeffsArray" where
  "Allreduce_array n F F_update X others =
     X\<lparr>slots := (\<lambda>i. F_update
                     (\<lambda>_. Allreduce_inplace n (\<lambda>k. F (slots X k))
                            (map (\<lambda>Y k. F (slots Y k)) others) i)
                     (slots X i))\<rparr>"


subsection \<open>Pressure\_Forces\<close>

text \<open>The moments of one vertex (the statements after the force loop).\<close>

definition Pressure_moments ::
  "nat \<Rightarrow> vec \<Rightarrow> vec \<Rightarrow> vec \<Rightarrow> su2double \<Rightarrow> marker_sums \<Rightarrow> marker_sums" where
  "Pressure_moments nDim' Force MomentDist Coord' RefLength' a =
     (let a = (if nDim' = 3
               then (let a = a\<lparr>MomentSum := (MomentSum a)(0 := MomentSum a 0
                                 + (Force 2 * MomentDist 1 - Force 1 * MomentDist 2) / RefLength')\<rparr>;
                         a = a\<lparr>MomentX_Force := (MomentX_Force a)(1 := MomentX_Force a 1
                                 + (- Force 1 * Coord' 2))\<rparr>;
                         a = a\<lparr>MomentX_Force := (MomentX_Force a)(2 := MomentX_Force a 2
                                 + (Force 2 * Coord' 1))\<rparr>;
                         a = a\<lparr>MomentSum := (MomentSum a)(1 := MomentSum a 1
                                 + (Force 0 * MomentDist 2 - Force 2 * MomentDist 0) / RefLength')\<rparr>;
                         a = a\<lparr>MomentY_Force := (MomentY_Force a)(2 := MomentY_Force a 2
                                 + (- Force 2 * Coord' 0))\<rparr>;
                         a = a\<lparr>MomentY_Force := (MomentY_Force a)(0 := MomentY_Force a 0
                                 + (Force 0 * Coord' 2))\<rparr>
                     in a)
               else a);
          a = a\<lparr>MomentSum := (MomentSum a)(2 := MomentSum a 2
                  + (Force 1 * MomentDist 0 - Force 0 * MomentDist 1) / RefLength')\<rparr>;
          a = a\<lparr>MomentZ_Force := (MomentZ_Force a)(0 := MomentZ_Force a 0
                  + (- Force 0 * Coord' 1))\<rparr>;
          a = a\<lparr>MomentZ_Force := (MomentZ_Force a)(1 := MomentZ_Force a 1
                  + (Force 1 * Coord' 0))\<rparr>
      in a)"

text \<open>
  The body of \<^verbatim>\<open>if (GetDomain(iPoint) && (Monitoring == YES))\<close> for one vertex; the state is
  the sums of the marker and \<^verbatim>\<open>NFPressOF\<close>. The index \<^verbatim>\<open>nDim-1\<close> is a natural number here,
  the solver has \<open>nDim\<close> 2 or 3.
\<close>

definition Pressure_vertex_sums ::
  "CSolverData \<Rightarrow> CConfig \<Rightarrow> CGeometry \<Rightarrow> su2double \<Rightarrow> vec \<Rightarrow> CVertex \<Rightarrow> su2double
     \<Rightarrow> marker_sums \<times> su2double \<Rightarrow> marker_sums \<times> su2double" where
  "Pressure_vertex_sums d config geometry factor Origin v Pressure' st =
     (case st of (a, NFPressOF) \<Rightarrow>
      (let iPoint = Node v;
           Normal = Normal v;
           Coord = Coord geometry iPoint;
           NFPressOF = NFPressOF + 0.5 * (Pressure' - Pressure_Inf d)
                         * (Pressure' - Pressure_Inf d) * Normal (nDim d - 1);
           MomentDist = (\<lambda>iDim. if iDim < nDim d then Coord iDim - Origin iDim else 0);
           AxiFactor = axi_factor d config geometry iPoint;
           (iDim, Force, a) =
              for_iDim 0 (nDim d)
                (\<lambda>iDim (Force, a).
                   let Force = Force(iDim := - (Pressure' - Pressure_Inf d) * Normal iDim
                                               * factor * AxiFactor)
                   in (Force, a\<lparr>ForceSum := (ForceSum a)(iDim := ForceSum a iDim + Force iDim)\<rparr>))
                (\<lambda>_. 0, a)
       in (Pressure_moments (nDim d) Force MomentDist Coord (RefLength config) a, NFPressOF)))"

text \<open>One turn of the loop over the vertices of a marker.\<close>

definition Pressure_vertex ::
  "CSolverData \<Rightarrow> CConfig \<Rightarrow> CGeometry \<Rightarrow> CVariable \<Rightarrow> su2double \<Rightarrow> bool \<Rightarrow> vec \<Rightarrow> nat
     \<Rightarrow> nat \<Rightarrow> CFVMFlowSolverBase \<times> marker_sums \<times> su2double
     \<Rightarrow> CFVMFlowSolverBase \<times> marker_sums \<times> su2double" where
  "Pressure_vertex d config geometry nodes factor Monitoring Origin iMarker iVertex st =
     (case st of (s, acc) \<Rightarrow>
      (let iPoint = Node (vertex geometry iMarker ! iVertex);
           Pressure = Pressure nodes iPoint;
           RefPressure = Pressure_Inf d;
           s = s\<lparr>CPressure := (CPressure s)(iMarker := (CPressure s iMarker)
                    (iVertex := (Pressure - RefPressure) * factor * RefArea config))\<rparr>
       in if GetDomain geometry iPoint \<and> Monitoring
          then (s, Pressure_vertex_sums d config geometry factor Origin
                     (vertex geometry iMarker ! iVertex) Pressure acc)
          else (s, acc)))"

text \<open>The projection on the wind axes, \<^verbatim>\<open>if (nDim == 2)\<close> and \<^verbatim>\<open>if (nDim == 3)\<close>.\<close>

definition Pressure_project_2D ::
  "su2double \<Rightarrow> su2double \<Rightarrow> marker_sums \<Rightarrow> AeroCoeffs \<Rightarrow> AeroCoeffs" where
  "Pressure_project_2D eps Alpha a c =
     (let c = c\<lparr>CD := ForceSum a 0 * cos Alpha + ForceSum a 1 * sin Alpha\<rparr>;
          c = c\<lparr>CL := - ForceSum a 0 * sin Alpha + ForceSum a 1 * cos Alpha\<rparr>;
          c = c\<lparr>CEff := CL c / (CD c + eps)\<rparr>;
          c = c\<lparr>CMz := MomentSum a 2\<rparr>;
          c = c\<lparr>CoPx := MomentZ_Force a 1\<rparr>;
          c = c\<lparr>CoPy := - MomentZ_Force a 0\<rparr>;
          c = c\<lparr>CFx := ForceSum a 0\<rparr>;
          c = c\<lparr>CFy := ForceSum a 1\<rparr>;
          c = c\<lparr>CT := - CFx c\<rparr>;
          c = c\<lparr>CQ := - CMz c\<rparr>;
          c = c\<lparr>CMerit := CT c / (CQ c + eps)\<rparr>
      in c)"

definition Pressure_project_3D ::
  "su2double \<Rightarrow> su2double \<Rightarrow> su2double \<Rightarrow> marker_sums \<Rightarrow> AeroCoeffs \<Rightarrow> AeroCoeffs" where
  "Pressure_project_3D eps Alpha Beta a c =
     (let c = c\<lparr>CD := ForceSum a 0 * cos Alpha * cos Beta + ForceSum a 1 * sin Beta
                      + ForceSum a 2 * sin Alpha * cos Beta\<rparr>;
          c = c\<lparr>CL := - ForceSum a 0 * sin Alpha + ForceSum a 2 * cos Alpha\<rparr>;
          c = c\<lparr>CSF := - ForceSum a 0 * sin Beta * cos Alpha + ForceSum a 1 * cos Beta
                      - ForceSum a 2 * sin Beta * sin Alpha\<rparr>;
          c = c\<lparr>CEff := CL c / (CD c + eps)\<rparr>;
          c = c\<lparr>CMx := MomentSum a 0\<rparr>;
          c = c\<lparr>CMy := MomentSum a 1\<rparr>;
          c = c\<lparr>CMz := MomentSum a 2\<rparr>;
          c = c\<lparr>CoPx := - MomentY_Force a 0\<rparr>;
          c = c\<lparr>CoPz := MomentY_Force a 2\<rparr>;
          c = c\<lparr>CFx := ForceSum a 0\<rparr>;
          c = c\<lparr>CFy := ForceSum a 1\<rparr>;
          c = c\<lparr>CFz := ForceSum a 2\<rparr>;
          c = c\<lparr>CT := - CFz c\<rparr>;
          c = c\<lparr>CQ := - CMz c\<rparr>;
          c = c\<lparr>CMerit := CT c / (CQ c + eps)\<rparr>
      in c)"

text \<open>The sums over all boundaries; \<open>m\<close> holds the coefficients of the marker.\<close>

definition Pressure_AllBound :: "su2double \<Rightarrow> AeroCoeffs \<Rightarrow> AeroCoeffs \<Rightarrow> AeroCoeffs" where
  "Pressure_AllBound eps m A =
     (let A = A\<lparr>CD := CD A + CD m\<rparr>;
          A = A\<lparr>CL := CL A + CL m\<rparr>;
          A = A\<lparr>CSF := CSF A + CSF m\<rparr>;
          A = A\<lparr>CEff := CL A / (CD A + eps)\<rparr>;
          A = A\<lparr>CMx := CMx A + CMx m\<rparr>;
          A = A\<lparr>CMy := CMy A + CMy m\<rparr>;
          A = A\<lparr>CMz := CMz A + CMz m\<rparr>;
          A = A\<lparr>CoPx := CoPx A + CoPx m\<rparr>;
          A = A\<lparr>CoPy := CoPy A + CoPy m\<rparr>;
          A = A\<lparr>CoPz := CoPz A + CoPz m\<rparr>;
          A = A\<lparr>CFx := CFx A + CFx m\<rparr>;
          A = A\<lparr>CFy := CFy A + CFy m\<rparr>;
          A = A\<lparr>CFz := CFz A + CFz m\<rparr>;
          A = A\<lparr>CT := CT A + CT m\<rparr>;
          A = A\<lparr>CQ := CQ A + CQ m\<rparr>;
          A = A\<lparr>CMerit := CT A / (CQ A + eps)\<rparr>
      in A)"

text \<open>The sums per monitored surface: every surface with the tag of the marker.\<close>

definition Pressure_Surface_slot :: "su2double \<Rightarrow> AeroCoeffs \<Rightarrow> AeroCoeffs \<Rightarrow> AeroCoeffs" where
  "Pressure_Surface_slot eps m S =
     (let S = S\<lparr>CL := CL S + CL m\<rparr>;
          S = S\<lparr>CD := CD S + CD m\<rparr>;
          S = S\<lparr>CSF := CSF S + CSF m\<rparr>;
          S = S\<lparr>CEff := CL m / (CD m + eps)\<rparr>;
          S = S\<lparr>CFx := CFx S + CFx m\<rparr>;
          S = S\<lparr>CFy := CFy S + CFy m\<rparr>;
          S = S\<lparr>CFz := CFz S + CFz m\<rparr>;
          S = S\<lparr>CMx := CMx S + CMx m\<rparr>;
          S = S\<lparr>CMy := CMy S + CMy m\<rparr>;
          S = S\<lparr>CMz := CMz S + CMz m\<rparr>
      in S)"

definition Pressure_Surface ::
  "CSolverData \<Rightarrow> CConfig \<Rightarrow> nat \<Rightarrow> AeroCoeffs \<Rightarrow> AeroCoeffsArray \<Rightarrow> AeroCoeffsArray" where
  "Pressure_Surface d config iMarker m X =
     fold (\<lambda>iMarker_Monitoring X.
             if Marker_All_TagBound config iMarker
                  = Marker_Monitoring_TagBound config iMarker_Monitoring
             then X\<lparr>slots := (slots X)(iMarker_Monitoring :=
                        Pressure_Surface_slot (EPS d) m (slots X iMarker_Monitoring))\<rparr>
             else X)
          [0 ..< nMarker_Monitoring config] X"

text \<open>One turn of the loop over the markers; \<^verbatim>\<open>Origin\<close> lives across the turns.\<close>

definition Pressure_marker ::
  "CSolverData \<Rightarrow> CConfig \<Rightarrow> CGeometry \<Rightarrow> CVariable \<Rightarrow> su2double \<Rightarrow> nat
     \<Rightarrow> CFVMFlowSolverBase \<times> vec \<Rightarrow> CFVMFlowSolverBase \<times> vec" where
  "Pressure_marker d config geometry nodes factor iMarker st =
     (case st of (s, Origin) \<Rightarrow>
      (let Alpha = AoA config * PI_NUMBER d / 180;
           Beta = AoS config * PI_NUMBER d / 180;
           Boundary = Marker_All_KindBC config iMarker;
           Monitoring = Marker_All_Monitoring config iMarker;
           Origin = (if Monitoring then moment_origin config iMarker Origin else Origin)
       in if Solid_Wall config iMarker \<or> Boundary = NEARFIELD_BOUNDARY
             \<or> Boundary = INLET_FLOW \<or> Boundary = OUTLET_FLOW
             \<or> Boundary = ACTDISK_INLET \<or> Boundary = ACTDISK_OUTLET
             \<or> Boundary = ENGINE_INFLOW \<or> Boundary = ENGINE_EXHAUST
          then
            (let s = s\<lparr>InvCoeff := setZero_i iMarker (InvCoeff s)\<rparr>;
                 s = s\<lparr>CNearFieldOF_Inv := (CNearFieldOF_Inv s)(iMarker := 0)\<rparr>;
                 (s, a, NFPressOF) =
                    fold (Pressure_vertex d config geometry nodes factor Monitoring Origin iMarker)
                      [0 ..< length (vertex geometry iMarker)] (s, zero_sums, 0)
             in if Monitoring
                then (if Boundary \<noteq> NEARFIELD_BOUNDARY
                      then
                        (let c = slots (InvCoeff s) iMarker;
                             c = (if nDim d = 2 then Pressure_project_2D (EPS d) Alpha a c else c);
                             c = (if nDim d = 3 then Pressure_project_3D (EPS d) Alpha Beta a c
                                  else c);
                             s = s\<lparr>InvCoeff := (InvCoeff s)\<lparr>slots :=
                                      (slots (InvCoeff s))(iMarker := c)\<rparr>\<rparr>;
                             s = s\<lparr>AllBoundInvCoeff :=
                                      Pressure_AllBound (EPS d) c (AllBoundInvCoeff s)\<rparr>;
                             s = s\<lparr>SurfaceInvCoeff :=
                                      Pressure_Surface d config iMarker c (SurfaceInvCoeff s)\<rparr>
                         in (s, Origin))
                      else
                        (let s = s\<lparr>CNearFieldOF_Inv :=
                                      (CNearFieldOF_Inv s)(iMarker := NFPressOF)\<rparr>;
                             s = s\<lparr>AllBound_CNearFieldOF_Inv :=
                                      AllBound_CNearFieldOF_Inv s + CNearFieldOF_Inv s iMarker\<rparr>
                         in (s, Origin)))
                else (s, Origin))
          else (s, Origin)))"

text \<open>
  The two blocks under \<^verbatim>\<open>HAVE_MPI\<close>; \<open>ranks\<close> are the other processes at this point. The
  statements on the sixteen fields of the global accumulator come first, as a function of
  the accumulator of this process and those of the others.
\<close>

definition Pressure_reduce_coeffs :: "su2double \<Rightarrow> AeroCoeffs \<Rightarrow> AeroCoeffs list \<Rightarrow> AeroCoeffs" where
  "Pressure_reduce_coeffs eps A ranks =
     (let others = (\<lambda>F. map F ranks);
          A = A\<lparr>CD := Allreduce (CD A) (others CD)\<rparr>;
          A = A\<lparr>CL := Allreduce (CL A) (others CL)\<rparr>;
          A = A\<lparr>CSF := Allreduce (CSF A) (others CSF)\<rparr>;
          A = A\<lparr>CEff := CL A / (CD A + eps)\<rparr>;
          A = A\<lparr>CMx := Allreduce (CMx A) (others CMx)\<rparr>;
          A = A\<lparr>CMy := Allreduce (CMy A) (others CMy)\<rparr>;
          A = A\<lparr>CMz := Allreduce (CMz A) (others CMz)\<rparr>;
          A = A\<lparr>CoPx := Allreduce (CoPx A) (others CoPx)\<rparr>;
          A = A\<lparr>CoPy := Allreduce (CoPy A) (others CoPy)\<rparr>;
          A = A\<lparr>CoPz := Allreduce (CoPz A) (others CoPz)\<rparr>;
          A = A\<lparr>CFx := Allreduce (CFx A) (others CFx)\<rparr>;
          A = A\<lparr>CFy := Allreduce (CFy A) (others CFy)\<rparr>;
          A = A\<lparr>CFz := Allreduce (CFz A) (others CFz)\<rparr>;
          A = A\<lparr>CT := Allreduce (CT A) (others CT)\<rparr>;
          A = A\<lparr>CQ := Allreduce (CQ A) (others CQ)\<rparr>;
          A = A\<lparr>CMerit := CT A / (CQ A + eps)\<rparr>
      in A)"

definition Pressure_reduce_AllBound ::
  "su2double \<Rightarrow> CFVMFlowSolverBase \<Rightarrow> CFVMFlowSolverBase list \<Rightarrow> CFVMFlowSolverBase" where
  "Pressure_reduce_AllBound eps s ranks =
     (let s = s\<lparr>AllBoundInvCoeff :=
                  Pressure_reduce_coeffs eps (AllBoundInvCoeff s) (map AllBoundInvCoeff ranks)\<rparr>;
          s = s\<lparr>AllBound_CNearFieldOF_Inv :=
                  Allreduce (AllBound_CNearFieldOF_Inv s) (map AllBound_CNearFieldOF_Inv ranks)\<rparr>
      in s)"

definition Pressure_reduce_Surface ::
  "su2double \<Rightarrow> nat \<Rightarrow> AeroCoeffsArray \<Rightarrow> AeroCoeffsArray list \<Rightarrow> AeroCoeffsArray" where
  "Pressure_reduce_Surface eps nMarkerMon X others =
     (let X = Allreduce_array nMarkerMon CL CL_update X others;
          X = Allreduce_array nMarkerMon CD CD_update X others;
          X = Allreduce_array nMarkerMon CSF CSF_update X others;
          X = X\<lparr>slots := (\<lambda>iMarker_Monitoring.
                   if iMarker_Monitoring < nMarkerMon
                   then (slots X iMarker_Monitoring)\<lparr>CEff :=
                          CL (slots X iMarker_Monitoring)
                            / (CD (slots X iMarker_Monitoring) + eps)\<rparr>
                   else slots X iMarker_Monitoring)\<rparr>;
          X = Allreduce_array nMarkerMon CFx CFx_update X others;
          X = Allreduce_array nMarkerMon CFy CFy_update X others;
          X = Allreduce_array nMarkerMon CFz CFz_update X others;
          X = Allreduce_array nMarkerMon CMx CMx_update X others;
          X = Allreduce_array nMarkerMon CMy CMy_update X others;
          X = Allreduce_array nMarkerMon CMz CMz_update X others
      in X)"

text \<open>The update of the totals at the end of the function.\<close>

definition Pressure_TotalCoeff :: "su2double \<Rightarrow> AeroCoeffs \<Rightarrow> AeroCoeffs \<Rightarrow> AeroCoeffs" where
  "Pressure_TotalCoeff eps A T =
     (let T = T\<lparr>CD := CD A\<rparr>;
          T = T\<lparr>CL := CL A\<rparr>;
          T = T\<lparr>CSF := CSF A\<rparr>;
          T = T\<lparr>CEff := CL T / (CD T + eps)\<rparr>;
          T = T\<lparr>CFx := CFx A\<rparr>;
          T = T\<lparr>CFy := CFy A\<rparr>;
          T = T\<lparr>CFz := CFz A\<rparr>;
          T = T\<lparr>CMx := CMx A\<rparr>;
          T = T\<lparr>CMy := CMy A\<rparr>;
          T = T\<lparr>CMz := CMz A\<rparr>;
          T = T\<lparr>CoPx := CoPx A\<rparr>;
          T = T\<lparr>CoPy := CoPy A\<rparr>;
          T = T\<lparr>CoPz := CoPz A\<rparr>;
          T = T\<lparr>CT := CT A\<rparr>;
          T = T\<lparr>CQ := CQ A\<rparr>;
          T = T\<lparr>CMerit := CT T / (CQ T + eps)\<rparr>
      in T)"

definition Pressure_SurfaceCoeff_slot :: "su2double \<Rightarrow> AeroCoeffs \<Rightarrow> AeroCoeffs \<Rightarrow> AeroCoeffs" where
  "Pressure_SurfaceCoeff_slot eps I S =
     (let S = S\<lparr>CL := CL I\<rparr>;
          S = S\<lparr>CD := CD I\<rparr>;
          S = S\<lparr>CSF := CSF I\<rparr>;
          S = S\<lparr>CEff := CL I / (CD I + eps)\<rparr>;
          S = S\<lparr>CFx := CFx I\<rparr>;
          S = S\<lparr>CFy := CFy I\<rparr>;
          S = S\<lparr>CFz := CFz I\<rparr>;
          S = S\<lparr>CMx := CMx I\<rparr>;
          S = S\<lparr>CMy := CMy I\<rparr>;
          S = S\<lparr>CMz := CMz I\<rparr>
      in S)"

text \<open>
  A loop \<^verbatim>\<open>for (iMarker_Monitoring = 0; iMarker_Monitoring < n; ...)\<close> that updates slot
  \<^verbatim>\<open>iMarker_Monitoring\<close> of \<open>X\<close> from the same slot of \<open>Y\<close>.
\<close>

definition surface_loop ::
  "nat \<Rightarrow> (AeroCoeffs \<Rightarrow> AeroCoeffs \<Rightarrow> AeroCoeffs) \<Rightarrow> AeroCoeffsArray \<Rightarrow> AeroCoeffsArray
     \<Rightarrow> AeroCoeffsArray" where
  "surface_loop n upd Y X =
     fold (\<lambda>iMarker_Monitoring X.
             X\<lparr>slots := (slots X)(iMarker_Monitoring :=
                  upd (slots Y iMarker_Monitoring) (slots X iMarker_Monitoring))\<rparr>)
          [0 ..< n] X"

definition Pressure_init :: "CFVMFlowSolverBase \<Rightarrow> CFVMFlowSolverBase" where
  "Pressure_init s =
     (let s = s\<lparr>TotalCoeff := AeroCoeffs_setZero\<rparr>;
          s = s\<lparr>Total_CNearFieldOF := 0\<rparr>;
          s = s\<lparr>Total_Heat := 0\<rparr>;
          s = s\<lparr>Total_MaxHeat := 0\<rparr>;
          s = s\<lparr>AllBoundInvCoeff := AeroCoeffs_setZero\<rparr>;
          s = s\<lparr>AllBound_CNearFieldOF_Inv := 0\<rparr>;
          s = s\<lparr>SurfaceInvCoeff := setZero (SurfaceInvCoeff s)\<rparr>;
          s = s\<lparr>SurfaceCoeff := setZero (SurfaceCoeff s)\<rparr>
      in s)"

definition Pressure_reduce ::
  "CSolverData \<Rightarrow> CConfig \<Rightarrow> CFVMFlowSolverBase \<Rightarrow> CFVMFlowSolverBase list
     \<Rightarrow> CFVMFlowSolverBase" where
  "Pressure_reduce d config s ranks =
     (let s = (if Comm_Level config = COMM_FULL
               then Pressure_reduce_AllBound (EPS d) s ranks else s);
          s = (if Comm_Level config = COMM_FULL
               then s\<lparr>SurfaceInvCoeff :=
                        Pressure_reduce_Surface (EPS d) (nMarker_Monitoring config)
                          (SurfaceInvCoeff s) (map SurfaceInvCoeff ranks)\<rparr>
               else s)
      in s)"

definition Pressure_totals ::
  "CSolverData \<Rightarrow> CConfig \<Rightarrow> CFVMFlowSolverBase \<Rightarrow> CFVMFlowSolverBase" where
  "Pressure_totals d config s =
     (let s = s\<lparr>TotalCoeff := Pressure_TotalCoeff (EPS d) (AllBoundInvCoeff s) (TotalCoeff s)\<rparr>;
          s = s\<lparr>Total_CNearFieldOF := AllBound_CNearFieldOF_Inv s\<rparr>;
          s = s\<lparr>SurfaceCoeff :=
                  surface_loop (nMarker_Monitoring config) (Pressure_SurfaceCoeff_slot (EPS d))
                    (SurfaceInvCoeff s) (SurfaceCoeff s)\<rparr>
      in s)"

text \<open>
  The accumulation of one process, up to the all-reduce, and the whole function.
\<close>

definition Pressure_local ::
  "CSolverData \<Rightarrow> CConfig \<Rightarrow> CGeometry \<Rightarrow> CVariable \<Rightarrow> CFVMFlowSolverBase
     \<Rightarrow> CFVMFlowSolverBase" where
  "Pressure_local d config geometry nodes s =
     fst (fold (Pressure_marker d config geometry nodes (force_factor d config))
            [0 ..< nMarker d] (Pressure_init s, RefOriginMoment config 0))"

definition Pressure_Forces ::
  "CSolverData \<Rightarrow> CConfig \<Rightarrow> CGeometry \<Rightarrow> CVariable \<Rightarrow> CFVMFlowSolverBase list
     \<Rightarrow> CFVMFlowSolverBase \<Rightarrow> CFVMFlowSolverBase" where
  "Pressure_Forces d config geometry nodes ranks s =
     (let s = Pressure_local d config geometry nodes s;
          s = (if HAVE_MPI d then Pressure_reduce d config s ranks else s)
      in Pressure_totals d config s)"


subsection \<open>Momentum\_Forces\<close>

text \<open>
  The moments of one vertex. The guard reads the counter \<^verbatim>\<open>iDim\<close> that the force loop
  has left behind.
\<close>

definition Momentum_moments ::
  "nat \<Rightarrow> vec \<Rightarrow> vec \<Rightarrow> vec \<Rightarrow> su2double \<Rightarrow> marker_sums \<Rightarrow> marker_sums" where
  "Momentum_moments iDim Force MomentDist Coord' RefLength' a =
     (let a = (if iDim = 3
               then (let a = a\<lparr>MomentSum := (MomentSum a)(0 := MomentSum a 0
                                 + (Force 2 * MomentDist 1 - Force 1 * MomentDist 2) / RefLength')\<rparr>;
                         a = a\<lparr>MomentX_Force := (MomentX_Force a)(1 := MomentX_Force a 1
                                 + (- Force 1 * Coord' 2))\<rparr>;
                         a = a\<lparr>MomentX_Force := (MomentX_Force a)(2 := MomentX_Force a 2
                                 + (Force 2 * Coord' 1))\<rparr>;
                         a = a\<lparr>MomentSum := (MomentSum a)(1 := MomentSum a 1
                                 + (Force 0 * MomentDist 2 - Force 2 * MomentDist 0) / RefLength')\<rparr>;
                         a = a\<lparr>MomentY_Force := (MomentY_Force a)(2 := MomentY_Force a 2
                                 + (- Force 2 * Coord' 0))\<rparr>;
                         a = a\<lparr>MomentY_Force := (MomentY_Force a)(0 := MomentY_Force a 0
                                 + (Force 0 * Coord' 2))\<rparr>
                     in a)
               else a);
          a = a\<lparr>MomentSum := (MomentSum a)(2 := MomentSum a 2
                  + (Force 1 * MomentDist 0 - Force 0 * MomentDist 1) / RefLength')\<rparr>;
          a = a\<lparr>MomentZ_Force := (MomentZ_Force a)(0 := MomentZ_Force a 0
                  + (- Force 0 * Coord' 1))\<rparr>;
          a = a\<lparr>MomentZ_Force := (MomentZ_Force a)(1 := MomentZ_Force a 1
                  + (Force 1 * Coord' 0))\<rparr>
      in a)"

text \<open>
  The body of \<^verbatim>\<open>if (GetDomain(iPoint) && (Monitoring == YES))\<close> for one vertex. The first
  loop fills \<^verbatim>\<open>Velocity\<close> and \<^verbatim>\<open>MomentDist\<close> and sums \<^verbatim>\<open>MassFlow\<close>; \<^verbatim>\<open>Area\<close> is computed and
  not read.
\<close>

definition Momentum_vertex_sums ::
  "CSolverData \<Rightarrow> CConfig \<Rightarrow> CGeometry \<Rightarrow> CVariable \<Rightarrow> su2double \<Rightarrow> vec \<Rightarrow> CVertex
     \<Rightarrow> marker_sums \<Rightarrow> marker_sums" where
  "Momentum_vertex_sums d config geometry nodes factor Origin v a =
     (let iPoint = Node v;
          Normal = Normal v;
          Coord = Coord geometry iPoint;
          Density = Density nodes iPoint;
          Area = sqrt (\<Sum>iDim<nDim d. Normal iDim * Normal iDim);
          Velocity = (\<lambda>iDim. if iDim < nDim d then Velocity nodes iPoint iDim else 0);
          MomentDist = (\<lambda>iDim. if iDim < nDim d then Coord iDim - Origin iDim else 0);
          MassFlow = 0 - (\<Sum>iDim<nDim d. Normal iDim * Velocity iDim * Density);
          AxiFactor = axi_factor d config geometry iPoint;
          (iDim, Force, a) =
             for_iDim 0 (nDim d)
               (\<lambda>iDim (Force, a).
                  let Force = Force(iDim := MassFlow * Velocity iDim * factor * AxiFactor)
                  in (Force, a\<lparr>ForceSum := (ForceSum a)(iDim := ForceSum a iDim + Force iDim)\<rparr>))
               (\<lambda>_. 0, a)
      in Momentum_moments iDim Force MomentDist Coord (RefLength config) a)"

definition Momentum_vertex ::
  "CSolverData \<Rightarrow> CConfig \<Rightarrow> CGeometry \<Rightarrow> CVariable \<Rightarrow> su2double \<Rightarrow> bool \<Rightarrow> vec \<Rightarrow> nat
     \<Rightarrow> nat \<Rightarrow> marker_sums \<Rightarrow> marker_sums" where
  "Momentum_vertex d config geometry nodes factor Monitoring Origin iMarker iVertex a =
     (let iPoint = Node (vertex geometry iMarker ! iVertex)
      in if GetDomain geometry iPoint \<and> Monitoring
         then Momentum_vertex_sums d config geometry nodes factor Origin
                (vertex geometry iMarker ! iVertex) a
         else a)"

definition Momentum_project_2D ::
  "su2double \<Rightarrow> su2double \<Rightarrow> marker_sums \<Rightarrow> AeroCoeffs \<Rightarrow> AeroCoeffs" where
  "Momentum_project_2D eps Alpha a c =
     (let c = c\<lparr>CD := ForceSum a 0 * cos Alpha + ForceSum a 1 * sin Alpha\<rparr>;
          c = c\<lparr>CL := - ForceSum a 0 * sin Alpha + ForceSum a 1 * cos Alpha\<rparr>;
          c = c\<lparr>CEff := CL c / (CD c + eps)\<rparr>;
          c = c\<lparr>CFx := ForceSum a 0\<rparr>;
          c = c\<lparr>CFy := ForceSum a 1\<rparr>;
          c = c\<lparr>CMz := MomentSum a 2\<rparr>;
          c = c\<lparr>CoPx := MomentZ_Force a 1\<rparr>;
          c = c\<lparr>CoPy := - MomentZ_Force a 0\<rparr>;
          c = c\<lparr>CT := - CFx c\<rparr>;
          c = c\<lparr>CQ := - CMz c\<rparr>;
          c = c\<lparr>CMerit := CT c / (CQ c + eps)\<rparr>
      in c)"

definition Momentum_project_3D ::
  "su2double \<Rightarrow> su2double \<Rightarrow> su2double \<Rightarrow> marker_sums \<Rightarrow> AeroCoeffs \<Rightarrow> AeroCoeffs" where
  "Momentum_project_3D eps Alpha Beta a c =
     (let c = c\<lparr>CD := ForceSum a 0 * cos Alpha * cos Beta + ForceSum a 1 * sin Beta
                      + ForceSum a 2 * sin Alpha * cos Beta\<rparr>;
          c = c\<lparr>CL := - ForceSum a 0 * sin Alpha + ForceSum a 2 * cos Alpha\<rparr>;
          c = c\<lparr>CSF := - ForceSum a 0 * sin Beta * cos Alpha + ForceSum a 1 * cos Beta
                      - ForceSum a 2 * sin Beta * sin Alpha\<rparr>;
          c = c\<lparr>CEff := CL c / (CD c + eps)\<rparr>;
          c = c\<lparr>CFx := ForceSum a 0\<rparr>;
          c = c\<lparr>CFy := ForceSum a 1\<rparr>;
          c = c\<lparr>CFz := ForceSum a 2\<rparr>;
          c = c\<lparr>CMx := MomentSum a 0\<rparr>;
          c = c\<lparr>CMy := MomentSum a 1\<rparr>;
          c = c\<lparr>CMz := MomentSum a 2\<rparr>;
          c = c\<lparr>CoPx := - MomentY_Force a 0\<rparr>;
          c = c\<lparr>CoPz := MomentY_Force a 2\<rparr>;
          c = c\<lparr>CT := - CFz c\<rparr>;
          c = c\<lparr>CQ := - CMz c\<rparr>;
          c = c\<lparr>CMerit := CT c / (CQ c + eps)\<rparr>
      in c)"

text \<open>
  The sums over all boundaries, statement by statement as the source has them: the third
  moment statement adds \<^verbatim>\<open>MntCoeff.CMz[iMarker]\<close> to \<^verbatim>\<open>AllBoundMntCoeff.CMx\<close>, and the last
  statement adds to \<^verbatim>\<open>AllBoundMntCoeff.CMerit\<close>.
\<close>

definition Momentum_AllBound :: "su2double \<Rightarrow> AeroCoeffs \<Rightarrow> AeroCoeffs \<Rightarrow> AeroCoeffs" where
  "Momentum_AllBound eps m A =
     (let A = A\<lparr>CD := CD A + CD m\<rparr>;
          A = A\<lparr>CL := CL A + CL m\<rparr>;
          A = A\<lparr>CSF := CSF A + CSF m\<rparr>;
          A = A\<lparr>CEff := CL A / (CD A + eps)\<rparr>;
          A = A\<lparr>CFx := CFx A + CFx m\<rparr>;
          A = A\<lparr>CFy := CFy A + CFy m\<rparr>;
          A = A\<lparr>CFz := CFz A + CFz m\<rparr>;
          A = A\<lparr>CMx := CMx A + CMx m\<rparr>;
          A = A\<lparr>CMy := CMy A + CMy m\<rparr>;
          A = A\<lparr>CMx := CMx A + CMz m\<rparr>;
          A = A\<lparr>CoPx := CoPx A + CoPx m\<rparr>;
          A = A\<lparr>CoPy := CoPy A + CoPy m\<rparr>;
          A = A\<lparr>CoPz := CoPz A + CoPz m\<rparr>;
          A = A\<lparr>CT := CT A + CT m\<rparr>;
          A = A\<lparr>CQ := CQ A + CQ m\<rparr>;
          A = A\<lparr>CMerit := CMerit A + CT A / (CQ A + eps)\<rparr>
      in A)"

definition Momentum_Surface_slot :: "su2double \<Rightarrow> AeroCoeffs \<Rightarrow> AeroCoeffs \<Rightarrow> AeroCoeffs" where
  "Momentum_Surface_slot eps m S =
     (let S = S\<lparr>CL := CL S + CL m\<rparr>;
          S = S\<lparr>CD := CD S + CD m\<rparr>;
          S = S\<lparr>CSF := CSF S + CSF m\<rparr>;
          S = S\<lparr>CEff := CL m / (CD m + eps)\<rparr>;
          S = S\<lparr>CFx := CFx S + CFx m\<rparr>;
          S = S\<lparr>CFy := CFy S + CFy m\<rparr>;
          S = S\<lparr>CFz := CFz S + CFz m\<rparr>;
          S = S\<lparr>CMx := CMx S + CMx m\<rparr>;
          S = S\<lparr>CMy := CMy S + CMy m\<rparr>;
          S = S\<lparr>CMz := CMz S + CMz m\<rparr>
      in S)"

definition Momentum_Surface ::
  "CSolverData \<Rightarrow> CConfig \<Rightarrow> nat \<Rightarrow> AeroCoeffs \<Rightarrow> AeroCoeffsArray \<Rightarrow> AeroCoeffsArray" where
  "Momentum_Surface d config iMarker m X =
     fold (\<lambda>iMarker_Monitoring X.
             if Marker_All_TagBound config iMarker
                  = Marker_Monitoring_TagBound config iMarker_Monitoring
             then X\<lparr>slots := (slots X)(iMarker_Monitoring :=
                        Momentum_Surface_slot (EPS d) m (slots X iMarker_Monitoring))\<rparr>
             else X)
          [0 ..< nMarker_Monitoring config] X"

definition Momentum_marker ::
  "CSolverData \<Rightarrow> CConfig \<Rightarrow> CGeometry \<Rightarrow> CVariable \<Rightarrow> su2double \<Rightarrow> nat
     \<Rightarrow> CFVMFlowSolverBase \<times> vec \<Rightarrow> CFVMFlowSolverBase \<times> vec" where
  "Momentum_marker d config geometry nodes factor iMarker st =
     (case st of (s, Origin) \<Rightarrow>
      (let Alpha = AoA config * PI_NUMBER d / 180;
           Beta = AoS config * PI_NUMBER d / 180;
           Boundary = Marker_All_KindBC config iMarker;
           Monitoring = Marker_All_Monitoring config iMarker;
           Origin = (if Monitoring then moment_origin config iMarker Origin else Origin)
       in if Boundary = INLET_FLOW \<or> Boundary = OUTLET_FLOW
             \<or> Boundary = ACTDISK_INLET \<or> Boundary = ACTDISK_OUTLET
             \<or> Boundary = ENGINE_INFLOW \<or> Boundary = ENGINE_EXHAUST
          then
            (let s = s\<lparr>MntCoeff := setZero_i iMarker (MntCoeff s)\<rparr>;
                 a = fold (Momentum_vertex d config geometry nodes factor Monitoring Origin iMarker)
                       [0 ..< length (vertex geometry iMarker)] zero_sums
             in if Monitoring
                then
                  (let c = slots (MntCoeff s) iMarker;
                       c = (if nDim d = 2 then Momentum_project_2D (EPS d) Alpha a c else c);
                       c = (if nDim d = 3 then Momentum_project_3D (EPS d) Alpha Beta a c
                            else c);
                       s = s\<lparr>MntCoeff := (MntCoeff s)\<lparr>slots :=
                                (slots (MntCoeff s))(iMarker := c)\<rparr>\<rparr>;
                       s = s\<lparr>AllBoundMntCoeff :=
                                Momentum_AllBound (EPS d) c (AllBoundMntCoeff s)\<rparr>;
                       s = s\<lparr>SurfaceMntCoeff :=
                                Momentum_Surface d config iMarker c (SurfaceMntCoeff s)\<rparr>
                   in (s, Origin))
                else (s, Origin))
          else (s, Origin)))"

definition Momentum_reduce_coeffs :: "su2double \<Rightarrow> AeroCoeffs \<Rightarrow> AeroCoeffs list \<Rightarrow> AeroCoeffs" where
  "Momentum_reduce_coeffs eps A ranks =
     (let others = (\<lambda>F. map F ranks);
          A = A\<lparr>CD := Allreduce (CD A) (others CD)\<rparr>;
          A = A\<lparr>CL := Allreduce (CL A) (others CL)\<rparr>;
          A = A\<lparr>CSF := Allreduce (CSF A) (others CSF)\<rparr>;
          A = A\<lparr>CEff := CL A / (CD A + eps)\<rparr>;
          A = A\<lparr>CFx := Allreduce (CFx A) (others CFx)\<rparr>;
          A = A\<lparr>CFy := Allreduce (CFy A) (others CFy)\<rparr>;
          A = A\<lparr>CFz := Allreduce (CFz A) (others CFz)\<rparr>;
          A = A\<lparr>CMx := Allreduce (CMx A) (others CMx)\<rparr>;
          A = A\<lparr>CMy := Allreduce (CMy A) (others CMy)\<rparr>;
          A = A\<lparr>CMz := Allreduce (CMz A) (others CMz)\<rparr>;
          A = A\<lparr>CoPx := Allreduce (CoPx A) (others CoPx)\<rparr>;
          A = A\<lparr>CoPy := Allreduce (CoPy A) (others CoPy)\<rparr>;
          A = A\<lparr>CoPz := Allreduce (CoPz A) (others CoPz)\<rparr>;
          A = A\<lparr>CT := Allreduce (CT A) (others CT)\<rparr>;
          A = A\<lparr>CQ := Allreduce (CQ A) (others CQ)\<rparr>;
          A = A\<lparr>CMerit := CT A / (CQ A + eps)\<rparr>
      in A)"

definition Momentum_reduce_AllBound ::
  "su2double \<Rightarrow> CFVMFlowSolverBase \<Rightarrow> CFVMFlowSolverBase list \<Rightarrow> CFVMFlowSolverBase" where
  "Momentum_reduce_AllBound eps s ranks =
     s\<lparr>AllBoundMntCoeff :=
         Momentum_reduce_coeffs eps (AllBoundMntCoeff s) (map AllBoundMntCoeff ranks)\<rparr>"

definition Momentum_reduce_Surface ::
  "su2double \<Rightarrow> nat \<Rightarrow> AeroCoeffsArray \<Rightarrow> AeroCoeffsArray list \<Rightarrow> AeroCoeffsArray" where
  "Momentum_reduce_Surface eps nMarkerMon X others =
     (let X = Allreduce_array nMarkerMon CL CL_update X others;
          X = Allreduce_array nMarkerMon CD CD_update X others;
          X = Allreduce_array nMarkerMon CSF CSF_update X others;
          X = X\<lparr>slots := (\<lambda>iMarker_Monitoring.
                   if iMarker_Monitoring < nMarkerMon
                   then (slots X iMarker_Monitoring)\<lparr>CEff :=
                          CL (slots X iMarker_Monitoring)
                            / (CD (slots X iMarker_Monitoring) + eps)\<rparr>
                   else slots X iMarker_Monitoring)\<rparr>;
          X = Allreduce_array nMarkerMon CFx CFx_update X others;
          X = Allreduce_array nMarkerMon CFy CFy_update X others;
          X = Allreduce_array nMarkerMon CFz CFz_update X others;
          X = Allreduce_array nMarkerMon CMx CMx_update X others;
          X = Allreduce_array nMarkerMon CMy CMy_update X others;
          X = Allreduce_array nMarkerMon CMz CMz_update X others
      in X)"

definition Momentum_TotalCoeff :: "su2double \<Rightarrow> AeroCoeffs \<Rightarrow> AeroCoeffs \<Rightarrow> AeroCoeffs" where
  "Momentum_TotalCoeff eps A T =
     (let T = T\<lparr>CD := CD T + CD A\<rparr>;
          T = T\<lparr>CL := CL T + CL A\<rparr>;
          T = T\<lparr>CSF := CSF T + CSF A\<rparr>;
          T = T\<lparr>CEff := CL T / (CD T + eps)\<rparr>;
          T = T\<lparr>CFx := CFx T + CFx A\<rparr>;
          T = T\<lparr>CFy := CFy T + CFy A\<rparr>;
          T = T\<lparr>CFz := CFz T + CFz A\<rparr>;
          T = T\<lparr>CMx := CMx T + CMx A\<rparr>;
          T = T\<lparr>CMy := CMy T + CMy A\<rparr>;
          T = T\<lparr>CMz := CMz T + CMz A\<rparr>;
          T = T\<lparr>CoPx := CoPx T + CoPx A\<rparr>;
          T = T\<lparr>CoPy := CoPy T + CoPy A\<rparr>;
          T = T\<lparr>CoPz := CoPz T + CoPz A\<rparr>;
          T = T\<lparr>CT := CT T + CT A\<rparr>;
          T = T\<lparr>CQ := CQ T + CQ A\<rparr>;
          T = T\<lparr>CMerit := CT T / (CQ T + eps)\<rparr>
      in T)"

definition Momentum_SurfaceCoeff_slot :: "su2double \<Rightarrow> AeroCoeffs \<Rightarrow> AeroCoeffs \<Rightarrow> AeroCoeffs" where
  "Momentum_SurfaceCoeff_slot eps M S =
     (let S = S\<lparr>CL := CL S + CL M\<rparr>;
          S = S\<lparr>CD := CD S + CD M\<rparr>;
          S = S\<lparr>CSF := CSF S + CSF M\<rparr>;
          S = S\<lparr>CEff := CEff S + CL M / (CD M + eps)\<rparr>;
          S = S\<lparr>CFx := CFx S + CFx M\<rparr>;
          S = S\<lparr>CFy := CFy S + CFy M\<rparr>;
          S = S\<lparr>CFz := CFz S + CFz M\<rparr>;
          S = S\<lparr>CMx := CMx S + CMx M\<rparr>;
          S = S\<lparr>CMy := CMy S + CMy M\<rparr>;
          S = S\<lparr>CMz := CMz S + CMz M\<rparr>
      in S)"

definition Momentum_init :: "CFVMFlowSolverBase \<Rightarrow> CFVMFlowSolverBase" where
  "Momentum_init s =
     (let s = s\<lparr>AllBoundMntCoeff := AeroCoeffs_setZero\<rparr>;
          s = s\<lparr>SurfaceMntCoeff := setZero (SurfaceMntCoeff s)\<rparr>
      in s)"

definition Momentum_reduce ::
  "CSolverData \<Rightarrow> CConfig \<Rightarrow> CFVMFlowSolverBase \<Rightarrow> CFVMFlowSolverBase list
     \<Rightarrow> CFVMFlowSolverBase" where
  "Momentum_reduce d config s ranks =
     (let s = (if Comm_Level config = COMM_FULL
               then Momentum_reduce_AllBound (EPS d) s ranks else s);
          s = (if Comm_Level config = COMM_FULL
               then s\<lparr>SurfaceMntCoeff :=
                        Momentum_reduce_Surface (EPS d) (nMarker_Monitoring config)
                          (SurfaceMntCoeff s) (map SurfaceMntCoeff ranks)\<rparr>
               else s)
      in s)"

definition Momentum_totals ::
  "CSolverData \<Rightarrow> CConfig \<Rightarrow> CFVMFlowSolverBase \<Rightarrow> CFVMFlowSolverBase" where
  "Momentum_totals d config s =
     (let s = s\<lparr>TotalCoeff := Momentum_TotalCoeff (EPS d) (AllBoundMntCoeff s) (TotalCoeff s)\<rparr>;
          s = s\<lparr>SurfaceCoeff :=
                  surface_loop (nMarker_Monitoring config) (Momentum_SurfaceCoeff_slot (EPS d))
                    (SurfaceMntCoeff s) (SurfaceCoeff s)\<rparr>
      in s)"

definition Momentum_local ::
  "CSolverData \<Rightarrow> CConfig \<Rightarrow> CGeometry \<Rightarrow> CVariable \<Rightarrow> CFVMFlowSolverBase
     \<Rightarrow> CFVMFlowSolverBase" where
  "Momentum_local d config geometry nodes s =
     fst (fold (Momentum_marker d config geometry nodes (force_factor d config))
            [0 ..< nMarker d] (Momentum_init s, RefOriginMoment config 0))"

definition Momentum_Forces ::
  "CSolverData \<Rightarrow> CConfig \<Rightarrow> CGeometry \<Rightarrow> CVariable \<Rightarrow> CFVMFlowSolverBase list
     \<Rightarrow> CFVMFlowSolverBase \<Rightarrow> CFVMFlowSolverBase" where
  "Momentum_Forces d config geometry nodes ranks s =
     (let s = Momentum_local d config geometry nodes s;
          s = (if HAVE_MPI d then Momentum_reduce d config s ranks else s)
      in Momentum_totals d config s)"


subsection \<open>Friction\_Forces\<close>

text \<open>
  The source divides without a test, and takes the square root of a quotient that is
  negative when the density is. Every quotient of the loop over the vertices whose divisor
  is read from the mesh, from the flow field or from the configuration is written with
  \<open>fdiv\<close>, and the square root of \<^verbatim>\<open>fabs(WallShearStress)/Density\<close> with \<open>fsqrt\<close>: a zero
  divisor ends the pass of the model with \<open>DivisionByZero\<close>, a negative argument of the root
  with \<open>InvalidOperation\<close>. The program raises nothing there: it stores the infinity or the
  NaN and goes on, with values that are not real numbers any more; the error of the model
  marks the first place where that happens. The divisor \<^verbatim>\<open>den_aux\<close> of the QCR term is floored
  by the source (\<^verbatim>\<open>sqrt(max(den_aux,1E-10))\<close>) and the other square roots are taken of sums of
  squares; they are written with the functions of HOL. The force factor and the reference
  values are computed once before the loops, as in the other two integrations.

  \<^verbatim>\<open>CSkinFriction[iMarker][iDim][iVertex]\<close> is written through the rows that \<^verbatim>\<open>Allocate\<close>
  made: an index outside them is the error \<open>OutOfBounds\<close> (the behaviour of the program is
  undefined there).
\<close>

datatype pass_error = DivisionByZero | InvalidOperation | OutOfBounds

definition fdiv :: "su2double \<Rightarrow> su2double \<Rightarrow> pass_error + su2double" where
  "fdiv x y = (if y = 0 then Inl DivisionByZero else Inr (x / y))"

definition fsqrt :: "su2double \<Rightarrow> pass_error + su2double" where
  "fsqrt x = (if x < 0 then Inl InvalidOperation else Inr (sqrt x))"

text \<open>
  \<^verbatim>\<open>X[i][j] = x\<close> on an array of rows: row \<open>i\<close> is looked up first, then its entry \<open>j\<close>.
\<close>

definition store2 ::
  "su2double list list \<Rightarrow> nat \<Rightarrow> nat \<Rightarrow> su2double \<Rightarrow> pass_error + su2double list list" where
  "store2 X i j x =
     (if i < length X \<and> j < length (X ! i) then Inr (X[i := (X ! i)[j := x]])
      else Inl OutOfBounds)"

text \<open>
  \<^verbatim>\<open>for (iDim = 0; iDim < nDim; iDim++) UnitNormal[iDim] = Normal[iDim]/Area\<close>: one
  division per dimension, all by \<^verbatim>\<open>Area\<close>.
\<close>

definition unit_normal :: "nat \<Rightarrow> vec \<Rightarrow> su2double \<Rightarrow> pass_error + vec" where
  "unit_normal n Normal' Area' =
     (if 0 < n \<and> Area' = 0 then Inl DivisionByZero
      else Inr (\<lambda>iDim. if iDim < n then Normal' iDim / Area' else 0))"

text \<open>
  The quotients \<^verbatim>\<open>TauTangent[iDim] / (0.5*RefDensity*RefVel2)\<close> of the loop that stores the
  skin friction: one division per dimension, all by the same number.
\<close>

definition skin_friction :: "nat \<Rightarrow> vec \<Rightarrow> su2double \<Rightarrow> pass_error + vec" where
  "skin_friction n TauTangent' K =
     (if 0 < n \<and> K = 0 then Inl DivisionByZero
      else Inr (\<lambda>iDim. if iDim < n then TauTangent' iDim / K else 0))"

text \<open>A loop that ends at the first error.\<close>

fun fold_err :: "('i \<Rightarrow> 'st \<Rightarrow> pass_error + 'st) \<Rightarrow> 'i list \<Rightarrow> 'st \<Rightarrow> pass_error + 'st" where
  "fold_err f [] st = Inr st"
| "fold_err f (x # xs) st = (case f x st of Inl e \<Rightarrow> Inl e | Inr st' \<Rightarrow> fold_err f xs st')"

text \<open>
  \<^verbatim>\<open>MaxNorm = 8.0\<close>. \<^verbatim>\<open>pow(x, MaxNorm)\<close> is the eighth power of \<open>x\<close> for every \<open>x\<close>, and
  \<^verbatim>\<open>pow(y, 1.0/MaxNorm)\<close> is the eighth root of \<open>y\<close> for \<open>y \<ge> 0\<close>; the source applies it to
  sums of eighth powers only.
\<close>

definition MaxNorm :: nat where
  "MaxNorm = 8"

definition pow_MaxNorm :: "su2double \<Rightarrow> su2double" where
  "pow_MaxNorm x = x ^ MaxNorm"

definition pow_inv_MaxNorm :: "su2double \<Rightarrow> su2double" where
  "pow_inv_MaxNorm y = root MaxNorm y"

text \<open>The viscous stress tensor with the optional QCR term.\<close>

definition Friction_Tau ::
  "CSolverData \<Rightarrow> CConfig \<Rightarrow> (nat \<Rightarrow> nat \<Rightarrow> su2double) \<Rightarrow> su2double
     \<Rightarrow> nat \<Rightarrow> nat \<Rightarrow> su2double" where
  "Friction_Tau d config Grad_Vel Viscosity =
     (let n = nDim d;
          delta = (\<lambda>iDim jDim. if iDim = jDim then 1 else 0);
          div_vel = (\<Sum>iDim<n. Grad_Vel iDim iDim);
          Tau = (\<lambda>iDim jDim.
                   if iDim < n \<and> jDim < n
                   then Viscosity * (Grad_Vel jDim iDim + Grad_Vel iDim jDim)
                          - TWO3 d * Viscosity * div_vel * delta iDim jDim
                   else 0)
      in if QCR config
         then (let den_aux = sqrt (max (\<Sum>iDim<n. \<Sum>jDim<n. Grad_Vel iDim jDim * Grad_Vel iDim jDim)
                                        (1 / 10 ^ 10));
                   c_cr1 = 0.3;
                   tauQCR = (\<lambda>iDim jDim.
                      if iDim < n \<and> jDim < n
                      then (\<Sum>kDim<n.
                              (Grad_Vel iDim kDim - Grad_Vel kDim iDim) / den_aux * Tau jDim kDim
                            + (Grad_Vel jDim kDim - Grad_Vel kDim jDim) / den_aux * Tau iDim kDim)
                      else 0)
               in (\<lambda>iDim jDim. if iDim < n \<and> jDim < n
                                then Tau iDim jDim - c_cr1 * tauQCR iDim jDim
                                else Tau iDim jDim))
         else Tau)"

text \<open>
  What the loop computes at one vertex before the test of ownership and monitoring, in two
  parts: up to the skin friction, which the source stores first, and from the wall shear
  stress on.
\<close>

record shear_values =
  Area_w :: su2double
  UnitNormal_w :: vec
  TauElem_w :: vec
  TauTangent_w :: vec
  CSkinFriction_w :: vec

record wall_values = shear_values +
  WallShearStress_w :: su2double
  FrictionVel_w :: su2double
  YPlus_w :: su2double
  HeatFlux_w :: su2double

definition Friction_shear ::
  "CSolverData \<Rightarrow> CConfig \<Rightarrow> CGeometry \<Rightarrow> CVariable \<Rightarrow> CVertex \<Rightarrow> pass_error + shear_values" where
  "Friction_shear d config geometry nodes v =
     (let n = nDim d;
          iPoint = Node v;
          Normal = Normal v;
          RefDensity = fst (reference_values d config);
          RefVel2 = snd (reference_values d config);
          Grad_Vel = (\<lambda>iDim jDim. if iDim < n \<and> jDim < n
                                   then Gradient_Primitive nodes iPoint (iDim + 1) jDim else 0);
          Viscosity = LaminarViscosity nodes iPoint;
          Area = sqrt (\<Sum>iDim<n. Normal iDim * Normal iDim)
      in case unit_normal n Normal Area of
           Inl e \<Rightarrow> Inl e
         | Inr UnitNormal \<Rightarrow>
      (let Tau = Friction_Tau d config Grad_Vel Viscosity;
           TauElem = (\<lambda>iDim. if iDim < n then (\<Sum>jDim<n. Tau iDim jDim * UnitNormal jDim) else 0);
           TauNormal = (\<Sum>iDim<n. TauElem iDim * UnitNormal iDim);
           TauTangent = (\<lambda>iDim. if iDim < n then TauElem iDim - TauNormal * UnitNormal iDim
                                 else 0)
       in case skin_friction n TauTangent (0.5 * RefDensity * RefVel2) of
            Inl e \<Rightarrow> Inl e
          | Inr Cf \<Rightarrow>
              Inr \<lparr>Area_w = Area, UnitNormal_w = UnitNormal, TauElem_w = TauElem,
                   TauTangent_w = TauTangent, CSkinFriction_w = Cf\<rparr>))"

definition Friction_wall ::
  "CSolverData \<Rightarrow> CConfig \<Rightarrow> CGeometry \<Rightarrow> CVariable \<Rightarrow> CVertex \<Rightarrow> shear_values
     \<Rightarrow> pass_error + wall_values" where
  "Friction_wall d config geometry nodes v sh =
     (let n = nDim d;
          iPoint = Node v;
          iPointNormal = Normal_Neighbor v;
          Coord_Normal = Coord geometry iPointNormal;
          Coord = Coord geometry iPoint;
          Grad_Temp = (\<lambda>iDim. if iDim < n
                               then (case FlowRegime d of
                                       COMPRESSIBLE \<Rightarrow> Gradient_Primitive nodes iPoint 0 iDim
                                     | INCOMPRESSIBLE \<Rightarrow> Gradient_Primitive nodes iPoint (n + 1) iDim)
                               else 0);
          Viscosity = LaminarViscosity nodes iPoint;
          Density = Density nodes iPoint;
          UnitNormal = UnitNormal_w sh;
          TauTangent = TauTangent_w sh;
          WallShearStress = sqrt (\<Sum>iDim<n. TauTangent iDim * TauTangent iDim);
          WallDist = (\<lambda>iDim. if iDim < n then Coord iDim - Coord_Normal iDim else 0);
          WallDistMod = sqrt (\<Sum>iDim<n. WallDist iDim * WallDist iDim)
      in case fdiv \<bar>WallShearStress\<bar> Density of
           Inl e \<Rightarrow> Inl e
         | Inr q \<Rightarrow>
      (case fsqrt q of
           Inl e \<Rightarrow> Inl e
         | Inr FrictionVel \<Rightarrow>
      (case fdiv Viscosity Density of
           Inl e \<Rightarrow> Inl e
         | Inr nu \<Rightarrow>
      (case fdiv (WallDistMod * FrictionVel) nu of
           Inl e \<Rightarrow> Inl e
         | Inr yplus \<Rightarrow>
      (let GradTemperature =
             (case FlowRegime d of
                COMPRESSIBLE \<Rightarrow> 0 - (\<Sum>iDim<n. Grad_Temp iDim * UnitNormal iDim)
              | INCOMPRESSIBLE \<Rightarrow>
                  (if Energy_Equation config
                   then 0 - (\<Sum>iDim<n. Grad_Temp iDim * UnitNormal iDim) else 0))
       in case (case FlowRegime d of
                  COMPRESSIBLE \<Rightarrow>
                    (case fdiv (Gamma d) (Gamma_Minus_One d) of
                       Inl e \<Rightarrow> Inl e
                     | Inr g \<Rightarrow>
                         (let Cp = g * Gas_ConstantND config
                          in fdiv (Cp * Viscosity) (Prandtl_Lam config)))
                | INCOMPRESSIBLE \<Rightarrow> Inr (ThermalConductivity nodes iPoint)) of
            Inl e \<Rightarrow> Inl e
          | Inr thermal_conductivity \<Rightarrow>
              Inr \<lparr>Area_w = Area_w sh, UnitNormal_w = UnitNormal, TauElem_w = TauElem_w sh,
                   TauTangent_w = TauTangent, CSkinFriction_w = CSkinFriction_w sh,
                   WallShearStress_w = WallShearStress, FrictionVel_w = FrictionVel,
                   YPlus_w = yplus,
                   HeatFlux_w = - thermal_conductivity * GradTemperature
                                  * Heat_Flux_Ref config\<rparr>)))))"

text \<open>The two parts in a row: the numbers of one vertex, without the stores.\<close>

definition Friction_quantities ::
  "CSolverData \<Rightarrow> CConfig \<Rightarrow> CGeometry \<Rightarrow> CVariable \<Rightarrow> CVertex \<Rightarrow> pass_error + wall_values" where
  "Friction_quantities d config geometry nodes v =
     (case Friction_shear d config geometry nodes v of
        Inl e \<Rightarrow> Inl e
      | Inr sh \<Rightarrow> Friction_wall d config geometry nodes v sh)"

text \<open>
  \<^verbatim>\<open>for (iDim = 0; iDim < nDim; iDim++) CSkinFriction[iMarker][iDim][iVertex] = ...\<close> on the
  rows \<open>X\<close> of the marker.
\<close>

definition store_skin ::
  "nat \<Rightarrow> nat \<Rightarrow> vec \<Rightarrow> su2double list list \<Rightarrow> pass_error + su2double list list" where
  "store_skin n iVertex Cf X =
     fold_err (\<lambda>iDim X. store2 X iDim iVertex (Cf iDim)) [0 ..< n] X"

definition Friction_moments ::
  "nat \<Rightarrow> vec \<Rightarrow> vec \<Rightarrow> vec \<Rightarrow> su2double \<Rightarrow> marker_sums \<Rightarrow> marker_sums" where
  "Friction_moments iDim Force MomentDist Coord' RefLength' a =
     (let a = (if iDim = 3
               then (let a = a\<lparr>MomentSum := (MomentSum a)(0 := MomentSum a 0
                                 + (Force 2 * MomentDist 1 - Force 1 * MomentDist 2) / RefLength')\<rparr>;
                         a = a\<lparr>MomentX_Force := (MomentX_Force a)(1 := MomentX_Force a 1
                                 + (- Force 1 * Coord' 2))\<rparr>;
                         a = a\<lparr>MomentX_Force := (MomentX_Force a)(2 := MomentX_Force a 2
                                 + (Force 2 * Coord' 1))\<rparr>;
                         a = a\<lparr>MomentSum := (MomentSum a)(1 := MomentSum a 1
                                 + (Force 0 * MomentDist 2 - Force 2 * MomentDist 0) / RefLength')\<rparr>;
                         a = a\<lparr>MomentY_Force := (MomentY_Force a)(2 := MomentY_Force a 2
                                 + (- Force 2 * Coord' 0))\<rparr>;
                         a = a\<lparr>MomentY_Force := (MomentY_Force a)(0 := MomentY_Force a 0
                                 + (Force 0 * Coord' 2))\<rparr>
                     in a)
               else a);
          a = a\<lparr>MomentSum := (MomentSum a)(2 := MomentSum a 2
                  + (Force 1 * MomentDist 0 - Force 0 * MomentDist 1) / RefLength')\<rparr>;
          a = a\<lparr>MomentZ_Force := (MomentZ_Force a)(0 := MomentZ_Force a 0
                  + (- Force 0 * Coord' 1))\<rparr>;
          a = a\<lparr>MomentZ_Force := (MomentZ_Force a)(1 := MomentZ_Force a 1
                  + (Force 1 * Coord' 0))\<rparr>
      in a)"

text \<open>The force and moment sums in the body of the test of ownership and monitoring.\<close>

definition Friction_vertex_sums ::
  "CSolverData \<Rightarrow> CConfig \<Rightarrow> CGeometry \<Rightarrow> su2double \<Rightarrow> vec \<Rightarrow> CVertex \<Rightarrow> wall_values
     \<Rightarrow> marker_sums \<Rightarrow> marker_sums" where
  "Friction_vertex_sums d config geometry factor Origin v w a =
     (let iPoint = Node v;
          Coord = Coord geometry iPoint;
          AxiFactor = axi_factor d config geometry iPoint;
          (iDim, Force, a, MomentDist) =
             for_iDim 0 (nDim d)
               (\<lambda>iDim (Force, a, MomentDist).
                  let Force = Force(iDim := TauElem_w w iDim * Area_w w * factor * AxiFactor);
                      a = a\<lparr>ForceSum := (ForceSum a)(iDim := ForceSum a iDim + Force iDim)\<rparr>;
                      MomentDist = MomentDist(iDim := Coord iDim - Origin iDim)
                  in (Force, a, MomentDist))
               (\<lambda>_. 0, a, \<lambda>_. 0)
      in Friction_moments iDim Force MomentDist Coord (RefLength config) a)"

text \<open>
  One turn of the loop over the vertices of a marker. The statements under the test of
  ownership and monitoring divide by \<^verbatim>\<open>RefLength\<close> (in \<open>Friction_moments\<close>), whatever \<open>nDim\<close>
  is; the model tests this divisor where the block begins.
\<close>

definition Friction_vertex ::
  "CSolverData \<Rightarrow> CConfig \<Rightarrow> CGeometry \<Rightarrow> CVariable \<Rightarrow> su2double \<Rightarrow> bool \<Rightarrow> vec \<Rightarrow> nat
     \<Rightarrow> nat \<Rightarrow> CFVMFlowSolverBase \<times> marker_sums
     \<Rightarrow> pass_error + CFVMFlowSolverBase \<times> marker_sums" where
  "Friction_vertex d config geometry nodes factor Monitoring Origin iMarker iVertex st =
     (case st of (s, a) \<Rightarrow>
      (let v = vertex geometry iMarker ! iVertex;
           iPoint = Node v
       in case Friction_shear d config geometry nodes v of
            Inl e \<Rightarrow> Inl e
          | Inr sh \<Rightarrow>
       (case store_skin (nDim d) iVertex (CSkinFriction_w sh) (CSkinFriction s iMarker) of
            Inl e \<Rightarrow> Inl e
          | Inr X \<Rightarrow>
       (case Friction_wall d config geometry nodes v sh of
            Inl e \<Rightarrow> Inl e
          | Inr w \<Rightarrow>
       (let s = s\<lparr>CSkinFriction := (CSkinFriction s)(iMarker := X)\<rparr>;
            s = s\<lparr>YPlus := (YPlus s)(iMarker := (YPlus s iMarker)
                     (iVertex := YPlus_w w))\<rparr>;
            s = s\<lparr>HeatFlux := (HeatFlux s)(iMarker := (HeatFlux s iMarker)
                     (iVertex := HeatFlux_w w))\<rparr>
        in if GetDomain geometry iPoint \<and> Monitoring
           then (if RefLength config = 0 then Inl DivisionByZero
                 else (let a = Friction_vertex_sums d config geometry factor Origin v w a;
                           s = s\<lparr>HF_Visc := (HF_Visc s)(iMarker := HF_Visc s iMarker
                                    + HeatFlux s iMarker iVertex * Area_w w)\<rparr>;
                           s = s\<lparr>MaxHF_Visc := (MaxHF_Visc s)(iMarker := MaxHF_Visc s iMarker
                                    + pow_MaxNorm (HeatFlux s iMarker iVertex))\<rparr>
                       in Inr (s, a)))
           else Inr (s, a))))))"

definition Friction_project_2D ::
  "su2double \<Rightarrow> su2double \<Rightarrow> marker_sums \<Rightarrow> AeroCoeffs \<Rightarrow> AeroCoeffs" where
  "Friction_project_2D eps Alpha a c =
     (let c = c\<lparr>CD := ForceSum a 0 * cos Alpha + ForceSum a 1 * sin Alpha\<rparr>;
          c = c\<lparr>CL := - ForceSum a 0 * sin Alpha + ForceSum a 1 * cos Alpha\<rparr>;
          c = c\<lparr>CEff := CL c / (CD c + eps)\<rparr>;
          c = c\<lparr>CFx := ForceSum a 0\<rparr>;
          c = c\<lparr>CFy := ForceSum a 1\<rparr>;
          c = c\<lparr>CMz := MomentSum a 2\<rparr>;
          c = c\<lparr>CoPx := MomentZ_Force a 1\<rparr>;
          c = c\<lparr>CoPy := - MomentZ_Force a 0\<rparr>;
          c = c\<lparr>CT := - CFx c\<rparr>;
          c = c\<lparr>CQ := - CMz c\<rparr>;
          c = c\<lparr>CMerit := CT c / (CQ c + eps)\<rparr>
      in c)"

definition Friction_project_3D ::
  "su2double \<Rightarrow> su2double \<Rightarrow> su2double \<Rightarrow> marker_sums \<Rightarrow> AeroCoeffs \<Rightarrow> AeroCoeffs" where
  "Friction_project_3D eps Alpha Beta a c =
     (let c = c\<lparr>CD := ForceSum a 0 * cos Alpha * cos Beta + ForceSum a 1 * sin Beta
                      + ForceSum a 2 * sin Alpha * cos Beta\<rparr>;
          c = c\<lparr>CL := - ForceSum a 0 * sin Alpha + ForceSum a 2 * cos Alpha\<rparr>;
          c = c\<lparr>CSF := - ForceSum a 0 * sin Beta * cos Alpha + ForceSum a 1 * cos Beta
                      - ForceSum a 2 * sin Beta * sin Alpha\<rparr>;
          c = c\<lparr>CEff := CL c / (CD c + eps)\<rparr>;
          c = c\<lparr>CFx := ForceSum a 0\<rparr>;
          c = c\<lparr>CFy := ForceSum a 1\<rparr>;
          c = c\<lparr>CFz := ForceSum a 2\<rparr>;
          c = c\<lparr>CMx := MomentSum a 0\<rparr>;
          c = c\<lparr>CMy := MomentSum a 1\<rparr>;
          c = c\<lparr>CMz := MomentSum a 2\<rparr>;
          c = c\<lparr>CoPx := - MomentY_Force a 0\<rparr>;
          c = c\<lparr>CoPz := MomentY_Force a 2\<rparr>;
          c = c\<lparr>CT := - CFz c\<rparr>;
          c = c\<lparr>CQ := - CMz c\<rparr>;
          c = c\<lparr>CMerit := CT c / (CQ c + eps)\<rparr>
      in c)"

definition Friction_AllBound :: "AeroCoeffs \<Rightarrow> AeroCoeffs \<Rightarrow> AeroCoeffs" where
  "Friction_AllBound m A =
     (let A = A\<lparr>CD := CD A + CD m\<rparr>;
          A = A\<lparr>CL := CL A + CL m\<rparr>;
          A = A\<lparr>CSF := CSF A + CSF m\<rparr>;
          A = A\<lparr>CFx := CFx A + CFx m\<rparr>;
          A = A\<lparr>CFy := CFy A + CFy m\<rparr>;
          A = A\<lparr>CFz := CFz A + CFz m\<rparr>;
          A = A\<lparr>CMx := CMx A + CMx m\<rparr>;
          A = A\<lparr>CMy := CMy A + CMy m\<rparr>;
          A = A\<lparr>CMz := CMz A + CMz m\<rparr>;
          A = A\<lparr>CoPx := CoPx A + CoPx m\<rparr>;
          A = A\<lparr>CoPy := CoPy A + CoPy m\<rparr>;
          A = A\<lparr>CoPz := CoPz A + CoPz m\<rparr>;
          A = A\<lparr>CT := CT A + CT m\<rparr>;
          A = A\<lparr>CQ := CQ A + CQ m\<rparr>
      in A)"

definition Friction_Surface_slot :: "AeroCoeffs \<Rightarrow> AeroCoeffs \<Rightarrow> AeroCoeffs" where
  "Friction_Surface_slot m S =
     (let S = S\<lparr>CL := CL S + CL m\<rparr>;
          S = S\<lparr>CD := CD S + CD m\<rparr>;
          S = S\<lparr>CSF := CSF S + CSF m\<rparr>;
          S = S\<lparr>CEff := CEff S + CEff m\<rparr>;
          S = S\<lparr>CFx := CFx S + CFx m\<rparr>;
          S = S\<lparr>CFy := CFy S + CFy m\<rparr>;
          S = S\<lparr>CFz := CFz S + CFz m\<rparr>;
          S = S\<lparr>CMx := CMx S + CMx m\<rparr>;
          S = S\<lparr>CMy := CMy S + CMy m\<rparr>;
          S = S\<lparr>CMz := CMz S + CMz m\<rparr>
      in S)"

definition Friction_Surface ::
  "CConfig \<Rightarrow> nat \<Rightarrow> CFVMFlowSolverBase \<Rightarrow> CFVMFlowSolverBase" where
  "Friction_Surface config iMarker s =
     fold (\<lambda>iMarker_Monitoring s.
             if Marker_All_TagBound config iMarker
                  = Marker_Monitoring_TagBound config iMarker_Monitoring
             then (let s = s\<lparr>SurfaceViscCoeff := (SurfaceViscCoeff s)\<lparr>slots :=
                              (slots (SurfaceViscCoeff s))(iMarker_Monitoring :=
                                 Friction_Surface_slot (slots (ViscCoeff s) iMarker)
                                   (slots (SurfaceViscCoeff s) iMarker_Monitoring))\<rparr>\<rparr>;
                       s = s\<lparr>Surface_HF_Visc := (Surface_HF_Visc s)(iMarker_Monitoring :=
                              Surface_HF_Visc s iMarker_Monitoring + HF_Visc s iMarker)\<rparr>;
                       s = s\<lparr>Surface_MaxHF_Visc := (Surface_MaxHF_Visc s)(iMarker_Monitoring :=
                              Surface_MaxHF_Visc s iMarker_Monitoring
                                + pow_MaxNorm (MaxHF_Visc s iMarker))\<rparr>
                   in s)
             else s)
          [0 ..< nMarker_Monitoring config] s"

text \<open>
  What follows the loop over the vertices of a marker, under \<^verbatim>\<open>if (Monitoring == YES)\<close>:
  the projection on the wind axes with the root of the heat-flux norm, the sums over all
  boundaries, and the sums per monitored surface.
\<close>

definition Friction_marker_coeffs ::
  "CSolverData \<Rightarrow> CConfig \<Rightarrow> nat \<Rightarrow> marker_sums \<Rightarrow> CFVMFlowSolverBase \<Rightarrow> CFVMFlowSolverBase" where
  "Friction_marker_coeffs d config iMarker a s =
     (let Alpha = AoA config * PI_NUMBER d / 180;
          Beta = AoS config * PI_NUMBER d / 180;
          s = (if nDim d = 2
               then (let s = s\<lparr>ViscCoeff := (ViscCoeff s)\<lparr>slots := (slots (ViscCoeff s))
                                (iMarker := Friction_project_2D (EPS d) Alpha a
                                              (slots (ViscCoeff s) iMarker))\<rparr>\<rparr>
                     in s\<lparr>MaxHF_Visc := (MaxHF_Visc s)(iMarker :=
                            pow_inv_MaxNorm (MaxHF_Visc s iMarker))\<rparr>)
               else s);
          s = (if nDim d = 3
               then (let s = s\<lparr>ViscCoeff := (ViscCoeff s)\<lparr>slots := (slots (ViscCoeff s))
                                (iMarker := Friction_project_3D (EPS d) Alpha Beta a
                                              (slots (ViscCoeff s) iMarker))\<rparr>\<rparr>
                     in s\<lparr>MaxHF_Visc := (MaxHF_Visc s)(iMarker :=
                            pow_inv_MaxNorm (MaxHF_Visc s iMarker))\<rparr>)
               else s)
      in s)"

definition Friction_marker_AllBound :: "nat \<Rightarrow> CFVMFlowSolverBase \<Rightarrow> CFVMFlowSolverBase" where
  "Friction_marker_AllBound iMarker s =
     (let s = s\<lparr>AllBoundViscCoeff :=
                  Friction_AllBound (slots (ViscCoeff s) iMarker) (AllBoundViscCoeff s)\<rparr>;
          s = s\<lparr>AllBound_HF_Visc := AllBound_HF_Visc s + HF_Visc s iMarker\<rparr>;
          s = s\<lparr>AllBound_MaxHF_Visc :=
                  AllBound_MaxHF_Visc s + pow_MaxNorm (MaxHF_Visc s iMarker)\<rparr>
      in s)"

definition Friction_marker_project ::
  "CSolverData \<Rightarrow> CConfig \<Rightarrow> nat \<Rightarrow> marker_sums \<Rightarrow> CFVMFlowSolverBase \<Rightarrow> CFVMFlowSolverBase" where
  "Friction_marker_project d config iMarker a s =
     Friction_Surface config iMarker
       (Friction_marker_AllBound iMarker (Friction_marker_coeffs d config iMarker a s))"

definition Friction_marker ::
  "CSolverData \<Rightarrow> CConfig \<Rightarrow> CGeometry \<Rightarrow> CVariable \<Rightarrow> su2double \<Rightarrow> nat
     \<Rightarrow> CFVMFlowSolverBase \<times> vec \<Rightarrow> pass_error + CFVMFlowSolverBase \<times> vec" where
  "Friction_marker d config geometry nodes factor iMarker st =
     (case st of (s, Origin) \<Rightarrow>
      (let Boundary = Marker_All_KindBC config iMarker;
           Monitoring = Marker_All_Monitoring config iMarker;
           Origin = (if Monitoring then moment_origin config iMarker Origin else Origin)
       in if Boundary = HEAT_FLUX \<or> Boundary = ISOTHERMAL \<or> Boundary = CHT_WALL_INTERFACE
          then
            (let s = s\<lparr>ViscCoeff := setZero_i iMarker (ViscCoeff s)\<rparr>;
                 s = s\<lparr>HF_Visc := (HF_Visc s)(iMarker := 0)\<rparr>;
                 s = s\<lparr>MaxHF_Visc := (MaxHF_Visc s)(iMarker := 0)\<rparr>
             in case fold_err
                       (Friction_vertex d config geometry nodes factor Monitoring Origin iMarker)
                       [0 ..< length (vertex geometry iMarker)] (s, zero_sums) of
                  Inl e \<Rightarrow> Inl e
                | Inr (s, a) \<Rightarrow>
                    if Monitoring then Inr (Friction_marker_project d config iMarker a s, Origin)
                    else Inr (s, Origin))
          else Inr (s, Origin)))"

definition Friction_init :: "CConfig \<Rightarrow> CFVMFlowSolverBase \<Rightarrow> CFVMFlowSolverBase" where
  "Friction_init config s =
     (let s = s\<lparr>AllBoundViscCoeff := AeroCoeffs_setZero\<rparr>;
          s = s\<lparr>SurfaceViscCoeff := setZero (SurfaceViscCoeff s)\<rparr>;
          s = s\<lparr>AllBound_HF_Visc := 0\<rparr>;
          s = s\<lparr>AllBound_MaxHF_Visc := 0\<rparr>
      in fold (\<lambda>iMarker_Monitoring s.
                 let s = s\<lparr>Surface_HF_Visc := (Surface_HF_Visc s)(iMarker_Monitoring := 0)\<rparr>
                 in s\<lparr>Surface_MaxHF_Visc := (Surface_MaxHF_Visc s)(iMarker_Monitoring := 0)\<rparr>)
              [0 ..< nMarker_Monitoring config] s)"

text \<open>The statements under ``Update some global coeffients''.\<close>

definition Friction_global :: "su2double \<Rightarrow> CFVMFlowSolverBase \<Rightarrow> CFVMFlowSolverBase" where
  "Friction_global eps s =
     (let s = s\<lparr>AllBoundViscCoeff := (AllBoundViscCoeff s)\<lparr>CEff :=
                  CL (AllBoundViscCoeff s) / (CD (AllBoundViscCoeff s) + eps)\<rparr>\<rparr>;
          s = s\<lparr>AllBoundViscCoeff := (AllBoundViscCoeff s)\<lparr>CMerit :=
                  CT (AllBoundViscCoeff s) / (CQ (AllBoundViscCoeff s) + eps)\<rparr>\<rparr>;
          s = s\<lparr>AllBound_MaxHF_Visc := pow_inv_MaxNorm (AllBound_MaxHF_Visc s)\<rparr>
      in s)"

definition Friction_reduce_coeffs :: "su2double \<Rightarrow> AeroCoeffs \<Rightarrow> AeroCoeffs list \<Rightarrow> AeroCoeffs" where
  "Friction_reduce_coeffs eps A ranks =
     (let others = (\<lambda>F. map F ranks);
          A = A\<lparr>CD := Allreduce (CD A) (others CD)\<rparr>;
          A = A\<lparr>CL := Allreduce (CL A) (others CL)\<rparr>;
          A = A\<lparr>CSF := Allreduce (CSF A) (others CSF)\<rparr>;
          A = A\<lparr>CEff := CL A / (CD A + eps)\<rparr>;
          A = A\<lparr>CMx := Allreduce (CMx A) (others CMx)\<rparr>;
          A = A\<lparr>CMy := Allreduce (CMy A) (others CMy)\<rparr>;
          A = A\<lparr>CMz := Allreduce (CMz A) (others CMz)\<rparr>;
          A = A\<lparr>CFx := Allreduce (CFx A) (others CFx)\<rparr>;
          A = A\<lparr>CFy := Allreduce (CFy A) (others CFy)\<rparr>;
          A = A\<lparr>CFz := Allreduce (CFz A) (others CFz)\<rparr>;
          A = A\<lparr>CoPx := Allreduce (CoPx A) (others CoPx)\<rparr>;
          A = A\<lparr>CoPy := Allreduce (CoPy A) (others CoPy)\<rparr>;
          A = A\<lparr>CoPz := Allreduce (CoPz A) (others CoPz)\<rparr>;
          A = A\<lparr>CT := Allreduce (CT A) (others CT)\<rparr>;
          A = A\<lparr>CQ := Allreduce (CQ A) (others CQ)\<rparr>;
          A = A\<lparr>CMerit := CT A / (CQ A + eps)\<rparr>
      in A)"

definition Friction_reduce_AllBound ::
  "su2double \<Rightarrow> CFVMFlowSolverBase \<Rightarrow> CFVMFlowSolverBase list \<Rightarrow> CFVMFlowSolverBase" where
  "Friction_reduce_AllBound eps s ranks =
     (let s = s\<lparr>AllBoundViscCoeff :=
                  Friction_reduce_coeffs eps (AllBoundViscCoeff s) (map AllBoundViscCoeff ranks)\<rparr>;
          s = s\<lparr>AllBound_HF_Visc := Allreduce (AllBound_HF_Visc s) (map AllBound_HF_Visc ranks)\<rparr>;
          s = s\<lparr>AllBound_MaxHF_Visc :=
                  pow_inv_MaxNorm
                    (Allreduce (pow_MaxNorm (AllBound_MaxHF_Visc s))
                       (map (\<lambda>r. pow_MaxNorm (AllBound_MaxHF_Visc r)) ranks))\<rparr>
      in s)"

definition Friction_reduce_Surface ::
  "su2double \<Rightarrow> nat \<Rightarrow> CFVMFlowSolverBase \<Rightarrow> CFVMFlowSolverBase list \<Rightarrow> CFVMFlowSolverBase" where
  "Friction_reduce_Surface eps nMarkerMon s ranks =
     (let others = map SurfaceViscCoeff ranks;
          X = SurfaceViscCoeff s;
          X = Allreduce_array nMarkerMon CL CL_update X others;
          X = Allreduce_array nMarkerMon CD CD_update X others;
          X = Allreduce_array nMarkerMon CSF CSF_update X others;
          X = X\<lparr>slots := (\<lambda>iMarker_Monitoring.
                   if iMarker_Monitoring < nMarkerMon
                   then (slots X iMarker_Monitoring)\<lparr>CEff :=
                          CL (slots X iMarker_Monitoring)
                            / (CD (slots X iMarker_Monitoring) + eps)\<rparr>
                   else slots X iMarker_Monitoring)\<rparr>;
          X = Allreduce_array nMarkerMon CFx CFx_update X others;
          X = Allreduce_array nMarkerMon CFy CFy_update X others;
          X = Allreduce_array nMarkerMon CFz CFz_update X others;
          X = Allreduce_array nMarkerMon CMx CMx_update X others;
          X = Allreduce_array nMarkerMon CMy CMy_update X others;
          X = Allreduce_array nMarkerMon CMz CMz_update X others;
          s = s\<lparr>SurfaceViscCoeff := X\<rparr>;
          s = s\<lparr>Surface_HF_Visc :=
                  Allreduce_inplace nMarkerMon (Surface_HF_Visc s) (map Surface_HF_Visc ranks)\<rparr>;
          s = s\<lparr>Surface_MaxHF_Visc :=
                  Allreduce_inplace nMarkerMon (Surface_MaxHF_Visc s)
                    (map Surface_MaxHF_Visc ranks)\<rparr>
      in s)"

text \<open>
  The update of the totals, statement by statement as the source has them: the merit of
  the total is computed from \<^verbatim>\<open>AllBoundViscCoeff\<close>, and the efficiency of a surface from
  \<^verbatim>\<open>SurfaceViscCoeff.CL\<close> and \<^verbatim>\<open>SurfaceCoeff.CD\<close>.
\<close>

definition Friction_TotalCoeff :: "su2double \<Rightarrow> AeroCoeffs \<Rightarrow> AeroCoeffs \<Rightarrow> AeroCoeffs" where
  "Friction_TotalCoeff eps A T =
     (let T = T\<lparr>CD := CD T + CD A\<rparr>;
          T = T\<lparr>CL := CL T + CL A\<rparr>;
          T = T\<lparr>CSF := CSF T + CSF A\<rparr>;
          T = T\<lparr>CEff := CL T / (CD T + eps)\<rparr>;
          T = T\<lparr>CFx := CFx T + CFx A\<rparr>;
          T = T\<lparr>CFy := CFy T + CFy A\<rparr>;
          T = T\<lparr>CFz := CFz T + CFz A\<rparr>;
          T = T\<lparr>CMx := CMx T + CMx A\<rparr>;
          T = T\<lparr>CMy := CMy T + CMy A\<rparr>;
          T = T\<lparr>CMz := CMz T + CMz A\<rparr>;
          T = T\<lparr>CoPx := CoPx T + CoPx A\<rparr>;
          T = T\<lparr>CoPy := CoPy T + CoPy A\<rparr>;
          T = T\<lparr>CoPz := CoPz T + CoPz A\<rparr>;
          T = T\<lparr>CT := CT T + CT A\<rparr>;
          T = T\<lparr>CQ := CQ T + CQ A\<rparr>;
          T = T\<lparr>CMerit := CT A / (CQ A + eps)\<rparr>
      in T)"

definition Friction_SurfaceCoeff_slot :: "su2double \<Rightarrow> AeroCoeffs \<Rightarrow> AeroCoeffs \<Rightarrow> AeroCoeffs" where
  "Friction_SurfaceCoeff_slot eps V S =
     (let S = S\<lparr>CL := CL S + CL V\<rparr>;
          S = S\<lparr>CD := CD S + CD V\<rparr>;
          S = S\<lparr>CSF := CSF S + CSF V\<rparr>;
          S = S\<lparr>CEff := CL V / (CD S + eps)\<rparr>;
          S = S\<lparr>CFx := CFx S + CFx V\<rparr>;
          S = S\<lparr>CFy := CFy S + CFy V\<rparr>;
          S = S\<lparr>CFz := CFz S + CFz V\<rparr>;
          S = S\<lparr>CMx := CMx S + CMx V\<rparr>;
          S = S\<lparr>CMy := CMy S + CMy V\<rparr>;
          S = S\<lparr>CMz := CMz S + CMz V\<rparr>
      in S)"

definition Friction_reduce ::
  "CSolverData \<Rightarrow> CConfig \<Rightarrow> CFVMFlowSolverBase \<Rightarrow> CFVMFlowSolverBase list
     \<Rightarrow> CFVMFlowSolverBase" where
  "Friction_reduce d config s ranks =
     (let s = (if Comm_Level config = COMM_FULL
               then Friction_reduce_AllBound (EPS d) s ranks else s);
          s = (if Comm_Level config = COMM_FULL
               then Friction_reduce_Surface (EPS d) (nMarker_Monitoring config) s ranks
               else s)
      in s)"

definition Friction_totals ::
  "CSolverData \<Rightarrow> CConfig \<Rightarrow> CFVMFlowSolverBase \<Rightarrow> CFVMFlowSolverBase" where
  "Friction_totals d config s =
     (let s = s\<lparr>TotalCoeff := Friction_TotalCoeff (EPS d) (AllBoundViscCoeff s) (TotalCoeff s)\<rparr>;
          s = s\<lparr>Total_Heat := AllBound_HF_Visc s\<rparr>;
          s = s\<lparr>Total_MaxHeat := AllBound_MaxHF_Visc s\<rparr>;
          s = s\<lparr>SurfaceCoeff :=
                  surface_loop (nMarker_Monitoring config) (Friction_SurfaceCoeff_slot (EPS d))
                    (SurfaceViscCoeff s) (SurfaceCoeff s)\<rparr>
      in s)"

text \<open>
  The accumulation of one process, up to the all-reduce, and the whole function.
\<close>

definition Friction_local ::
  "CSolverData \<Rightarrow> CConfig \<Rightarrow> CGeometry \<Rightarrow> CVariable \<Rightarrow> CFVMFlowSolverBase
     \<Rightarrow> pass_error + CFVMFlowSolverBase" where
  "Friction_local d config geometry nodes s =
     (case fold_err (Friction_marker d config geometry nodes (force_factor d config))
             [0 ..< nMarker d] (Friction_init config s, RefOriginMoment config 0) of
        Inl e \<Rightarrow> Inl e
      | Inr (s, Origin) \<Rightarrow> Inr (Friction_global (EPS d) s))"

definition Friction_Forces ::
  "CSolverData \<Rightarrow> CConfig \<Rightarrow> CGeometry \<Rightarrow> CVariable \<Rightarrow> CFVMFlowSolverBase list
     \<Rightarrow> CFVMFlowSolverBase \<Rightarrow> pass_error + CFVMFlowSolverBase" where
  "Friction_Forces d config geometry nodes ranks s =
     (case Friction_local d config geometry nodes s of
        Inl e \<Rightarrow> Inl e
      | Inr s \<Rightarrow>
          (let s = (if HAVE_MPI d then Friction_reduce d config s ranks else s)
           in Inr (Friction_totals d config s)))"


subsection \<open>HybridParallelInitialization\<close>

text \<open>
  Modelled from the spec: the edge colouring of \<^verbatim>\<open>CGeometry\<close> is not part of the sources at
  hand. The colouring is a compressed sparse pattern, here the list of its rows: one row per
  colour, holding the indices of the edges of that colour (\<^verbatim>\<open>getOuterSize()\<close> is the number of
  rows, \<^verbatim>\<open>empty()\<close> holds when there is none, \<^verbatim>\<open>innerIdx(iColor)\<close> and \<^verbatim>\<open>getNumNonZeros(iColor)\<close>
  are a row and its length). \<open>coloringEfficiency\<close> is the estimate that
  \<^verbatim>\<open>GetEdgeColoring\<close> stores through its argument; \<^verbatim>\<open>GetEdgeColoring\<close> returns a reference to
  the colouring of the geometry.
\<close>

record CGeometry_coloring =
  edgeColoring :: "nat list list"
  edgeColorGroupSize :: nat
  nEdge :: nat
  coloringEfficiency :: su2double

text \<open>
  Modelled from the spec: \<^verbatim>\<open>SetNaturalEdgeColoring\<close> is not part of the sources at hand. The
  spec calls its result a single-colour, sequential layout: one group that covers all edges
  in their natural order.
\<close>

definition SetNaturalEdgeColoring :: "CGeometry_coloring \<Rightarrow> CGeometry_coloring" where
  "SetNaturalEdgeColoring geometry = geometry\<lparr>edgeColoring := [[0 ..< nEdge geometry]]\<rparr>"

text \<open>
  An entry of \<^verbatim>\<open>EdgeColoring\<close>: \<^verbatim>\<open>GridColor(indices, size, groupSize)\<close>, or the
  \<^verbatim>\<open>DummyGridColor(nEdge)\<close> of a build without OpenMP.
\<close>

datatype EdgeColor =
    GridColor (indices: "nat list") (color_size: nat) (groupSize: nat)
  | DummyGridColor (color_size: nat)

text \<open>
  The members that the function writes. \<open>EdgeFluxes\<close> is the triple of the arguments of
  \<^verbatim>\<open>EdgeFluxes.Initialize\<close> (blocks, blocks of the domain, variables per block), or \<open>None\<close>
  while the vector is not initialised.
\<close>

record hybrid_state =
  ReducerStrategy :: bool
  EdgeColoring :: "EdgeColor list"
  EdgeFluxes :: "(nat \<times> nat \<times> nat) option"
  omp_chunk_size :: nat

text \<open>
  The arguments are: whether the build has OpenMP (\<^verbatim>\<open>HAVE_OMP\<close>), the constant
  \<^verbatim>\<open>COLORING_EFF_THRESH\<close>, \<^verbatim>\<open>nVar\<close>, and the value of \<^verbatim>\<open>computeStaticChunkSize\<close>. The reference
  \<^verbatim>\<open>coloring\<close> points into the geometry, so it is read after \<^verbatim>\<open>SetNaturalEdgeColoring\<close>. The
  block that reports the minimum efficiency writes to the console only and is left out.
\<close>

definition HybridParallelInitialization ::
  "bool \<Rightarrow> su2double \<Rightarrow> nat \<Rightarrow> nat \<Rightarrow> CGeometry_coloring \<Rightarrow> hybrid_state
     \<Rightarrow> CGeometry_coloring \<times> hybrid_state" where
  "HybridParallelInitialization HAVE_OMP COLORING_EFF_THRESH nVar chunk geometry h =
     (if HAVE_OMP
      then
        (let parallelEff = coloringEfficiency geometry;
             h = h\<lparr>ReducerStrategy := parallelEff < COLORING_EFF_THRESH\<rparr>;
             geometry = (if ReducerStrategy h \<and> length (edgeColoring geometry) > 1
                         then SetNaturalEdgeColoring geometry else geometry);
             coloring = edgeColoring geometry;
             h = (if coloring \<noteq> []
                  then (let groupSize = (if ReducerStrategy h then 1
                                         else edgeColorGroupSize geometry);
                            nColor = length coloring
                        in h\<lparr>EdgeColoring := EdgeColoring h
                              @ map (\<lambda>iColor. GridColor (coloring ! iColor)
                                                (length (coloring ! iColor)) groupSize)
                                  [0 ..< nColor]\<rparr>)
                  else h);
             h = (if ReducerStrategy h
                  then h\<lparr>EdgeFluxes := Some (nEdge geometry, nEdge geometry, nVar)\<rparr>
                  else h);
             h = h\<lparr>omp_chunk_size := chunk\<rparr>
         in (geometry, h))
      else (geometry, h\<lparr>EdgeColoring := [DummyGridColor (nEdge geometry)]\<rparr>))"


subsection \<open>The moment accumulation as the spec words it\<close>

text \<open>
  The spec says that Momentum\_Forces and Friction\_Forces follow the skeleton of
  Pressure\_Forces. The two definitions below are the per-vertex sums of Momentum\_Forces and
  of Friction\_Forces with the moment statements of Pressure\_Forces in place of their own,
  so with the guard \<^verbatim>\<open>nDim == 3\<close>; they are compared with the definitions from the source.
\<close>

definition Momentum_vertex_sums_nDim_guard ::
  "CSolverData \<Rightarrow> CConfig \<Rightarrow> CGeometry \<Rightarrow> CVariable \<Rightarrow> su2double \<Rightarrow> vec \<Rightarrow> CVertex
     \<Rightarrow> marker_sums \<Rightarrow> marker_sums" where
  "Momentum_vertex_sums_nDim_guard d config geometry nodes factor Origin v a =
     (let iPoint = Node v;
          Normal = Normal v;
          Coord = Coord geometry iPoint;
          Density = Density nodes iPoint;
          Area = sqrt (\<Sum>iDim<nDim d. Normal iDim * Normal iDim);
          Velocity = (\<lambda>iDim. if iDim < nDim d then Velocity nodes iPoint iDim else 0);
          MomentDist = (\<lambda>iDim. if iDim < nDim d then Coord iDim - Origin iDim else 0);
          MassFlow = 0 - (\<Sum>iDim<nDim d. Normal iDim * Velocity iDim * Density);
          AxiFactor = axi_factor d config geometry iPoint;
          (iDim, Force, a) =
             for_iDim 0 (nDim d)
               (\<lambda>iDim (Force, a).
                  let Force = Force(iDim := MassFlow * Velocity iDim * factor * AxiFactor)
                  in (Force, a\<lparr>ForceSum := (ForceSum a)(iDim := ForceSum a iDim + Force iDim)\<rparr>))
               (\<lambda>_. 0, a)
      in Pressure_moments (nDim d) Force MomentDist Coord (RefLength config) a)"

definition Friction_vertex_sums_nDim_guard ::
  "CSolverData \<Rightarrow> CConfig \<Rightarrow> CGeometry \<Rightarrow> su2double \<Rightarrow> vec \<Rightarrow> CVertex \<Rightarrow> wall_values
     \<Rightarrow> marker_sums \<Rightarrow> marker_sums" where
  "Friction_vertex_sums_nDim_guard d config geometry factor Origin v w a =
     (let iPoint = Node v;
          Coord = Coord geometry iPoint;
          AxiFactor = axi_factor d config geometry iPoint;
          (iDim, Force, a, MomentDist) =
             for_iDim 0 (nDim d)
               (\<lambda>iDim (Force, a, MomentDist).
                  let Force = Force(iDim := TauElem_w w iDim * Area_w w * factor * AxiFactor);
                      a = a\<lparr>ForceSum := (ForceSum a)(iDim := ForceSum a iDim + Force iDim)\<rparr>;
                      MomentDist = MomentDist(iDim := Coord iDim - Origin iDim)
                  in (Force, a, MomentDist))
               (\<lambda>_. 0, a, \<lambda>_. 0)
      in Pressure_moments (nDim d) Force MomentDist Coord (RefLength config) a)"


subsection \<open>A two-dimensional case with one inlet\<close>

text \<open>
  One process without MPI, two dimensions, one monitored marker of kind \<^verbatim>\<open>INLET_FLOW\<close> with
  the tag of the only monitored surface. The marker has one vertex at the node 0, which the
  domain owns, with the normal (1, 0) at the coordinates (0, 1); the flow there has density
  1, velocity (1, 0) and the free-stream pressure. The angles are zero and the reference
  values make the force factor 1.
\<close>

definition inlet2D_d :: CSolverData where
  "inlet2D_d = \<lparr>FlowRegime = COMPRESSIBLE, nDim = 2, nMarker = 1, Gamma = 2, Gamma_Minus_One = 1,
     Density_Inf = 2, Pressure_Inf = 1, Temperature_Inf = 1,
     Velocity_Inf = (\<lambda>iDim. if iDim = 0 then 1 else 0), dynamic_grid = False,
     EPS = 1 / 10 ^ 16, PI_NUMBER = pi, TWO3 = 2 / 3, HAVE_MPI = False\<rparr>"

definition inlet2D_config :: CConfig where
  "inlet2D_config = \<lparr>AoA = 0, AoS = 0, RefArea = 1, RefLength = 1, Gas_ConstantND = 1,
     RefOriginMoment = (\<lambda>_ _. 0), Axisymmetric = False, Mach_Motion = 0,
     Ref_Inc_NonDim = DIMENSIONAL, Inc_Density_Ref = 1, Inc_Velocity_Ref = 1,
     Marker_All_KindBC = (\<lambda>_. INLET_FLOW), Marker_All_Monitoring = (\<lambda>_. True),
     Marker_All_TagBound = (\<lambda>_. ''inlet''), nMarker_Monitoring = 1,
     Marker_Monitoring_TagBound = (\<lambda>_. ''inlet''), Solid_Wall = (\<lambda>_. False),
     Comm_Level = COMM_FULL, Heat_Flux_Ref = 1, Prandtl_Lam = 1, Energy_Equation = False,
     QCR = False\<rparr>"

definition inlet2D_geometry :: CGeometry where
  "inlet2D_geometry =
     \<lparr>vertex = (\<lambda>_. [\<lparr>Node = 0, Normal = (\<lambda>iDim. if iDim = 0 then 1 else 0),
                       Normal_Neighbor = 1\<rparr>]),
      GetDomain = (\<lambda>_. True), Coord = (\<lambda>_ iDim. if iDim = 1 then 1 else 0)\<rparr>"

definition inlet2D_nodes :: CVariable where
  "inlet2D_nodes = \<lparr>Pressure = (\<lambda>_. 1), Density = (\<lambda>_. 1),
     Velocity = (\<lambda>_ iDim. if iDim = 0 then 1 else 0), LaminarViscosity = (\<lambda>_. 1),
     ThermalConductivity = (\<lambda>_. 1), Gradient_Primitive = (\<lambda>_ _ _. 0)\<rparr>"

text \<open>One iteration: the three integrations in the order of the solver.\<close>

definition inlet2D_iteration :: "CFVMFlowSolverBase \<Rightarrow> pass_error + CFVMFlowSolverBase" where
  "inlet2D_iteration s =
     Friction_Forces inlet2D_d inlet2D_config inlet2D_geometry inlet2D_nodes []
       (Momentum_Forces inlet2D_d inlet2D_config inlet2D_geometry inlet2D_nodes []
          (Pressure_Forces inlet2D_d inlet2D_config inlet2D_geometry inlet2D_nodes [] s))"


subsection \<open>The reduction as the spec words it\<close>

text \<open>
  The spec asks that the all-reduce sums every accumulated scalar and array and that the
  ratios are computed afterwards from the reduced sums. \<open>rank_sum F x others\<close> is the sum of
  the field \<open>F\<close> over this process and the others; \<open>AllBound_reduced\<close> is the global
  accumulator so reduced, and \<open>Surface_reduced\<close> is slot \<open>i\<close> of a per-surface accumulator
  of which the arrays CL, CD, CSF, CFx, CFy, CFz, CMx, CMy, CMz are reduced over the first
  \<open>n\<close> slots.
\<close>

definition rank_sum :: "('a \<Rightarrow> su2double) \<Rightarrow> 'a \<Rightarrow> 'a list \<Rightarrow> su2double" where
  "rank_sum F x others = F x + sum_list (map F others)"

definition AllBound_reduced :: "su2double \<Rightarrow> AeroCoeffs \<Rightarrow> AeroCoeffs list \<Rightarrow> AeroCoeffs" where
  "AllBound_reduced eps A others =
     \<lparr>CD = rank_sum CD A others, CL = rank_sum CL A others, CSF = rank_sum CSF A others,
      CEff = rank_sum CL A others / (rank_sum CD A others + eps),
      CFx = rank_sum CFx A others, CFy = rank_sum CFy A others, CFz = rank_sum CFz A others,
      CMx = rank_sum CMx A others, CMy = rank_sum CMy A others, CMz = rank_sum CMz A others,
      CoPx = rank_sum CoPx A others, CoPy = rank_sum CoPy A others,
      CoPz = rank_sum CoPz A others, CT = rank_sum CT A others, CQ = rank_sum CQ A others,
      CMerit = rank_sum CT A others / (rank_sum CQ A others + eps)\<rparr>"

definition Surface_reduced ::
  "su2double \<Rightarrow> nat \<Rightarrow> AeroCoeffsArray \<Rightarrow> AeroCoeffsArray list \<Rightarrow> nat \<Rightarrow> AeroCoeffs" where
  "Surface_reduced eps n X others i =
     (if i < n
      then (let S = slots X i; Ss = map (\<lambda>Y. slots Y i) others
            in S\<lparr>CL := rank_sum CL S Ss, CD := rank_sum CD S Ss, CSF := rank_sum CSF S Ss,
                 CEff := rank_sum CL S Ss / (rank_sum CD S Ss + eps),
                 CFx := rank_sum CFx S Ss, CFy := rank_sum CFy S Ss, CFz := rank_sum CFz S Ss,
                 CMx := rank_sum CMx S Ss, CMy := rank_sum CMy S Ss, CMz := rank_sum CMz S Ss\<rparr>)
      else slots X i)"

text \<open>
  The members of the solver after \<^verbatim>\<open>Allocate\<close>. \<open>nVertex'\<close> is the member \<^verbatim>\<open>nVertex\<close> of the
  solver, the number of vertices of each marker, which the constructor sets. The arrays that
  \<^verbatim>\<open>Allocate\<close> leaves uninitialised read 0 here. \<^verbatim>\<open>CSkinFriction\<close> gets, for every marker,
  \<open>nVertex' iMarker\<close> rows of \<open>nDim\<close> zeros.
\<close>

definition solver_allocated :: "CSolverData \<Rightarrow> (nat \<Rightarrow> nat) \<Rightarrow> CConfig \<Rightarrow> CFVMFlowSolverBase" where
  "solver_allocated d nVertex' config =
     \<lparr>InvCoeff = \<lparr>size' = int (nMarker d), slots = (\<lambda>_. AeroCoeffs_setZero)\<rparr>,
      MntCoeff = \<lparr>size' = int (nMarker d), slots = (\<lambda>_. AeroCoeffs_setZero)\<rparr>,
      ViscCoeff = \<lparr>size' = int (nMarker d), slots = (\<lambda>_. AeroCoeffs_setZero)\<rparr>,
      SurfaceInvCoeff = \<lparr>size' = int (nMarker_Monitoring config),
                         slots = (\<lambda>_. AeroCoeffs_setZero)\<rparr>,
      SurfaceMntCoeff = \<lparr>size' = int (nMarker_Monitoring config),
                         slots = (\<lambda>_. AeroCoeffs_setZero)\<rparr>,
      SurfaceViscCoeff = \<lparr>size' = int (nMarker_Monitoring config),
                          slots = (\<lambda>_. AeroCoeffs_setZero)\<rparr>,
      SurfaceCoeff = \<lparr>size' = int (nMarker_Monitoring config),
                      slots = (\<lambda>_. AeroCoeffs_setZero)\<rparr>,
      AllBoundInvCoeff = AeroCoeffs_setZero, AllBoundMntCoeff = AeroCoeffs_setZero,
      AllBoundViscCoeff = AeroCoeffs_setZero, TotalCoeff = AeroCoeffs_setZero,
      CNearFieldOF_Inv = (\<lambda>_. 0), HF_Visc = (\<lambda>_. 0), MaxHF_Visc = (\<lambda>_. 0),
      Surface_HF_Visc = (\<lambda>_. 0), Surface_MaxHF_Visc = (\<lambda>_. 0),
      AllBound_CNearFieldOF_Inv = 0, AllBound_HF_Visc = 0, AllBound_MaxHF_Visc = 0,
      Total_CNearFieldOF = 0, Total_Heat = 0, Total_MaxHeat = 0,
      CPressure = (\<lambda>_ _. 0), HeatFlux = (\<lambda>_ _. 0), YPlus = (\<lambda>_ _. 0),
      CSkinFriction = (\<lambda>iMarker. if iMarker < nMarker d
                                  then replicate (nVertex' iMarker) (replicate (nDim d) 0)
                                  else [])\<rparr>"


subsection \<open>When a pass of Friction\_Forces is defined\<close>

text \<open>The kinds of boundary that Friction\_Forces integrates.\<close>

definition viscous_wall :: "CConfig \<Rightarrow> nat \<Rightarrow> bool" where
  "viscous_wall config iMarker =
     (Marker_All_KindBC config iMarker = HEAT_FLUX \<or> Marker_All_KindBC config iMarker = ISOTHERMAL
      \<or> Marker_All_KindBC config iMarker = CHT_WALL_INTERFACE)"

text \<open>
  The lengths of the rows of \<^verbatim>\<open>CSkinFriction\<close> for a marker, and whether the stores
  \<^verbatim>\<open>CSkinFriction[iMarker][iDim][iVertex]\<close> of one vertex stay inside rows of these lengths.
\<close>

definition skin_shape :: "CFVMFlowSolverBase \<Rightarrow> nat \<Rightarrow> nat list" where
  "skin_shape s iMarker = map length (CSkinFriction s iMarker)"

definition skin_in_bounds :: "nat \<Rightarrow> nat list \<Rightarrow> nat \<Rightarrow> bool" where
  "skin_in_bounds n shape iVertex = (\<forall>iDim<n. iDim < length shape \<and> iVertex < shape ! iDim)"

text \<open>
  One vertex of a marker goes through without an error: its numbers are defined, its stores
  are inside the array, and the moments are not divided by zero. A pass is defined when
  every vertex of every viscous wall marker is.
\<close>

definition vertex_defined ::
  "CSolverData \<Rightarrow> CConfig \<Rightarrow> CGeometry \<Rightarrow> CVariable \<Rightarrow> nat list \<Rightarrow> nat \<Rightarrow> nat \<Rightarrow> bool" where
  "vertex_defined d config geometry nodes shape iMarker iVertex =
     (\<not> isl (Friction_quantities d config geometry nodes (vertex geometry iMarker ! iVertex))
      \<and> skin_in_bounds (nDim d) shape iVertex
      \<and> (GetDomain geometry (Node (vertex geometry iMarker ! iVertex))
           \<and> Marker_All_Monitoring config iMarker \<longrightarrow> RefLength config \<noteq> 0))"

definition Friction_defined ::
  "CSolverData \<Rightarrow> CConfig \<Rightarrow> CGeometry \<Rightarrow> CVariable \<Rightarrow> CFVMFlowSolverBase \<Rightarrow> bool" where
  "Friction_defined d config geometry nodes s =
     (\<forall>iMarker<nMarker d. viscous_wall config iMarker \<longrightarrow>
        (\<forall>iVertex<length (vertex geometry iMarker).
           vertex_defined d config geometry nodes (skin_shape s iMarker) iMarker iVertex))"

subsection \<open>A two-dimensional case with two walls\<close>

text \<open>
  One process without MPI, two dimensions. Marker 0 is a monitored \<^verbatim>\<open>HEAT_FLUX\<close> wall with
  the tag of the only monitored surface and the vertices at the nodes 0 and 1, of which the
  domain owns node 0 only; marker 1 is an \<^verbatim>\<open>ISOTHERMAL\<close> wall that is not monitored, with
  the vertices at the nodes 2 and 4. Every vertex has the normal (0, 1) and the neighbour
  node 3 at (0, 1); the wall nodes are at the origin. The flow is at rest with density and
  viscosity 1 and the temperature gradient (0, 1 + iPoint), so the heat flux at the node
  \<open>iPoint\<close> is \<open>2 * (1 + iPoint)\<close>. Each wall has as many vertices as there are dimensions.
\<close>

definition wall2D_d :: CSolverData where
  "wall2D_d = \<lparr>FlowRegime = COMPRESSIBLE, nDim = 2, nMarker = 2, Gamma = 2, Gamma_Minus_One = 1,
     Density_Inf = 2, Pressure_Inf = 1, Temperature_Inf = 1,
     Velocity_Inf = (\<lambda>iDim. if iDim = 0 then 1 else 0), dynamic_grid = False,
     EPS = 1 / 10 ^ 16, PI_NUMBER = pi, TWO3 = 2 / 3, HAVE_MPI = False\<rparr>"

definition wall2D_config :: CConfig where
  "wall2D_config = \<lparr>AoA = 0, AoS = 0, RefArea = 1, RefLength = 1, Gas_ConstantND = 1,
     RefOriginMoment = (\<lambda>_ _. 0), Axisymmetric = False, Mach_Motion = 0,
     Ref_Inc_NonDim = DIMENSIONAL, Inc_Density_Ref = 1, Inc_Velocity_Ref = 1,
     Marker_All_KindBC = (\<lambda>iMarker. if iMarker = 0 then HEAT_FLUX else ISOTHERMAL),
     Marker_All_Monitoring = (\<lambda>iMarker. iMarker = 0),
     Marker_All_TagBound = (\<lambda>iMarker. if iMarker = 0 then ''wall'' else ''lid''),
     nMarker_Monitoring = 1,
     Marker_Monitoring_TagBound = (\<lambda>_. ''wall''), Solid_Wall = (\<lambda>_. True),
     Comm_Level = COMM_FULL, Heat_Flux_Ref = 1, Prandtl_Lam = 1, Energy_Equation = False,
     QCR = False\<rparr>"

definition wall2D_vertex :: "nat \<Rightarrow> CVertex" where
  "wall2D_vertex iPoint =
     \<lparr>Node = iPoint, Normal = (\<lambda>iDim. if iDim = 1 then 1 else 0), Normal_Neighbor = 3\<rparr>"

definition wall2D_geometry :: CGeometry where
  "wall2D_geometry =
     \<lparr>vertex = (\<lambda>iMarker. if iMarker = 0 then [wall2D_vertex 0, wall2D_vertex 1]
                          else [wall2D_vertex 2, wall2D_vertex 4]),
      GetDomain = (\<lambda>iPoint. iPoint \<noteq> 1),
      Coord = (\<lambda>iPoint iDim. if iPoint = 3 \<and> iDim = 1 then 1 else 0)\<rparr>"

definition wall2D_nodes :: CVariable where
  "wall2D_nodes = \<lparr>Pressure = (\<lambda>_. 1), Density = (\<lambda>_. 1),
     Velocity = (\<lambda>_ _. 0), LaminarViscosity = (\<lambda>_. 1),
     ThermalConductivity = (\<lambda>_. 1),
     Gradient_Primitive = (\<lambda>iPoint iVar iDim. if iVar = 0 \<and> iDim = 1 then 1 + real iPoint
                                                else 0)\<rparr>"

text \<open>
  The members of the solver after \<^verbatim>\<open>Allocate\<close> in the two cases, and the case of the walls
  with all its nodes owned by the domain.
\<close>

definition inlet2D_allocated :: CFVMFlowSolverBase where
  "inlet2D_allocated =
     solver_allocated inlet2D_d (\<lambda>iMarker. length (vertex inlet2D_geometry iMarker))
       inlet2D_config"

definition wall2D_allocated :: CFVMFlowSolverBase where
  "wall2D_allocated =
     solver_allocated wall2D_d (\<lambda>iMarker. length (vertex wall2D_geometry iMarker))
       wall2D_config"

definition wall2D_owned :: CGeometry where
  "wall2D_owned = wall2D_geometry\<lparr>GetDomain := (\<lambda>_. True)\<rparr>"

text \<open>
  A wall with more vertices than dimensions: the geometry of the walls with the three
  vertices at the nodes 0, 1 and 2 on marker 0 and none on marker 1, and the members of the
  solver after \<^verbatim>\<open>Allocate\<close> for it.
\<close>

definition strip2D_geometry :: CGeometry where
  "strip2D_geometry =
     wall2D_geometry\<lparr>vertex := (\<lambda>iMarker. if iMarker = 0
                                     then [wall2D_vertex 0, wall2D_vertex 1, wall2D_vertex 2]
                                     else [])\<rparr>"

definition strip2D_allocated :: CFVMFlowSolverBase where
  "strip2D_allocated =
     solver_allocated wall2D_d (\<lambda>iMarker. length (vertex strip2D_geometry iMarker))
       wall2D_config"

subsection \<open>A geometry with two colours\<close>

text \<open>Three edges in two colours, with a measured efficiency of one half.\<close>

definition two_colours :: CGeometry_coloring where
  "two_colours = \<lparr>edgeColoring = [[0, 2], [1]], edgeColorGroupSize = 512, nEdge = 3,
                   coloringEfficiency = 1 / 2\<rparr>"

definition hybrid_initial :: hybrid_state where
  "hybrid_initial = \<lparr>ReducerStrategy = False, EdgeColoring = [], EdgeFluxes = None,
                      omp_chunk_size = 0\<rparr>"


subsection \<open>The totals that an earlier pass has left\<close>

text \<open>
  The members that hold the totals of an iteration, set to given values: this is how a
  state looks in which an earlier Momentum\_Forces or Friction\_Forces has stored its totals.
  \<open>Pressure_reduced\<close> is Pressure\_Forces before its last block, the update of the totals.
\<close>

definition put_totals ::
  "AeroCoeffs \<Rightarrow> su2double \<Rightarrow> su2double \<Rightarrow> su2double \<Rightarrow> AeroCoeffsArray
     \<Rightarrow> CFVMFlowSolverBase \<Rightarrow> CFVMFlowSolverBase" where
  "put_totals T nf h mh sc s =
     s\<lparr>TotalCoeff := T, Total_CNearFieldOF := nf, Total_Heat := h, Total_MaxHeat := mh,
       SurfaceCoeff := sc\<rparr>"

definition Pressure_reduced ::
  "CSolverData \<Rightarrow> CConfig \<Rightarrow> CGeometry \<Rightarrow> CVariable \<Rightarrow> CFVMFlowSolverBase list
     \<Rightarrow> CFVMFlowSolverBase \<Rightarrow> CFVMFlowSolverBase" where
  "Pressure_reduced d config geometry nodes ranks s =
     (let s = Pressure_local d config geometry nodes s
      in if HAVE_MPI d then Pressure_reduce d config s ranks else s)"

subsection \<open>The members of one marker\<close>

text \<open>
  The kinds of boundary that Pressure\_Forces and Momentum\_Forces integrate, as
  \<open>viscous_wall\<close> for Friction\_Forces.
\<close>

definition inviscid_boundary :: "CConfig \<Rightarrow> nat \<Rightarrow> bool" where
  "inviscid_boundary config iMarker =
     (Solid_Wall config iMarker \<or> Marker_All_KindBC config iMarker = NEARFIELD_BOUNDARY
      \<or> Marker_All_KindBC config iMarker = INLET_FLOW
      \<or> Marker_All_KindBC config iMarker = OUTLET_FLOW
      \<or> Marker_All_KindBC config iMarker = ACTDISK_INLET
      \<or> Marker_All_KindBC config iMarker = ACTDISK_OUTLET
      \<or> Marker_All_KindBC config iMarker = ENGINE_INFLOW
      \<or> Marker_All_KindBC config iMarker = ENGINE_EXHAUST)"

definition momentum_boundary :: "CConfig \<Rightarrow> nat \<Rightarrow> bool" where
  "momentum_boundary config iMarker =
     (Marker_All_KindBC config iMarker = INLET_FLOW
      \<or> Marker_All_KindBC config iMarker = OUTLET_FLOW
      \<or> Marker_All_KindBC config iMarker = ACTDISK_INLET
      \<or> Marker_All_KindBC config iMarker = ACTDISK_OUTLET
      \<or> Marker_All_KindBC config iMarker = ENGINE_INFLOW
      \<or> Marker_All_KindBC config iMarker = ENGINE_EXHAUST)"

text \<open>
  What Pressure\_Forces and Friction\_Forces keep for the marker \<open>iMarker\<close>: the sums of the
  marker, the arrays over its vertices, and its coefficients.
\<close>

definition inviscid_row ::
  "nat \<Rightarrow> CFVMFlowSolverBase \<Rightarrow> su2double \<times> (nat \<Rightarrow> su2double) \<times> AeroCoeffs" where
  "inviscid_row iMarker s =
     (CNearFieldOF_Inv s iMarker, CPressure s iMarker, slots (InvCoeff s) iMarker)"

definition viscous_row ::
  "nat \<Rightarrow> CFVMFlowSolverBase
     \<Rightarrow> su2double \<times> su2double \<times> (nat \<Rightarrow> su2double) \<times> (nat \<Rightarrow> su2double)
         \<times> su2double list list \<times> AeroCoeffs" where
  "viscous_row iMarker s =
     (HF_Visc s iMarker, MaxHF_Visc s iMarker, HeatFlux s iMarker, YPlus s iMarker,
      CSkinFriction s iMarker, slots (ViscCoeff s) iMarker)"


section \<open>Properties\<close>

subsection \<open>Zeroing of the coefficient arrays\<close>

lemma size_fold_setZero_i: "size' (fold setZero_i is a) = size' a"
  by (induction "is" arbitrary: a) (simp_all add: setZero_i_def)

lemma slots_fold_setZero_i:
  "slots (fold setZero_i is a) i = (if i \<in> set is then AeroCoeffs_setZero else slots a i)"
  by (induction "is" arbitrary: a) (auto simp: setZero_i_def AeroCoeffs_setZero_def)

lemma size_setZero: "size' (setZero a) = size' a"
  by (simp add: setZero_def size_fold_setZero_i)

lemma slots_setZero:
  "slots (setZero a) i = (if int i < size' a then AeroCoeffs_setZero else slots a i)"
  by (auto simp: setZero_def slots_fold_setZero_i)

lemma size_setZero_i: "size' (setZero_i j a) = size' a"
  by (simp add: setZero_i_def)

lemma slots_setZero_i:
  "slots (setZero_i j a) i = (if i = j then AeroCoeffs_setZero else slots a i)"
  by (simp add: setZero_i_def AeroCoeffs_setZero_def)

lemma run_zero_calls_zero:
  "\<forall>i. int i < size' a \<longrightarrow> slots a i = AeroCoeffs_setZero \<Longrightarrow>
   int i < size' a \<Longrightarrow>
   size' (run_zero_calls cs a) = size' a \<and> slots (run_zero_calls cs a) i = AeroCoeffs_setZero"
proof (induction cs a rule: run_zero_calls.induct)
  case (1 a)
  then show ?case by simp
next
  case (2 cs a)
  then show ?case by (simp add: size_setZero slots_setZero)
next
  case (3 j cs a)
  then show ?case by (simp add: size_setZero_i slots_setZero_i)
qed

lemma coefficient_fields_zero: "f \<in> set coefficient_fields \<Longrightarrow> f AeroCoeffs_setZero = 0"
  by (auto simp: coefficient_fields_def AeroCoeffs_setZero_def)

text \<open>
  C7. For every size \<open>n \<ge> 0\<close> the allocation succeeds, and after \<^verbatim>\<open>allocate(n)\<close>, also
  after any later sequence of calls of \<^verbatim>\<open>setZero()\<close> and of \<^verbatim>\<open>setZero(j)\<close> with \<open>j\<close> in
  range, each of the sixteen coefficient fields reads exactly 0 at every index \<open>i < n\<close>.
\<close>

theorem allocate_all_fields_zero:
  assumes "0 \<le> n" and "int i < n" and "list_all (call_in_range n) calls"
    and "f \<in> set coefficient_fields"
  shows "\<exists>a. allocate fresh n = Inr a \<and> size' a = n
            \<and> f (slots a i) = 0
            \<and> f (slots (setZero a) i) = 0
            \<and> f (slots (run_zero_calls calls a) i) = 0"
proof -
  define a where "a = setZero \<lparr>size' = n, slots = fresh\<rparr>"
  have alloc: "allocate fresh n = Inr a"
    using assms(1) by (simp add: allocate_def a_def)
  have sz: "size' a = n"
    by (simp add: a_def size_setZero)
  have zero: "\<forall>k. int k < size' a \<longrightarrow> slots a k = AeroCoeffs_setZero"
    by (simp add: a_def size_setZero slots_setZero)
  have "slots (run_zero_calls calls a) i = AeroCoeffs_setZero"
    using run_zero_calls_zero [OF zero, of i calls] assms(2) sz by simp
  moreover have "slots (setZero a) i = AeroCoeffs_setZero"
    using assms(2) sz by (simp add: slots_setZero)
  moreover have "slots a i = AeroCoeffs_setZero"
    using zero assms(2) sz by simp
  ultimately show ?thesis
    using alloc sz coefficient_fields_zero [OF assms(4)] by simp
qed

theorem allocate_all_fields_zero_witness:
  "(0::int) \<le> 2 \<and> int 1 < 2 \<and> list_all (call_in_range 2) [SetZeroAt 0, SetZero]
   \<and> CMerit \<in> set coefficient_fields
   \<and> (\<exists>a. allocate (\<lambda>k. AeroCoeffs_setZero\<lparr>CD := 7, CMerit := 3\<rparr>) 2 = Inr a \<and> size' a = 2
          \<and> CMerit (slots a 1) = 0
          \<and> CMerit (slots (setZero a) 1) = 0
          \<and> CMerit (slots (run_zero_calls [SetZeroAt 0, SetZero] a) 1) = 0)"
  using allocate_all_fields_zero [of 2 1 "[SetZeroAt 0, SetZero]" CMerit
      "\<lambda>k. AeroCoeffs_setZero\<lparr>CD := 7, CMerit := 3\<rparr>"]
  by (simp add: coefficient_fields_def)


subsection \<open>The counter of the force loop and the moment guard\<close>

lemma for_iDim_fold: "for_iDim i n body s = (max i n, fold body [i ..< n] s)"
proof (induction i n body s rule: for_iDim.induct)
  case (1 iDim n body s)
  show ?case
  proof (cases "iDim < n")
    case True
    then show ?thesis
      using 1 by (subst for_iDim.simps) (simp add: upt_conv_Cons max_def)
  next
    case False
    then show ?thesis
      by (subst for_iDim.simps) (simp add: max_def)
  qed
qed

lemma for_iDim_counter: "fst (for_iDim 0 n body s) = n"
  by (simp add: for_iDim_fold)

lemma case_for_iDim:
  "(case for_iDim 0 n body s of (iDim, st) \<Rightarrow> f iDim st)
     = (case for_iDim 0 n body s of (iDim, st) \<Rightarrow> f n st)"
  using for_iDim_counter [of n body s] by (cases "for_iDim 0 n body s") simp

lemma Momentum_moments_eq: "Momentum_moments = Pressure_moments"
  by (intro ext) (simp add: Momentum_moments_def Pressure_moments_def)

lemma Friction_moments_eq: "Friction_moments = Pressure_moments"
  by (intro ext) (simp add: Friction_moments_def Pressure_moments_def)

lemma Momentum_vertex_sums_guard:
  "Momentum_vertex_sums d config geometry nodes factor Origin v a
     = Momentum_vertex_sums_nDim_guard d config geometry nodes factor Origin v a"
  unfolding Momentum_vertex_sums_def Momentum_vertex_sums_nDim_guard_def Momentum_moments_eq
    Let_def
  by (subst case_for_iDim) (rule refl)

lemma Friction_vertex_sums_guard:
  "Friction_vertex_sums d config geometry factor Origin v w a
     = Friction_vertex_sums_nDim_guard d config geometry factor Origin v w a"
  unfolding Friction_vertex_sums_def Friction_vertex_sums_nDim_guard_def Friction_moments_eq
    Let_def
  by (subst case_for_iDim) (rule refl)

text \<open>
  C3. At a vertex that is processed (owned by the domain, on a monitored marker), the sums of
  Momentum\_Forces and of Friction\_Forces are those obtained with the moment statements of
  Pressure\_Forces: the same cross products divided by \<^verbatim>\<open>RefLength\<close>, with the x and y moments
  and the \<^verbatim>\<open>MomentX_Force\<close>, \<^verbatim>\<open>MomentY_Force\<close> sums in three dimensions only. The counter that
  the force loop leaves behind is \<open>nDim\<close>, so the guard \<^verbatim>\<open>iDim == 3\<close> holds exactly when
  \<^verbatim>\<open>nDim == 3\<close> does.
\<close>

theorem moment_guard_iDim_is_nDim:
  "Momentum_vertex d config geometry nodes factor Monitoring Origin iMarker iVertex a
     = (if GetDomain geometry (Node (vertex geometry iMarker ! iVertex)) \<and> Monitoring
        then Momentum_vertex_sums_nDim_guard d config geometry nodes factor Origin
               (vertex geometry iMarker ! iVertex) a
        else a)
   \<and> Friction_vertex_sums d config geometry factor Origin v w a
       = Friction_vertex_sums_nDim_guard d config geometry factor Origin v w a
   \<and> Momentum_moments = Pressure_moments
   \<and> Friction_moments = Pressure_moments
   \<and> (fst (for_iDim 0 (nDim d) body st) = 3) = (nDim d = 3)"
  by (simp add: Momentum_vertex_def Momentum_vertex_sums_guard Friction_vertex_sums_guard
        Momentum_moments_eq Friction_moments_eq for_iDim_counter)


subsection \<open>Evaluation of the two-dimensional inlet case\<close>

lemmas inlet2D_defs = inlet2D_d_def inlet2D_config_def inlet2D_geometry_def inlet2D_nodes_def

lemma lessThan_two: "{..<2::nat} = {0, 1}"
  by auto

lemma for_iDim_two: "for_iDim 0 2 body s = (2, body 1 (body 0 s))"
  by (simp add: for_iDim_fold upt_rec numeral_2_eq_2)

lemmas common_defs = moment_origin_def setZero_i_def setZero_def AeroCoeffs_setZero_def
    force_factor_def reference_values_def Velocity_Inf_sq_def axi_factor_def zero_sums_def
    surface_loop_def

lemmas Pressure_defs = Pressure_Forces_def Pressure_local_def Pressure_totals_def
    Pressure_init_def Pressure_marker_def Pressure_vertex_def Pressure_vertex_sums_def
    Pressure_moments_def Pressure_project_2D_def Pressure_AllBound_def Pressure_Surface_def
    Pressure_Surface_slot_def Pressure_TotalCoeff_def Pressure_SurfaceCoeff_slot_def

lemmas Momentum_defs = Momentum_Forces_def Momentum_local_def Momentum_totals_def
    Momentum_init_def Momentum_marker_def Momentum_vertex_def Momentum_vertex_sums_def
    Momentum_moments_def Momentum_project_2D_def Momentum_AllBound_def Momentum_Surface_def
    Momentum_Surface_slot_def Momentum_TotalCoeff_def Momentum_SurfaceCoeff_slot_def

lemmas Friction_defs = Friction_Forces_def Friction_local_def Friction_totals_def
    Friction_init_def Friction_marker_def Friction_global_def
    Friction_TotalCoeff_def Friction_SurfaceCoeff_slot_def

text \<open>
  C2. The claim asks that \<^verbatim>\<open>AllBoundMntCoeff.CMz\<close> sums the \<^verbatim>\<open>MntCoeff.CMz\<close> of the monitored
  markers and that \<^verbatim>\<open>AllBoundMntCoeff.CMx\<close> sums their \<^verbatim>\<open>MntCoeff.CMx\<close>. The code adds
  \<^verbatim>\<open>MntCoeff.CMz[iMarker]\<close> to \<^verbatim>\<open>AllBoundMntCoeff.CMx\<close> and never writes
  \<^verbatim>\<open>AllBoundMntCoeff.CMz\<close>: in the inlet case the marker has \<open>CMz = 1\<close> and \<open>CMx = 0\<close>, and
  the sums over all boundaries are \<open>CMz = 0\<close> and \<open>CMx = 1\<close>, whatever the state before.
\<close>

theorem Momentum_AllBound_CMz_goes_to_CMx:
  "CMz (slots (MntCoeff (Momentum_Forces inlet2D_d inlet2D_config inlet2D_geometry
                           inlet2D_nodes [] s)) 0) = 1
   \<and> CMx (slots (MntCoeff (Momentum_Forces inlet2D_d inlet2D_config inlet2D_geometry
                             inlet2D_nodes [] s)) 0) = 0
   \<and> CMz (AllBoundMntCoeff (Momentum_Forces inlet2D_d inlet2D_config inlet2D_geometry
                               inlet2D_nodes [] s)) = 0
   \<and> CMx (AllBoundMntCoeff (Momentum_Forces inlet2D_d inlet2D_config inlet2D_geometry
                               inlet2D_nodes [] s)) = 1
   \<and> CMz (Momentum_AllBound eps m A) = CMz A
   \<and> CMx (Momentum_AllBound eps m A) = CMx A + CMx m + CMz m"
  by (simp add: Momentum_defs common_defs inlet2D_defs lessThan_two for_iDim_two Let_def)

text \<open>
  C1. The claim asks that after a pass every accumulator has \<open>CMerit = CT / (CQ + EPS)\<close>
  from its own \<open>CT\<close> and \<open>CQ\<close>. Friction\_Forces computes \<^verbatim>\<open>TotalCoeff.CMerit\<close> from
  \<^verbatim>\<open>AllBoundViscCoeff\<close>: after one iteration of the inlet case, from any state, the total
  has \<open>CT = 1\<close> and \<open>CQ = - 1\<close> and the merit 0, which is not \<open>CT / (CQ + EPS)\<close>.
\<close>

theorem Friction_TotalCoeff_CMerit_not_derived:
  "\<exists>s'. inlet2D_iteration s = Inr s'
        \<and> CT (TotalCoeff s') = 1 \<and> CQ (TotalCoeff s') = - 1 \<and> CMerit (TotalCoeff s') = 0
        \<and> CMerit (TotalCoeff s') \<noteq> CT (TotalCoeff s') / (CQ (TotalCoeff s') + EPS inlet2D_d)"
  by (simp add: inlet2D_iteration_def Friction_defs Momentum_defs Pressure_defs common_defs
        inlet2D_defs lessThan_two for_iDim_two Let_def)


subsection \<open>The all-reduce sums the raw accumulators\<close>

lemma Pressure_reduce_AllBound_eq:
  "AllBoundInvCoeff (Pressure_reduce_AllBound eps s ranks)
     = AllBound_reduced eps (AllBoundInvCoeff s) (map AllBoundInvCoeff ranks)"
  by (simp add: Pressure_reduce_AllBound_def Pressure_reduce_coeffs_def AllBound_reduced_def
        rank_sum_def Allreduce_def Let_def comp_def)

lemma Momentum_reduce_AllBound_eq:
  "AllBoundMntCoeff (Momentum_reduce_AllBound eps s ranks)
     = AllBound_reduced eps (AllBoundMntCoeff s) (map AllBoundMntCoeff ranks)"
  by (simp add: Momentum_reduce_AllBound_def Momentum_reduce_coeffs_def AllBound_reduced_def
        rank_sum_def Allreduce_def Let_def comp_def)

lemma Friction_reduce_AllBound_eq:
  "AllBoundViscCoeff (Friction_reduce_AllBound eps s ranks)
     = AllBound_reduced eps (AllBoundViscCoeff s) (map AllBoundViscCoeff ranks)"
  by (simp add: Friction_reduce_AllBound_def Friction_reduce_coeffs_def AllBound_reduced_def
        rank_sum_def Allreduce_def Let_def comp_def)

lemma slots_Allreduce_array:
  "slots (Allreduce_array n F F_update X others) i
     = F_update (\<lambda>_. if i < n then F (slots X i) + sum_list (map (\<lambda>Y. F (slots Y i)) others)
                      else F (slots X i)) (slots X i)"
  by (simp add: Allreduce_array_def Allreduce_inplace_def comp_def)

lemma Pressure_reduce_Surface_eq:
  "slots (Pressure_reduce_Surface eps n X others) i = Surface_reduced eps n X others i"
  by (simp add: Pressure_reduce_Surface_def Surface_reduced_def rank_sum_def
        slots_Allreduce_array Let_def comp_def)


lemma Momentum_reduce_Surface_eq:
  "slots (Momentum_reduce_Surface eps n X others) i = Surface_reduced eps n X others i"
  by (simp add: Momentum_reduce_Surface_def Surface_reduced_def rank_sum_def
        slots_Allreduce_array Let_def comp_def)

lemma Friction_reduce_Surface_eq:
  "slots (SurfaceViscCoeff (Friction_reduce_Surface eps n s ranks)) i
     = Surface_reduced eps n (SurfaceViscCoeff s) (map SurfaceViscCoeff ranks) i"
  by (simp add: Friction_reduce_Surface_def Surface_reduced_def rank_sum_def
        slots_Allreduce_array Let_def comp_def)

lemma Pressure_Forces_reduced:
  assumes "HAVE_MPI d" and "Comm_Level config = COMM_FULL"
  shows "AllBoundInvCoeff (Pressure_Forces d config geometry nodes ranks s)
           = AllBound_reduced (EPS d) (AllBoundInvCoeff (Pressure_local d config geometry nodes s))
               (map AllBoundInvCoeff ranks)"
    and "slots (SurfaceInvCoeff (Pressure_Forces d config geometry nodes ranks s)) i
           = Surface_reduced (EPS d) (nMarker_Monitoring config)
               (SurfaceInvCoeff (Pressure_local d config geometry nodes s))
               (map SurfaceInvCoeff ranks) i"
proof -
  define l where "l = Pressure_local d config geometry nodes s"
  have "AllBoundInvCoeff (Pressure_totals d config (Pressure_reduce d config l ranks))
          = AllBoundInvCoeff (Pressure_reduce_AllBound (EPS d) l ranks)"
    using assms by (simp add: Pressure_totals_def Pressure_reduce_def Let_def)
  then show "AllBoundInvCoeff (Pressure_Forces d config geometry nodes ranks s)
           = AllBound_reduced (EPS d) (AllBoundInvCoeff (Pressure_local d config geometry nodes s))
               (map AllBoundInvCoeff ranks)"
    using assms by (simp add: Pressure_Forces_def l_def Pressure_reduce_AllBound_eq)
  have "SurfaceInvCoeff (Pressure_totals d config (Pressure_reduce d config l ranks))
          = Pressure_reduce_Surface (EPS d) (nMarker_Monitoring config) (SurfaceInvCoeff l)
              (map SurfaceInvCoeff ranks)"
    using assms
    by (simp add: Pressure_totals_def Pressure_reduce_def Pressure_reduce_AllBound_def Let_def)
  then show "slots (SurfaceInvCoeff (Pressure_Forces d config geometry nodes ranks s)) i
           = Surface_reduced (EPS d) (nMarker_Monitoring config)
               (SurfaceInvCoeff (Pressure_local d config geometry nodes s))
               (map SurfaceInvCoeff ranks) i"
    using assms by (simp add: Pressure_Forces_def l_def Pressure_reduce_Surface_eq)
qed

lemma Momentum_Forces_reduced:
  assumes "HAVE_MPI d" and "Comm_Level config = COMM_FULL"
  shows "AllBoundMntCoeff (Momentum_Forces d config geometry nodes ranks s)
           = AllBound_reduced (EPS d) (AllBoundMntCoeff (Momentum_local d config geometry nodes s))
               (map AllBoundMntCoeff ranks)"
    and "slots (SurfaceMntCoeff (Momentum_Forces d config geometry nodes ranks s)) i
           = Surface_reduced (EPS d) (nMarker_Monitoring config)
               (SurfaceMntCoeff (Momentum_local d config geometry nodes s))
               (map SurfaceMntCoeff ranks) i"
proof -
  define l where "l = Momentum_local d config geometry nodes s"
  have "AllBoundMntCoeff (Momentum_totals d config (Momentum_reduce d config l ranks))
          = AllBoundMntCoeff (Momentum_reduce_AllBound (EPS d) l ranks)"
    using assms by (simp add: Momentum_totals_def Momentum_reduce_def Let_def)
  then show "AllBoundMntCoeff (Momentum_Forces d config geometry nodes ranks s)
           = AllBound_reduced (EPS d) (AllBoundMntCoeff (Momentum_local d config geometry nodes s))
               (map AllBoundMntCoeff ranks)"
    using assms by (simp add: Momentum_Forces_def l_def Momentum_reduce_AllBound_eq)
  have "SurfaceMntCoeff (Momentum_totals d config (Momentum_reduce d config l ranks))
          = Momentum_reduce_Surface (EPS d) (nMarker_Monitoring config) (SurfaceMntCoeff l)
              (map SurfaceMntCoeff ranks)"
    using assms
    by (simp add: Momentum_totals_def Momentum_reduce_def Momentum_reduce_AllBound_def Let_def)
  then show "slots (SurfaceMntCoeff (Momentum_Forces d config geometry nodes ranks s)) i
           = Surface_reduced (EPS d) (nMarker_Monitoring config)
               (SurfaceMntCoeff (Momentum_local d config geometry nodes s))
               (map SurfaceMntCoeff ranks) i"
    using assms by (simp add: Momentum_Forces_def l_def Momentum_reduce_Surface_eq)
qed

lemma Friction_Forces_reduced:
  assumes "HAVE_MPI d" and "Comm_Level config = COMM_FULL"
    and "Friction_local d config geometry nodes s = Inr l"
  shows "\<exists>s'. Friction_Forces d config geometry nodes ranks s = Inr s'
           \<and> AllBoundViscCoeff s'
               = AllBound_reduced (EPS d) (AllBoundViscCoeff l) (map AllBoundViscCoeff ranks)
           \<and> (\<forall>i. slots (SurfaceViscCoeff s') i
                     = Surface_reduced (EPS d) (nMarker_Monitoring config) (SurfaceViscCoeff l)
                         (map SurfaceViscCoeff ranks) i)"
proof -
  have 1: "AllBoundViscCoeff (Friction_totals d config (Friction_reduce d config l ranks))
          = AllBoundViscCoeff (Friction_reduce_AllBound (EPS d) l ranks)"
    using assms(1,2)
    by (simp add: Friction_totals_def Friction_reduce_def Friction_reduce_Surface_def Let_def)
  have 2: "SurfaceViscCoeff (Friction_reduce_AllBound (EPS d) l ranks) = SurfaceViscCoeff l"
    by (simp add: Friction_reduce_AllBound_def Let_def)
  have 3: "slots (SurfaceViscCoeff (Friction_totals d config (Friction_reduce d config l ranks))) i
          = Surface_reduced (EPS d) (nMarker_Monitoring config) (SurfaceViscCoeff l)
              (map SurfaceViscCoeff ranks) i" for i
    using assms(1,2) Friction_reduce_Surface_eq [of "EPS d" "nMarker_Monitoring config"
        "Friction_reduce_AllBound (EPS d) l ranks" ranks i]
    by (simp add: Friction_totals_def Friction_reduce_def 2 Let_def)
  show ?thesis
    using assms 1 3 by (simp add: Friction_Forces_def Friction_reduce_AllBound_eq)
qed

text \<open>
  C4. In a build with MPI and with the communication level \<^verbatim>\<open>COMM_FULL\<close>, each of the three
  integrations leaves in its global accumulator the sums over the processes of CD, CL, CSF,
  the force, moment and centre-of-pressure components, CT and CQ, and in its per-surface
  accumulator the sums of the reduced arrays; CEff and CMerit are the ratios of the reduced
  sums. No CEff or CMerit of any process enters the result (\<open>AllBound_reduced\<close> and the
  reduced fields of \<open>Surface_reduced\<close> do not read them).
\<close>

theorem allreduce_raw_sums_then_ratios:
  assumes "HAVE_MPI d" and "Comm_Level config = COMM_FULL"
  shows "AllBoundInvCoeff (Pressure_Forces d config geometry nodes ranks s)
           = AllBound_reduced (EPS d) (AllBoundInvCoeff (Pressure_local d config geometry nodes s))
               (map AllBoundInvCoeff ranks)
       \<and> slots (SurfaceInvCoeff (Pressure_Forces d config geometry nodes ranks s)) i
           = Surface_reduced (EPS d) (nMarker_Monitoring config)
               (SurfaceInvCoeff (Pressure_local d config geometry nodes s))
               (map SurfaceInvCoeff ranks) i
       \<and> AllBoundMntCoeff (Momentum_Forces d config geometry nodes ranks s)
           = AllBound_reduced (EPS d) (AllBoundMntCoeff (Momentum_local d config geometry nodes s))
               (map AllBoundMntCoeff ranks)
       \<and> slots (SurfaceMntCoeff (Momentum_Forces d config geometry nodes ranks s)) i
           = Surface_reduced (EPS d) (nMarker_Monitoring config)
               (SurfaceMntCoeff (Momentum_local d config geometry nodes s))
               (map SurfaceMntCoeff ranks) i
       \<and> (\<forall>l. Friction_local d config geometry nodes s = Inr l \<longrightarrow>
             (\<exists>s'. Friction_Forces d config geometry nodes ranks s = Inr s'
                \<and> AllBoundViscCoeff s'
                    = AllBound_reduced (EPS d) (AllBoundViscCoeff l) (map AllBoundViscCoeff ranks)
                \<and> slots (SurfaceViscCoeff s') i
                    = Surface_reduced (EPS d) (nMarker_Monitoring config) (SurfaceViscCoeff l)
                        (map SurfaceViscCoeff ranks) i))"
  using Pressure_Forces_reduced [OF assms] Momentum_Forces_reduced [OF assms]
    Friction_Forces_reduced [OF assms]
  by metis

theorem allreduce_raw_sums_then_ratios_witness:
  "HAVE_MPI (inlet2D_d\<lparr>HAVE_MPI := True\<rparr>) \<and> Comm_Level inlet2D_config = COMM_FULL
   \<and> (\<exists>l. Friction_local (inlet2D_d\<lparr>HAVE_MPI := True\<rparr>) inlet2D_config inlet2D_geometry
             inlet2D_nodes inlet2D_allocated = Inr l)
   \<and> AllBoundMntCoeff (Momentum_Forces (inlet2D_d\<lparr>HAVE_MPI := True\<rparr>) inlet2D_config
         inlet2D_geometry inlet2D_nodes [inlet2D_allocated] inlet2D_allocated)
       = AllBound_reduced (EPS (inlet2D_d\<lparr>HAVE_MPI := True\<rparr>))
           (AllBoundMntCoeff (Momentum_local (inlet2D_d\<lparr>HAVE_MPI := True\<rparr>) inlet2D_config
              inlet2D_geometry inlet2D_nodes inlet2D_allocated))
           (map AllBoundMntCoeff [inlet2D_allocated])"
proof -
  have h1: "HAVE_MPI (inlet2D_d\<lparr>HAVE_MPI := True\<rparr>)"
    by simp
  have h2: "Comm_Level inlet2D_config = COMM_FULL"
    by (simp add: inlet2D_config_def)
  have h3: "\<exists>l. Friction_local (inlet2D_d\<lparr>HAVE_MPI := True\<rparr>) inlet2D_config inlet2D_geometry
             inlet2D_nodes inlet2D_allocated = Inr l"
    by (simp add: Friction_defs common_defs inlet2D_defs Let_def)
  show ?thesis
    using h1 h2 h3
      allreduce_raw_sums_then_ratios [OF h1 h2, of inlet2D_geometry inlet2D_nodes
        "[inlet2D_allocated]" inlet2D_allocated 0]
    by blast
qed


subsection \<open>The reducer strategy\<close>

lemma HybridParallelInitialization_below:
  assumes "coloringEfficiency geometry < T" and "edgeColoring geometry \<noteq> []"
  shows "case HybridParallelInitialization True T nVar chunk geometry h of
           (geometry', h') \<Rightarrow>
             ReducerStrategy h'
           \<and> EdgeFluxes h' = Some (nEdge geometry, nEdge geometry, nVar)
           \<and> (\<exists>row. edgeColoring geometry' = [row]
                  \<and> EdgeColoring h' = EdgeColoring h @ [GridColor row (length row) 1]
                  \<and> (1 < length (edgeColoring geometry) \<longrightarrow> row = [0 ..< nEdge geometry])
                  \<and> (length (edgeColoring geometry) = 1 \<longrightarrow> edgeColoring geometry = [row]))"
proof (cases "1 < length (edgeColoring geometry)")
  case True
  then show ?thesis
    using assms
    by (simp add: HybridParallelInitialization_def SetNaturalEdgeColoring_def Let_def)
next
  case False
  with assms(2) obtain row where "edgeColoring geometry = [row]"
    by (cases "edgeColoring geometry") auto
  then show ?thesis
    using assms
    by (simp add: HybridParallelInitialization_def SetNaturalEdgeColoring_def Let_def)
qed

lemma HybridParallelInitialization_decision:
  "ReducerStrategy (snd (HybridParallelInitialization True T nVar chunk geometry h))
     = (coloringEfficiency geometry < T)"
  by (simp add: HybridParallelInitialization_def Let_def)

text \<open>
  C6. In a build with OpenMP, for a geometry that has a colouring: when the measured
  efficiency is below \<^verbatim>\<open>COLORING_EFF_THRESH\<close>, \<^verbatim>\<open>ReducerStrategy\<close> is true, the geometry is left
  with one colour (the natural colouring of all edges in order if it had several colours,
  its only colour otherwise), the solver gets one group for that colour with group size 1,
  and \<^verbatim>\<open>EdgeFluxes\<close> is initialised with the number of edges and \<^verbatim>\<open>nVar\<close>. For every geometry
  and state, the flag is the comparison of the efficiency of this process with the threshold.
\<close>

theorem reducer_strategy_below_threshold:
  assumes "coloringEfficiency geometry < COLORING_EFF_THRESH" and "edgeColoring geometry \<noteq> []"
  shows "(case HybridParallelInitialization True COLORING_EFF_THRESH nVar chunk geometry h of
           (geometry', h') \<Rightarrow>
             ReducerStrategy h'
           \<and> EdgeFluxes h' = Some (nEdge geometry, nEdge geometry, nVar)
           \<and> (\<exists>row. edgeColoring geometry' = [row]
                  \<and> EdgeColoring h' = EdgeColoring h @ [GridColor row (length row) 1]
                  \<and> (1 < length (edgeColoring geometry) \<longrightarrow> row = [0 ..< nEdge geometry])
                  \<and> (length (edgeColoring geometry) = 1 \<longrightarrow> edgeColoring geometry = [row])))
       \<and> (\<forall>geometry2 h2.
             ReducerStrategy (snd (HybridParallelInitialization True COLORING_EFF_THRESH nVar
                                     chunk geometry2 h2))
               = (coloringEfficiency geometry2 < COLORING_EFF_THRESH))"
  using HybridParallelInitialization_below [OF assms]
  by (simp add: HybridParallelInitialization_decision)

theorem reducer_strategy_below_threshold_witness:
  "coloringEfficiency two_colours < 7 / 8 \<and> edgeColoring two_colours \<noteq> []
   \<and> 1 < length (edgeColoring two_colours)
   \<and> HybridParallelInitialization True (7 / 8) 4 1 two_colours hybrid_initial
       = (two_colours\<lparr>edgeColoring := [[0, 1, 2]]\<rparr>,
          \<lparr>ReducerStrategy = True, EdgeColoring = [GridColor [0, 1, 2] 3 1],
           EdgeFluxes = Some (3, 3, 4), omp_chunk_size = 1\<rparr>)"
proof -
  have h1: "coloringEfficiency two_colours < 7 / 8"
    by (simp add: two_colours_def)
  have h2: "edgeColoring two_colours \<noteq> []"
    by (simp add: two_colours_def)
  have "[0 ..< 3] = [0, 1, 2::nat]"
    by (simp add: upt_rec)
  then show ?thesis
    using reducer_strategy_below_threshold [OF h1 h2, where nVar = 4 and chunk = 1
        and h = hybrid_initial]
    by (simp add: HybridParallelInitialization_def SetNaturalEdgeColoring_def Let_def
          two_colours_def hybrid_initial_def)
qed

subsection \<open>The divisions of Friction\_Forces\<close>

lemma unit_normal_Inr:
  "(\<exists>u. unit_normal n N (sqrt (\<Sum>iDim<n. N iDim * N iDim)) = Inr u)
     = (n = 0 \<or> (\<exists>iDim<n. N iDim \<noteq> 0))"
proof -
  have "(\<Sum>iDim<n. N iDim * N iDim) = 0 \<longleftrightarrow> (\<forall>iDim<n. N iDim = 0)"
    by (subst sum_nonneg_eq_0_iff) auto
  then show ?thesis
    by (auto simp: unit_normal_def)
qed

lemma skin_friction_Inr: "(\<exists>Cf. skin_friction n T K = Inr Cf) = (n = 0 \<or> K \<noteq> 0)"
  by (auto simp: skin_friction_def)

lemma sum_squares_zero:
  "((\<Sum>iDim<n::nat. (T iDim :: real) * T iDim) = 0) = (\<forall>iDim<n. T iDim = 0)"
  by (subst sum_nonneg_eq_0_iff) auto

lemma Friction_shear_Inr:
  "(\<exists>sh. Friction_shear d config geometry nodes v = Inr sh)
     = (nDim d = 0 \<or> ((\<exists>iDim<nDim d. Normal v iDim \<noteq> 0)
          \<and> fst (reference_values d config) * snd (reference_values d config) \<noteq> 0))"
  by (auto simp: Friction_shear_def Let_def unit_normal_def skin_friction_def sum_squares_zero
      split: sum.splits if_splits)

lemma Friction_Tau_zero: "Friction_Tau d config G 0 = (\<lambda>_ _. 0)"
  by (simp add: Friction_Tau_def Let_def fun_eq_iff)

lemma Friction_shear_fields:
  assumes "Friction_shear d config geometry nodes v = Inr sh"
  shows "Area_w sh = sqrt (\<Sum>iDim<nDim d. Normal v iDim * Normal v iDim)"
    and "UnitNormal_w sh
           = (\<lambda>iDim. if iDim < nDim d
                      then Normal v iDim / sqrt (\<Sum>iDim<nDim d. Normal v iDim * Normal v iDim)
                      else 0)"
    and "LaminarViscosity nodes (Node v) = 0 \<Longrightarrow> TauTangent_w sh = (\<lambda>_. 0)"
  using assms
  by (auto simp: Friction_shear_def Let_def unit_normal_def skin_friction_def Friction_Tau_zero
      split: if_splits)

lemma Friction_wall_Inr:
  "(\<exists>w. Friction_wall d config geometry nodes v sh = Inr w)
     = (Density nodes (Node v) \<noteq> 0
        \<and> (0 < Density nodes (Node v) \<or> (\<forall>iDim<nDim d. TauTangent_w sh iDim = 0))
        \<and> LaminarViscosity nodes (Node v) \<noteq> 0
        \<and> (FlowRegime d = COMPRESSIBLE \<longrightarrow>
             Gamma_Minus_One d \<noteq> 0 \<and> Prandtl_Lam config \<noteq> 0))"
proof -
  define W where "W = sqrt (\<Sum>iDim<nDim d. TauTangent_w sh iDim * TauTangent_w sh iDim)"
  have W0: "0 \<le> W"
    by (simp add: W_def sum_nonneg)
  have Wz: "(W = 0) = (\<forall>iDim<nDim d. TauTangent_w sh iDim = 0)"
    unfolding W_def by (simp add: sum_squares_zero)
  have neg: "(\<bar>W\<bar> / r < 0) = (W \<noteq> 0 \<and> r < 0)" for r
    using W0 by (auto simp: divide_less_0_iff)
  show ?thesis
    unfolding Friction_wall_def Let_def W_def [symmetric] Wz [symmetric]
    by (cases "FlowRegime d")
      (auto simp: fdiv_def fsqrt_def neg split: sum.splits if_splits)
qed

lemma Friction_wall_fields:
  assumes "Friction_wall d config geometry nodes v sh = Inr w"
  shows "Area_w w = Area_w sh" and "TauElem_w w = TauElem_w sh"
    and "UnitNormal_w w = UnitNormal_w sh" and "TauTangent_w w = TauTangent_w sh"
    and "FlowRegime d = COMPRESSIBLE \<Longrightarrow>
           HeatFlux_w w
             = Gamma d / Gamma_Minus_One d * Gas_ConstantND config
                 * LaminarViscosity nodes (Node v) / Prandtl_Lam config
                 * (\<Sum>iDim<nDim d. Gradient_Primitive nodes (Node v) 0 iDim * UnitNormal_w sh iDim)
                 * Heat_Flux_Ref config"
  using assms
  by (auto simp: Friction_wall_def Let_def fdiv_def fsqrt_def split: sum.splits if_splits)

lemma Friction_quantities_Inr:
  "(\<exists>w. Friction_quantities d config geometry nodes v = Inr w)
     = (\<exists>sh. Friction_shear d config geometry nodes v = Inr sh
           \<and> Density nodes (Node v) \<noteq> 0
           \<and> (0 < Density nodes (Node v) \<or> (\<forall>iDim<nDim d. TauTangent_w sh iDim = 0))
           \<and> LaminarViscosity nodes (Node v) \<noteq> 0
           \<and> (FlowRegime d = COMPRESSIBLE \<longrightarrow>
                Gamma_Minus_One d \<noteq> 0 \<and> Prandtl_Lam config \<noteq> 0))"
proof (cases "Friction_shear d config geometry nodes v")
  case (Inl e)
  then show ?thesis
    by (simp add: Friction_quantities_def)
next
  case (Inr sh)
  then show ?thesis
    by (simp add: Friction_quantities_def Friction_wall_Inr)
qed

lemma isl_iff: "(\<not> isl x) = (\<exists>y. x = Inr y)"
  by (cases x) simp_all

lemma Friction_quantities_defined:
  assumes "nDim d = 0 \<or> (\<exists>iDim<nDim d. Normal v iDim \<noteq> 0)"
    and "nDim d = 0 \<or> fst (reference_values d config) * snd (reference_values d config) \<noteq> 0"
    and "0 < Density nodes (Node v)" and "LaminarViscosity nodes (Node v) \<noteq> 0"
    and "FlowRegime d = COMPRESSIBLE \<longrightarrow> Gamma_Minus_One d \<noteq> 0 \<and> Prandtl_Lam config \<noteq> 0"
  shows "\<exists>w. Friction_quantities d config geometry nodes v = Inr w"
proof -
  obtain sh where "Friction_shear d config geometry nodes v = Inr sh"
    using assms(1,2) Friction_shear_Inr [of d config geometry nodes v] by auto
  then show ?thesis
    unfolding Friction_quantities_Inr using assms(3-) by auto
qed


lemma fold_err_Cons_Inr:
  "(fold_err f (x # xs) st = Inr st')
     = (\<exists>st1. f x st = Inr st1 \<and> fold_err f xs st1 = Inr st')"
  by (auto split: sum.splits)

lemma fold_err_inv:
  assumes "fold_err f xs st = Inr st'" and "I st"
    and "\<And>x st st'. x \<in> set xs \<Longrightarrow> I st \<Longrightarrow> f x st = Inr st' \<Longrightarrow> I st'"
  shows "I st'"
  using assms
proof (induction xs arbitrary: st)
  case Nil
  then show ?case by simp
next
  case (Cons x xs)
  from Cons.prems(1) obtain st1 where 1: "f x st = Inr st1"
    and 2: "fold_err f xs st1 = Inr st'"
    by (auto split: sum.splits)
  have 3: "I st1"
    using Cons.prems(3) [of x st st1] Cons.prems(2) 1 by simp
  show ?case
  proof (rule Cons.IH [OF 2 3])
    fix y sa sb
    assume "y \<in> set xs" and "I sa" and "f y sa = Inr sb"
    then show "I sb"
      using Cons.prems(3) [of y sa sb] by simp
  qed
qed

lemma fold_err_Inr_iff:
  assumes "I st"
    and "\<And>x st st'. x \<in> set xs \<Longrightarrow> I st \<Longrightarrow> f x st = Inr st' \<Longrightarrow> I st'"
    and "\<And>x st. x \<in> set xs \<Longrightarrow> I st \<Longrightarrow> (\<exists>st'. f x st = Inr st') = ok x"
  shows "(\<exists>st'. fold_err f xs st = Inr st') = (\<forall>x\<in>set xs. ok x)"
  using assms
proof (induction xs arbitrary: st)
  case Nil
  then show ?case by simp
next
  case (Cons x xs)
  show ?case
  proof (cases "f x st")
    case (Inl e)
    then have "\<not> ok x"
      using Cons.prems(3) [of x st] Cons.prems(1) by simp
    with Inl show ?thesis by simp
  next
    case (Inr st1)
    then have "ok x"
      using Cons.prems(3) [of x st] Cons.prems(1) by auto
    moreover have 1: "I st1"
      using Cons.prems(2) [of x st st1] Cons.prems(1) Inr by simp
    have "(\<exists>st'. fold_err f xs st1 = Inr st') = (\<forall>x\<in>set xs. ok x)"
    proof (rule Cons.IH [OF 1])
      fix y sa sb
      assume "y \<in> set xs" and "I sa" and "f y sa = Inr sb"
      then show "I sb"
        using Cons.prems(2) [of y sa sb] by simp
    next
      fix y sa
      assume "y \<in> set xs" and "I sa"
      then show "(\<exists>st'. f y sa = Inr st') = ok y"
        using Cons.prems(3) [of y sa] by simp
    qed
    ultimately show ?thesis
      using Inr by simp
  qed
qed

lemma fold_err_error:
  assumes "fold_err f xs st = Inl e"
    and "\<And>x st e. x \<in> set xs \<Longrightarrow> f x st = Inl e \<Longrightarrow> e = E"
  shows "e = E"
  using assms
proof (induction xs arbitrary: st)
  case Nil
  then show ?case by simp
next
  case (Cons x xs)
  show ?case
  proof (cases "f x st")
    case (Inl e')
    then show ?thesis
      using Cons.prems by auto
  next
    case (Inr st1)
    then show ?thesis
      using Cons.IH [of st1] Cons.prems by auto
  qed
qed

lemma store2_Inr: "(\<exists>Y. store2 X i j x = Inr Y) = (i < length X \<and> j < length (X ! i))"
  by (simp add: store2_def)

lemma store2_shape: "store2 X i j x = Inr Y \<Longrightarrow> map length Y = map length X"
  by (auto simp: store2_def map_update list_update_same_conv split: if_splits)

lemma store2_error: "store2 X i j x = Inl e \<Longrightarrow> e = OutOfBounds"
  by (auto simp: store2_def split: if_splits)

lemma store_skin_shape:
  assumes "store_skin n iVertex Cf X = Inr Y"
  shows "map length Y = map length X"
  using assms unfolding store_skin_def
  by (rule fold_err_inv [where I = "\<lambda>Z. map length Z = map length X"])
    (auto dest: store2_shape)

lemma store_skin_Inr:
  "(\<exists>Y. store_skin n iVertex Cf X = Inr Y) = skin_in_bounds n (map length X) iVertex"
proof -
  have "(\<exists>Y. fold_err (\<lambda>iDim X. store2 X iDim iVertex (Cf iDim)) [0 ..< n] X = Inr Y)
          = (\<forall>iDim\<in>set [0 ..< n]. iDim < length (map length X)
                \<and> iVertex < map length X ! iDim)"
  proof (rule fold_err_Inr_iff [where I = "\<lambda>Z. map length Z = map length X"])
    show "map length X = map length X"
      by simp
  next
    fix iDim and Z Z' :: "su2double list list"
    assume "store2 Z iDim iVertex (Cf iDim) = Inr Z'" and "map length Z = map length X"
    then show "map length Z' = map length X"
      using store2_shape by fastforce
  next
    fix iDim and Z :: "su2double list list"
    assume Z: "map length Z = map length X"
    then have len: "length Z = length X"
      using map_eq_imp_length_eq by blast
    have "iDim < length X \<Longrightarrow> length (Z ! iDim) = map length X ! iDim"
      using Z len by (metis nth_map)
    then show "(\<exists>st'. store2 Z iDim iVertex (Cf iDim) = Inr st')
                 = (iDim < length (map length X) \<and> iVertex < map length X ! iDim)"
      using len by (auto simp: store2_Inr)
  qed
  then show ?thesis
    by (auto simp: store_skin_def skin_in_bounds_def)
qed

lemma store_skin_error: "store_skin n iVertex Cf X = Inl e \<Longrightarrow> e = OutOfBounds"
  unfolding store_skin_def by (erule fold_err_error) (rule store2_error)

lemma Friction_vertex_Inr:
  "(\<exists>st'. Friction_vertex d config geometry nodes factor (Marker_All_Monitoring config iMarker)
             Origin iMarker iVertex (s, a) = Inr st')
     = vertex_defined d config geometry nodes (skin_shape s iMarker) iMarker iVertex"
proof (cases "Friction_shear d config geometry nodes (vertex geometry iMarker ! iVertex)")
  case (Inl e)
  then show ?thesis
    by (simp add: Friction_vertex_def vertex_defined_def Friction_quantities_def Let_def)
next
  case sh: (Inr sh)
  show ?thesis
  proof (cases "store_skin (nDim d) iVertex (CSkinFriction_w sh) (CSkinFriction s iMarker)")
    case (Inl e)
    then have "\<not> skin_in_bounds (nDim d) (skin_shape s iMarker) iVertex"
      using store_skin_Inr [of "nDim d" iVertex "CSkinFriction_w sh" "CSkinFriction s iMarker"]
      by (simp add: skin_shape_def)
    then show ?thesis
      using sh Inl by (simp add: Friction_vertex_def vertex_defined_def Let_def)
  next
    case X: (Inr X)
    then have b: "skin_in_bounds (nDim d) (skin_shape s iMarker) iVertex"
      using store_skin_Inr [of "nDim d" iVertex "CSkinFriction_w sh" "CSkinFriction s iMarker"]
      by (auto simp: skin_shape_def)
    show ?thesis
    proof (cases "Friction_wall d config geometry nodes (vertex geometry iMarker ! iVertex) sh")
      case (Inl e)
      then show ?thesis
        using sh X
        by (simp add: Friction_vertex_def vertex_defined_def Friction_quantities_def Let_def)
    next
      case (Inr w)
      then show ?thesis
        using sh X b
        by (simp add: Friction_vertex_def vertex_defined_def Friction_quantities_def Let_def)
    qed
  qed
qed

lemma Friction_vertex_error:
  assumes "Friction_vertex d config geometry nodes factor Monitoring Origin iMarker iVertex st
             = Inl e"
    and "\<not> isl (Friction_quantities d config geometry nodes (vertex geometry iMarker ! iVertex))"
    and "RefLength config \<noteq> 0"
  shows "e = OutOfBounds"
proof -
  obtain s a where st: "st = (s, a)"
    by (cases st)
  from assms(2) obtain sh w where
    sh: "Friction_shear d config geometry nodes (vertex geometry iMarker ! iVertex) = Inr sh"
    and w: "Friction_wall d config geometry nodes (vertex geometry iMarker ! iVertex) sh = Inr w"
    by (auto simp: Friction_quantities_def isl_iff split: sum.splits)
  show ?thesis
  proof (cases "store_skin (nDim d) iVertex (CSkinFriction_w sh) (CSkinFriction s iMarker)")
    case (Inl e')
    then have "e' = OutOfBounds"
      by (rule store_skin_error)
    then show ?thesis
      using assms(1) sh Inl by (simp add: st Friction_vertex_def Let_def)
  next
    case (Inr X)
    then show ?thesis
      using assms(1,3) sh w by (simp add: st Friction_vertex_def Let_def split: if_splits)
  qed
qed

text \<open>What a turn of the loop over the vertices that returns has done to the state.\<close>

lemma Friction_vertex_fields:
  assumes "Friction_vertex d config geometry nodes factor Monitoring Origin iMarker iVertex (s, a)
             = Inr (s', a')"
  shows "\<exists>w. Friction_quantities d config geometry nodes (vertex geometry iMarker ! iVertex)
               = Inr w
     \<and> HeatFlux s' = (HeatFlux s)(iMarker := (HeatFlux s iMarker)(iVertex := HeatFlux_w w))
     \<and> YPlus s' = (YPlus s)(iMarker := (YPlus s iMarker)(iVertex := YPlus_w w))
     \<and> HF_Visc s' =
         (if GetDomain geometry (Node (vertex geometry iMarker ! iVertex)) \<and> Monitoring
          then (HF_Visc s)(iMarker := HF_Visc s iMarker + HeatFlux_w w * Area_w w)
          else HF_Visc s)
     \<and> MaxHF_Visc s' =
         (if GetDomain geometry (Node (vertex geometry iMarker ! iVertex)) \<and> Monitoring
          then (MaxHF_Visc s)(iMarker := MaxHF_Visc s iMarker + pow_MaxNorm (HeatFlux_w w))
          else MaxHF_Visc s)
     \<and> ViscCoeff s' = ViscCoeff s
     \<and> a' =
         (if GetDomain geometry (Node (vertex geometry iMarker ! iVertex)) \<and> Monitoring
          then Friction_vertex_sums d config geometry factor Origin
                 (vertex geometry iMarker ! iVertex) w a
          else a)
     \<and> (\<forall>k. k \<noteq> iMarker \<longrightarrow> CSkinFriction s' k = CSkinFriction s k)
     \<and> skin_shape s' = skin_shape s
     \<and> AllBound_MaxHF_Visc s' = AllBound_MaxHF_Visc s"
proof -
  from assms obtain sh X w where
    sh: "Friction_shear d config geometry nodes (vertex geometry iMarker ! iVertex) = Inr sh"
    and X: "store_skin (nDim d) iVertex (CSkinFriction_w sh) (CSkinFriction s iMarker) = Inr X"
    and w: "Friction_wall d config geometry nodes (vertex geometry iMarker ! iVertex) sh = Inr w"
    by (auto simp: Friction_vertex_def Let_def split: sum.splits)
  have q: "Friction_quantities d config geometry nodes (vertex geometry iMarker ! iVertex) = Inr w"
    using sh w by (simp add: Friction_quantities_def)
  have shape: "map length X = map length (CSkinFriction s iMarker)"
    by (rule store_skin_shape [OF X])
  show ?thesis
    using assms sh X w q shape
    by (auto simp: Friction_vertex_def Let_def skin_shape_def fun_eq_iff split: if_splits)
qed

subsection \<open>The loops of Friction\_Forces\<close>

lemma Friction_vertices_frame:
  assumes "fold_err (Friction_vertex d config geometry nodes factor Monitoring Origin iMarker) vs
             (s, a) = Inr (s', a')"
  shows "ViscCoeff s' = ViscCoeff s
     \<and> skin_shape s' = skin_shape s
     \<and> AllBound_MaxHF_Visc s' = AllBound_MaxHF_Visc s
     \<and> (\<not> Monitoring \<longrightarrow> HF_Visc s' = HF_Visc s \<and> MaxHF_Visc s' = MaxHF_Visc s \<and> a' = a)
     \<and> (\<forall>k. k \<noteq> iMarker \<longrightarrow>
            HeatFlux s' k = HeatFlux s k \<and> YPlus s' k = YPlus s k
            \<and> CSkinFriction s' k = CSkinFriction s k
            \<and> HF_Visc s' k = HF_Visc s k \<and> MaxHF_Visc s' k = MaxHF_Visc s k)
     \<and> (\<forall>iVertex. iVertex \<notin> set vs \<longrightarrow>
            HeatFlux s' iMarker iVertex = HeatFlux s iMarker iVertex
            \<and> YPlus s' iMarker iVertex = YPlus s iMarker iVertex)"
  using assms
proof (induction vs arbitrary: s a)
  case Nil
  then show ?case by simp
next
  case (Cons v vs)
  then obtain s1 a1 where
    1: "Friction_vertex d config geometry nodes factor Monitoring Origin iMarker v (s, a)
          = Inr (s1, a1)"
    and 2: "fold_err (Friction_vertex d config geometry nodes factor Monitoring Origin iMarker)
              vs (s1, a1) = Inr (s', a')"
    by (auto split: sum.splits)
  from Friction_vertex_fields [OF 1] Cons.IH [OF 2]
  show ?case
    by (auto simp: fun_upd_def)
qed

lemma Friction_vertices_written:
  assumes "fold_err (Friction_vertex d config geometry nodes factor Monitoring Origin iMarker) vs
             (s, a) = Inr (s', a')"
    and "distinct vs" and "iVertex \<in> set vs"
  shows "\<exists>w. Friction_quantities d config geometry nodes (vertex geometry iMarker ! iVertex)
               = Inr w
     \<and> HeatFlux s' iMarker iVertex = HeatFlux_w w
     \<and> YPlus s' iMarker iVertex = YPlus_w w"
  using assms
proof (induction vs arbitrary: s a)
  case Nil
  then show ?case by simp
next
  case (Cons v vs)
  then obtain s1 a1 where
    1: "Friction_vertex d config geometry nodes factor Monitoring Origin iMarker v (s, a)
          = Inr (s1, a1)"
    and 2: "fold_err (Friction_vertex d config geometry nodes factor Monitoring Origin iMarker)
              vs (s1, a1) = Inr (s', a')"
    by (auto split: sum.splits)
  show ?case
  proof (cases "iVertex = v")
    case True
    then have "iVertex \<notin> set vs"
      using Cons.prems(2) by simp
    then have "HeatFlux s' iMarker iVertex = HeatFlux s1 iMarker iVertex"
      "YPlus s' iMarker iVertex = YPlus s1 iMarker iVertex"
      using Friction_vertices_frame [OF 2] by simp_all
    then show ?thesis
      using Friction_vertex_fields [OF 1] True by auto
  next
    case False
    then show ?thesis
      using Cons.IH [OF 2] Cons.prems by simp
  qed
qed

lemma Friction_vertices_MaxHF:
  assumes "fold_err (Friction_vertex d config geometry nodes factor Monitoring Origin iMarker) vs
             (s, a) = Inr (s', a')"
    and "distinct vs" and "Monitoring"
  shows "MaxHF_Visc s' iMarker = MaxHF_Visc s iMarker
           + sum_list (map (\<lambda>iVertex. pow_MaxNorm (HeatFlux s' iMarker iVertex))
               (filter (\<lambda>iVertex. GetDomain geometry (Node (vertex geometry iMarker ! iVertex)))
                  vs))"
  using assms
proof (induction vs arbitrary: s a)
  case Nil
  then show ?case by simp
next
  case (Cons v vs)
  then obtain s1 a1 where
    1: "Friction_vertex d config geometry nodes factor Monitoring Origin iMarker v (s, a)
          = Inr (s1, a1)"
    and 2: "fold_err (Friction_vertex d config geometry nodes factor Monitoring Origin iMarker)
              vs (s1, a1) = Inr (s', a')"
    by (auto split: sum.splits)
  have "v \<notin> set vs"
    using Cons.prems(2) by simp
  then have keep: "HeatFlux s' iMarker v = HeatFlux s1 iMarker v"
    using Friction_vertices_frame [OF 2] by simp
  have rest: "MaxHF_Visc s' iMarker = MaxHF_Visc s1 iMarker
           + sum_list (map (\<lambda>iVertex. pow_MaxNorm (HeatFlux s' iMarker iVertex))
               (filter (\<lambda>iVertex. GetDomain geometry (Node (vertex geometry iMarker ! iVertex)))
                  vs))"
    using Cons.IH [OF 2] Cons.prems by simp
  show ?case
    using Friction_vertex_fields [OF 1] keep rest Cons.prems(3) by auto
qed

lemma fold_keeps:
  assumes "\<And>x s. g (f x s) = g s"
  shows "g (fold f xs s) = g s"
  by (induction xs arbitrary: s) (simp_all add: assms)

lemma Friction_Surface_fields:
  "HeatFlux (Friction_Surface config iMarker s) = HeatFlux s"
  "YPlus (Friction_Surface config iMarker s) = YPlus s"
  "CSkinFriction (Friction_Surface config iMarker s) = CSkinFriction s"
  "HF_Visc (Friction_Surface config iMarker s) = HF_Visc s"
  "MaxHF_Visc (Friction_Surface config iMarker s) = MaxHF_Visc s"
  "ViscCoeff (Friction_Surface config iMarker s) = ViscCoeff s"
  "AllBound_MaxHF_Visc (Friction_Surface config iMarker s) = AllBound_MaxHF_Visc s"
  unfolding Friction_Surface_def
  by (rule fold_keeps, simp add: Let_def)+

lemma Friction_marker_AllBound_fields:
  "HeatFlux (Friction_marker_AllBound iMarker s) = HeatFlux s"
  "YPlus (Friction_marker_AllBound iMarker s) = YPlus s"
  "CSkinFriction (Friction_marker_AllBound iMarker s) = CSkinFriction s"
  "HF_Visc (Friction_marker_AllBound iMarker s) = HF_Visc s"
  "MaxHF_Visc (Friction_marker_AllBound iMarker s) = MaxHF_Visc s"
  "ViscCoeff (Friction_marker_AllBound iMarker s) = ViscCoeff s"
  "AllBound_MaxHF_Visc (Friction_marker_AllBound iMarker s)
     = AllBound_MaxHF_Visc s + pow_MaxNorm (MaxHF_Visc s iMarker)"
  by (simp_all add: Friction_marker_AllBound_def Let_def)

lemma Friction_marker_coeffs_fields:
  "HeatFlux (Friction_marker_coeffs d config iMarker a s) = HeatFlux s"
  "YPlus (Friction_marker_coeffs d config iMarker a s) = YPlus s"
  "CSkinFriction (Friction_marker_coeffs d config iMarker a s) = CSkinFriction s"
  "HF_Visc (Friction_marker_coeffs d config iMarker a s) = HF_Visc s"
  "MaxHF_Visc (Friction_marker_coeffs d config iMarker a s)
     = (if nDim d = 2 \<or> nDim d = 3
        then (MaxHF_Visc s)(iMarker := pow_inv_MaxNorm (MaxHF_Visc s iMarker))
        else MaxHF_Visc s)"
  "k \<noteq> iMarker \<Longrightarrow>
     slots (ViscCoeff (Friction_marker_coeffs d config iMarker a s)) k = slots (ViscCoeff s) k"
  "AllBound_MaxHF_Visc (Friction_marker_coeffs d config iMarker a s) = AllBound_MaxHF_Visc s"
  by (simp_all add: Friction_marker_coeffs_def Let_def)

lemmas Friction_marker_project_fields =
  Friction_Surface_fields Friction_marker_AllBound_fields Friction_marker_coeffs_fields

lemma Friction_marker_other_row:
  assumes "Friction_marker d config geometry nodes factor k (s, Origin) = Inr (s', Origin')"
    and "k \<noteq> iMarker"
  shows "viscous_row iMarker s' = viscous_row iMarker s"
proof (cases "viscous_wall config k")
  case False
  then show ?thesis
    using assms by (simp add: Friction_marker_def viscous_wall_def Let_def)
next
  case True
  define s0 where "s0 = s\<lparr>ViscCoeff := setZero_i k (ViscCoeff s),
     HF_Visc := (HF_Visc s)(k := 0), MaxHF_Visc := (MaxHF_Visc s)(k := 0)\<rparr>"
  have row0: "viscous_row iMarker s0 = viscous_row iMarker s"
    using assms(2) by (simp add: viscous_row_def s0_def slots_setZero_i)
  from True assms(1) obtain O1 s1 a1 where
    loop: "fold_err (Friction_vertex d config geometry nodes factor
                       (Marker_All_Monitoring config k) O1 k)
             [0 ..< length (vertex geometry k)] (s0, zero_sums) = Inr (s1, a1)"
    and s': "s' = (if Marker_All_Monitoring config k
                   then Friction_marker_project d config k a1 s1 else s1)"
    unfolding s0_def
    by (auto simp: Friction_marker_def viscous_wall_def Let_def split: sum.splits if_splits)
  have row1: "viscous_row iMarker s1 = viscous_row iMarker s0"
    using Friction_vertices_frame [OF loop] assms(2) by (simp add: viscous_row_def)
  have "viscous_row iMarker s' = viscous_row iMarker s1"
    using assms(2)
    by (simp add: s' viscous_row_def Friction_marker_project_def Friction_marker_project_fields)
  then show ?thesis
    using row0 row1 by simp
qed


lemma Friction_marker_own_row:
  assumes "Friction_marker d config geometry nodes factor iMarker (s, Origin) = Inr (s', Origin')"
    and "viscous_wall config iMarker"
  shows "(\<forall>iVertex<length (vertex geometry iMarker).
            \<exists>w. Friction_quantities d config geometry nodes (vertex geometry iMarker ! iVertex)
                   = Inr w
              \<and> HeatFlux s' iMarker iVertex = HeatFlux_w w
              \<and> YPlus s' iMarker iVertex = YPlus_w w)
     \<and> (\<not> Marker_All_Monitoring config iMarker \<longrightarrow>
            HF_Visc s' iMarker = 0 \<and> MaxHF_Visc s' iMarker = 0
            \<and> slots (ViscCoeff s') iMarker = AeroCoeffs_setZero)
     \<and> (Marker_All_Monitoring config iMarker \<and> (nDim d = 2 \<or> nDim d = 3) \<longrightarrow>
            MaxHF_Visc s' iMarker
              = pow_inv_MaxNorm
                  (sum_list (map (\<lambda>iVertex. pow_MaxNorm (HeatFlux s' iMarker iVertex))
                     (filter (\<lambda>iVertex. GetDomain geometry
                                          (Node (vertex geometry iMarker ! iVertex)))
                        [0 ..< length (vertex geometry iMarker)]))))
     \<and> AllBound_MaxHF_Visc s'
         = AllBound_MaxHF_Visc s
             + (if Marker_All_Monitoring config iMarker
                then pow_MaxNorm (MaxHF_Visc s' iMarker) else 0)"
proof -
  define s0 where "s0 = s\<lparr>ViscCoeff := setZero_i iMarker (ViscCoeff s),
     HF_Visc := (HF_Visc s)(iMarker := 0), MaxHF_Visc := (MaxHF_Visc s)(iMarker := 0)\<rparr>"
  have zero0: "HF_Visc s0 iMarker = 0" "MaxHF_Visc s0 iMarker = 0"
    "slots (ViscCoeff s0) iMarker = AeroCoeffs_setZero"
    by (simp_all add: s0_def slots_setZero_i)
  from assms obtain O1 s1 a1 where
    loop: "fold_err (Friction_vertex d config geometry nodes factor
                       (Marker_All_Monitoring config iMarker) O1 iMarker)
             [0 ..< length (vertex geometry iMarker)] (s0, zero_sums) = Inr (s1, a1)"
    and s': "s' = (if Marker_All_Monitoring config iMarker
                   then Friction_marker_project d config iMarker a1 s1 else s1)"
    unfolding s0_def
    by (auto simp: Friction_marker_def viscous_wall_def Let_def split: sum.splits if_splits)
  have same: "HeatFlux s' = HeatFlux s1" "YPlus s' = YPlus s1"
    by (simp_all add: s' Friction_marker_project_def Friction_marker_project_fields)
  have A: "\<exists>w. Friction_quantities d config geometry nodes (vertex geometry iMarker ! iVertex)
                   = Inr w
              \<and> HeatFlux s' iMarker iVertex = HeatFlux_w w
              \<and> YPlus s' iMarker iVertex = YPlus_w w"
    if "iVertex < length (vertex geometry iMarker)" for iVertex
    using Friction_vertices_written [OF loop, of iVertex] that by (simp add: same)
  have B: "HF_Visc s' iMarker = 0 \<and> MaxHF_Visc s' iMarker = 0
            \<and> slots (ViscCoeff s') iMarker = AeroCoeffs_setZero"
    if "\<not> Marker_All_Monitoring config iMarker"
    using Friction_vertices_frame [OF loop] that zero0 by (simp add: s')
  have C: "MaxHF_Visc s' iMarker
              = pow_inv_MaxNorm
                  (sum_list (map (\<lambda>iVertex. pow_MaxNorm (HeatFlux s' iMarker iVertex))
                     (filter (\<lambda>iVertex. GetDomain geometry
                                          (Node (vertex geometry iMarker ! iVertex)))
                        [0 ..< length (vertex geometry iMarker)])))"
    if "Marker_All_Monitoring config iMarker" and "nDim d = 2 \<or> nDim d = 3"
  proof -
    have "MaxHF_Visc s1 iMarker
            = sum_list (map (\<lambda>iVertex. pow_MaxNorm (HeatFlux s1 iMarker iVertex))
                 (filter (\<lambda>iVertex. GetDomain geometry
                                      (Node (vertex geometry iMarker ! iVertex)))
                    [0 ..< length (vertex geometry iMarker)]))"
      using Friction_vertices_MaxHF [OF loop] that(1) zero0 by simp
    moreover have "MaxHF_Visc s' iMarker = pow_inv_MaxNorm (MaxHF_Visc s1 iMarker)"
      using that
      by (simp add: s' Friction_marker_project_def Friction_marker_project_fields)
    ultimately show ?thesis
      by (simp add: same)
  qed
  have ab1: "AllBound_MaxHF_Visc s1 = AllBound_MaxHF_Visc s"
    using Friction_vertices_frame [OF loop] by (simp add: s0_def)
  have D: "AllBound_MaxHF_Visc s'
         = AllBound_MaxHF_Visc s
             + (if Marker_All_Monitoring config iMarker
                then pow_MaxNorm (MaxHF_Visc s' iMarker) else 0)"
    using ab1
    by (simp add: s' Friction_marker_project_def Friction_marker_project_fields)
  show ?thesis
    using A B C D by blast
qed

lemma fold_err_keeps:
  assumes "\<And>k st st'. k \<in> set ks \<Longrightarrow> f k st = Inr st' \<Longrightarrow> g st' = g st"
    and "fold_err f ks st = Inr st'"
  shows "g st' = g st"
  using assms
proof (induction ks arbitrary: st)
  case Nil
  then show ?case by simp
next
  case (Cons k ks)
  from Cons.prems(2) obtain st1 where 1: "f k st = Inr st1"
    and 2: "fold_err f ks st1 = Inr st'"
    by (auto split: sum.splits)
  have "g st1 = g st"
    using Cons.prems(1) [of k st st1] 1 by simp
  moreover have "g st' = g st1"
  proof (rule Cons.IH [OF _ 2])
    fix ka sta stb
    assume "ka \<in> set ks" and "f ka sta = Inr stb"
    then show "g stb = g sta"
      using Cons.prems(1) [of ka sta stb] by simp
  qed
  ultimately show ?case by simp
qed

lemma fold_err_step_at:
  assumes "\<And>k st st'. k \<noteq> m \<Longrightarrow> f k st = Inr st' \<Longrightarrow> g st' = g st"
    and "fold_err f ks st = Inr st'" and "distinct ks" and "m \<in> set ks"
  shows "\<exists>st0 st1. f m st0 = Inr st1 \<and> g st' = g st1"
  using assms(2-)
proof (induction ks arbitrary: st)
  case Nil
  then show ?case by simp
next
  case (Cons k ks)
  from Cons.prems(1) obtain st1 where 1: "f k st = Inr st1"
    and 2: "fold_err f ks st1 = Inr st'"
    by (auto split: sum.splits)
  show ?case
  proof (cases "k = m")
    case True
    then have "m \<notin> set ks"
      using Cons.prems(2) by simp
    then have "g st' = g st1"
      using fold_err_keeps [of ks f g st1 st'] assms(1) 2 by metis
    then show ?thesis
      using 1 True by blast
  next
    case False
    then show ?thesis
      using Cons.IH [OF 2] Cons.prems by simp
  qed
qed


lemma Friction_global_row: "viscous_row m (Friction_global eps s) = viscous_row m s"
  by (simp add: viscous_row_def Friction_global_def Let_def)

lemma Friction_reduce_Surface_fields:
  "HeatFlux (Friction_reduce_Surface eps n s ranks) = HeatFlux s"
  "YPlus (Friction_reduce_Surface eps n s ranks) = YPlus s"
  "CSkinFriction (Friction_reduce_Surface eps n s ranks) = CSkinFriction s"
  "HF_Visc (Friction_reduce_Surface eps n s ranks) = HF_Visc s"
  "MaxHF_Visc (Friction_reduce_Surface eps n s ranks) = MaxHF_Visc s"
  "ViscCoeff (Friction_reduce_Surface eps n s ranks) = ViscCoeff s"
  "AllBound_MaxHF_Visc (Friction_reduce_Surface eps n s ranks) = AllBound_MaxHF_Visc s"
  unfolding Friction_reduce_Surface_def Let_def by simp_all

lemma Friction_reduce_row: "viscous_row m (Friction_reduce d config s ranks) = viscous_row m s"
  by (simp add: viscous_row_def Friction_reduce_def Friction_reduce_Surface_fields
      Friction_reduce_AllBound_def Let_def)

lemma Friction_totals_row: "viscous_row m (Friction_totals d config s) = viscous_row m s"
  by (simp add: viscous_row_def Friction_totals_def Let_def)

lemma Friction_Forces_local:
  assumes "Friction_Forces d config geometry nodes ranks s = Inr s'"
  shows "\<exists>l. Friction_local d config geometry nodes s = Inr l
           \<and> s' = Friction_totals d config
                    (if HAVE_MPI d then Friction_reduce d config l ranks else l)"
  using assms by (auto simp: Friction_Forces_def Let_def split: sum.splits)

lemma Friction_Forces_row:
  assumes "Friction_Forces d config geometry nodes ranks s = Inr s'" and "m < nMarker d"
  shows "\<exists>s0 O0 s1 O1.
           Friction_marker d config geometry nodes (force_factor d config) m (s0, O0)
             = Inr (s1, O1)
           \<and> viscous_row m s' = viscous_row m s1"
proof -
  from Friction_Forces_local [OF assms(1)] obtain l where
    l: "Friction_local d config geometry nodes s = Inr l"
    and s': "s' = Friction_totals d config
                    (if HAVE_MPI d then Friction_reduce d config l ranks else l)"
    by blast
  from l obtain sf Of where
    loop: "fold_err (Friction_marker d config geometry nodes (force_factor d config))
             [0 ..< nMarker d] (Friction_init config s, RefOriginMoment config 0)
           = Inr (sf, Of)"
    and lf: "l = Friction_global (EPS d) sf"
    by (auto simp: Friction_local_def split: sum.splits prod.splits)
  have other: "viscous_row m (fst st') = viscous_row m (fst st)"
    if "k \<noteq> m"
      and "Friction_marker d config geometry nodes (force_factor d config) k st = Inr st'"
    for k st st'
    using that Friction_marker_other_row [of d config geometry nodes "force_factor d config" k
        "fst st" "snd st" "fst st'" "snd st'" m]
    by simp
  have "\<exists>st0 st1. Friction_marker d config geometry nodes (force_factor d config) m st0
                     = Inr st1
                   \<and> viscous_row m (fst (sf, Of)) = viscous_row m (fst st1)"
    by (rule fold_err_step_at [where g = "\<lambda>st. viscous_row m (fst st)", OF other loop])
      (use assms(2) in simp_all)
  then obtain st0 st1 where
    1: "Friction_marker d config geometry nodes (force_factor d config) m st0 = Inr st1"
    and 2: "viscous_row m sf = viscous_row m (fst st1)"
    by auto
  have "viscous_row m s' = viscous_row m sf"
    by (simp add: s' lf Friction_totals_row Friction_reduce_row Friction_global_row)
  then show ?thesis
    using 1 2 by (metis prod.collapse)
qed


subsection \<open>When a pass of Friction\_Forces returns\<close>

lemma Friction_marker_not_viscous:
  assumes "\<not> viscous_wall config iMarker"
  shows "\<exists>Origin'. Friction_marker d config geometry nodes factor iMarker (s, Origin)
                      = Inr (s, Origin')"
  using assms by (simp add: Friction_marker_def viscous_wall_def Let_def)

lemma Friction_marker_shape:
  assumes "Friction_marker d config geometry nodes factor iMarker (s, Origin) = Inr (s', Origin')"
  shows "skin_shape s' = skin_shape s"
proof (cases "viscous_wall config iMarker")
  case False
  then show ?thesis
    using assms Friction_marker_not_viscous [OF False, of d geometry nodes factor s Origin]
    by auto
next
  case True
  define s0 where "s0 = s\<lparr>ViscCoeff := setZero_i iMarker (ViscCoeff s),
     HF_Visc := (HF_Visc s)(iMarker := 0), MaxHF_Visc := (MaxHF_Visc s)(iMarker := 0)\<rparr>"
  from True assms obtain O1 s1 a1 where
    loop: "fold_err (Friction_vertex d config geometry nodes factor
                       (Marker_All_Monitoring config iMarker) O1 iMarker)
             [0 ..< length (vertex geometry iMarker)] (s0, zero_sums) = Inr (s1, a1)"
    and s': "s' = (if Marker_All_Monitoring config iMarker
                   then Friction_marker_project d config iMarker a1 s1 else s1)"
    unfolding s0_def
    by (auto simp: Friction_marker_def viscous_wall_def Let_def split: sum.splits if_splits)
  have "skin_shape s1 = skin_shape s0"
    using Friction_vertices_frame [OF loop] by simp
  moreover have "skin_shape s0 = skin_shape s"
    by (simp add: s0_def skin_shape_def fun_eq_iff)
  moreover have "skin_shape s' = skin_shape s1"
    by (simp add: s' skin_shape_def fun_eq_iff Friction_marker_project_def
        Friction_marker_project_fields)
  ultimately show ?thesis
    by simp
qed

lemma Friction_marker_Inr:
  "(\<exists>st'. Friction_marker d config geometry nodes factor iMarker (s, Origin) = Inr st')
     = (viscous_wall config iMarker \<longrightarrow>
          (\<forall>iVertex<length (vertex geometry iMarker).
             vertex_defined d config geometry nodes (skin_shape s iMarker) iMarker iVertex))"
proof -
  define Origin' where "Origin' = (if Marker_All_Monitoring config iMarker
     then moment_origin config iMarker Origin else Origin)"
  define s0 where "s0 = s\<lparr>ViscCoeff := setZero_i iMarker (ViscCoeff s),
     HF_Visc := (HF_Visc s)(iMarker := 0), MaxHF_Visc := (MaxHF_Visc s)(iMarker := 0)\<rparr>"
  have loop: "(\<exists>st'. fold_err (Friction_vertex d config geometry nodes factor
                  (Marker_All_Monitoring config iMarker) Origin' iMarker)
                  [0 ..< length (vertex geometry iMarker)] (s0, zero_sums) = Inr st')
     = (\<forall>iVertex\<in>set [0 ..< length (vertex geometry iMarker)].
           vertex_defined d config geometry nodes (skin_shape s iMarker) iMarker iVertex)"
  proof (rule fold_err_Inr_iff [where I = "\<lambda>st. skin_shape (fst st) = skin_shape s"])
    show "skin_shape (fst (s0, zero_sums)) = skin_shape s"
      by (simp add: s0_def skin_shape_def fun_eq_iff)
  next
    fix iVertex and st st' :: "CFVMFlowSolverBase \<times> marker_sums"
    assume "skin_shape (fst st) = skin_shape s"
      and "Friction_vertex d config geometry nodes factor (Marker_All_Monitoring config iMarker)
             Origin' iMarker iVertex st = Inr st'"
    then show "skin_shape (fst st') = skin_shape s"
      using Friction_vertex_fields [of d config geometry nodes factor
          "Marker_All_Monitoring config iMarker" Origin' iMarker iVertex "fst st" "snd st"
          "fst st'" "snd st'"]
      by auto
  next
    fix iVertex and st :: "CFVMFlowSolverBase \<times> marker_sums"
    assume "skin_shape (fst st) = skin_shape s"
    then show "(\<exists>st'. Friction_vertex d config geometry nodes factor
                        (Marker_All_Monitoring config iMarker) Origin' iMarker iVertex st
                      = Inr st')
                 = vertex_defined d config geometry nodes (skin_shape s iMarker) iMarker iVertex"
      using Friction_vertex_Inr [of d config geometry nodes factor iMarker Origin' iVertex
          "fst st" "snd st"]
      by simp
  qed
  show ?thesis
  proof (cases "viscous_wall config iMarker")
    case False
    then show ?thesis
      by (simp add: Friction_marker_def viscous_wall_def Let_def)
  next
    case True
    then have "Friction_marker d config geometry nodes factor iMarker (s, Origin)
      = (case fold_err (Friction_vertex d config geometry nodes factor
                  (Marker_All_Monitoring config iMarker) Origin' iMarker)
                  [0 ..< length (vertex geometry iMarker)] (s0, zero_sums) of
           Inl e \<Rightarrow> Inl e
         | Inr (s, a) \<Rightarrow>
             if Marker_All_Monitoring config iMarker
             then Inr (Friction_marker_project d config iMarker a s, Origin')
             else Inr (s, Origin'))"
      unfolding Origin'_def s0_def
      by (simp add: Friction_marker_def viscous_wall_def Let_def)
    then show ?thesis
      using True loop by (auto split: sum.splits prod.splits)
  qed
qed

lemma Friction_init_fields:
  "CSkinFriction (Friction_init config s) = CSkinFriction s"
  "AllBound_MaxHF_Visc (Friction_init config s) = 0"
proof -
  show "CSkinFriction (Friction_init config s) = CSkinFriction s"
    unfolding Friction_init_def Let_def by (rule trans [OF fold_keeps]) simp_all
  show "AllBound_MaxHF_Visc (Friction_init config s) = 0"
    unfolding Friction_init_def Let_def by (rule trans [OF fold_keeps]) simp_all
qed

lemma Friction_local_Inr:
  "(\<exists>l. Friction_local d config geometry nodes s = Inr l)
     = Friction_defined d config geometry nodes s"
proof -
  have "(\<exists>st'. fold_err (Friction_marker d config geometry nodes (force_factor d config))
             [0 ..< nMarker d] (Friction_init config s, RefOriginMoment config 0) = Inr st')
     = (\<forall>iMarker\<in>set [0 ..< nMarker d]. viscous_wall config iMarker \<longrightarrow>
          (\<forall>iVertex<length (vertex geometry iMarker).
             vertex_defined d config geometry nodes (skin_shape s iMarker) iMarker iVertex))"
  proof (rule fold_err_Inr_iff [where I = "\<lambda>st. skin_shape (fst st) = skin_shape s"])
    show "skin_shape (fst (Friction_init config s, RefOriginMoment config 0)) = skin_shape s"
      by (simp add: skin_shape_def fun_eq_iff Friction_init_fields)
  next
    fix iMarker and st st' :: "CFVMFlowSolverBase \<times> vec"
    assume "skin_shape (fst st) = skin_shape s"
      and "Friction_marker d config geometry nodes (force_factor d config) iMarker st = Inr st'"
    then show "skin_shape (fst st') = skin_shape s"
      using Friction_marker_shape [of d config geometry nodes "force_factor d config" iMarker
          "fst st" "snd st" "fst st'" "snd st'"]
      by simp
  next
    fix iMarker and st :: "CFVMFlowSolverBase \<times> vec"
    assume "skin_shape (fst st) = skin_shape s"
    then show "(\<exists>st'. Friction_marker d config geometry nodes (force_factor d config) iMarker st
                      = Inr st')
                 = (viscous_wall config iMarker \<longrightarrow>
                      (\<forall>iVertex<length (vertex geometry iMarker).
                         vertex_defined d config geometry nodes (skin_shape s iMarker) iMarker
                           iVertex))"
      using Friction_marker_Inr [of d config geometry nodes "force_factor d config" iMarker
          "fst st" "snd st"]
      by simp
  qed
  then show ?thesis
    by (auto simp: Friction_local_def Friction_defined_def split: sum.splits prod.splits)
qed

lemma Friction_Forces_Inr:
  "(\<exists>s'. Friction_Forces d config geometry nodes ranks s = Inr s')
     = Friction_defined d config geometry nodes s"
  unfolding Friction_local_Inr [symmetric, of d config geometry nodes s]
  by (auto simp: Friction_Forces_def Let_def split: sum.splits)

text \<open>With defined numbers and a nonzero \<^verbatim>\<open>RefLength\<close>, the only error left is a store.\<close>

lemma Friction_marker_error:
  assumes "Friction_marker d config geometry nodes factor iMarker st = Inl e"
    and "\<forall>iVertex<length (vertex geometry iMarker).
           \<not> isl (Friction_quantities d config geometry nodes (vertex geometry iMarker ! iVertex))"
    and "RefLength config \<noteq> 0"
  shows "e = OutOfBounds"
proof -
  obtain s Origin where st: "st = (s, Origin)"
    by (cases st)
  from assms(1) obtain Mon O1 s0 where
    "fold_err (Friction_vertex d config geometry nodes factor Mon O1 iMarker)
       [0 ..< length (vertex geometry iMarker)] (s0, zero_sums) = Inl e"
    by (auto simp: st Friction_marker_def Let_def split: if_splits sum.splits prod.splits)
  then show ?thesis
  proof (rule fold_err_error)
    fix iVertex e' and st' :: "CFVMFlowSolverBase \<times> marker_sums"
    assume "iVertex \<in> set [0 ..< length (vertex geometry iMarker)]"
      and "Friction_vertex d config geometry nodes factor Mon O1 iMarker iVertex st' = Inl e'"
    then show "e' = OutOfBounds"
      using Friction_vertex_error [of d config geometry nodes factor Mon O1 iMarker iVertex st' e']
        assms(2,3)
      by simp
  qed
qed

lemma Friction_Forces_error:
  assumes "Friction_Forces d config geometry nodes ranks s = Inl e"
    and "\<forall>iMarker<nMarker d. \<forall>iVertex<length (vertex geometry iMarker).
           \<not> isl (Friction_quantities d config geometry nodes (vertex geometry iMarker ! iVertex))"
    and "RefLength config \<noteq> 0"
  shows "e = OutOfBounds"
proof -
  from assms(1) have
    "fold_err (Friction_marker d config geometry nodes (force_factor d config))
       [0 ..< nMarker d] (Friction_init config s, RefOriginMoment config 0) = Inl e"
    by (auto simp: Friction_Forces_def Friction_local_def Let_def split: sum.splits prod.splits)
  then show ?thesis
  proof (rule fold_err_error)
    fix iMarker e' and st' :: "CFVMFlowSolverBase \<times> vec"
    assume "iMarker \<in> set [0 ..< nMarker d]"
      and "Friction_marker d config geometry nodes (force_factor d config) iMarker st' = Inl e'"
    then show "e' = OutOfBounds"
      using Friction_marker_error [of d config geometry nodes "force_factor d config" iMarker
          st' e'] assms(2,3)
      by simp
  qed
qed

subsection \<open>The case of the two walls\<close>

lemmas wall2D_defs = wall2D_d_def wall2D_config_def wall2D_geometry_def wall2D_nodes_def
  wall2D_vertex_def

lemma wall2D_normal: "\<exists>iDim<nDim (wall2D_d\<lparr>HAVE_MPI := b\<rparr>). Normal (wall2D_vertex k) iDim \<noteq> 0"
  by (rule exI [of _ 1]) (simp add: wall2D_defs)

lemma wall2D_reference:
  "fst (reference_values (wall2D_d\<lparr>HAVE_MPI := b\<rparr>) wall2D_config)
     * snd (reference_values (wall2D_d\<lparr>HAVE_MPI := b\<rparr>) wall2D_config) \<noteq> 0"
  by (simp add: reference_values_def Velocity_Inf_sq_def wall2D_d_def lessThan_two)

lemma wall2D_plain: "wall2D_d\<lparr>HAVE_MPI := False\<rparr> = wall2D_d"
  by (simp add: wall2D_d_def)

lemma wall2D_quantities:
  assumes "0 < Density nodes k" and "LaminarViscosity nodes k \<noteq> 0"
  shows "\<exists>w. Friction_quantities (wall2D_d\<lparr>HAVE_MPI := b\<rparr>) wall2D_config geometry nodes
               (wall2D_vertex k) = Inr w"
proof (rule Friction_quantities_defined)
  show "nDim (wall2D_d\<lparr>HAVE_MPI := b\<rparr>) = 0
          \<or> (\<exists>iDim<nDim (wall2D_d\<lparr>HAVE_MPI := b\<rparr>). Normal (wall2D_vertex k) iDim \<noteq> 0)"
    using wall2D_normal by blast
  show "nDim (wall2D_d\<lparr>HAVE_MPI := b\<rparr>) = 0
          \<or> fst (reference_values (wall2D_d\<lparr>HAVE_MPI := b\<rparr>) wall2D_config)
               * snd (reference_values (wall2D_d\<lparr>HAVE_MPI := b\<rparr>) wall2D_config) \<noteq> 0"
    using wall2D_reference by blast
  show "0 < Density nodes (Node (wall2D_vertex k))"
    "LaminarViscosity nodes (Node (wall2D_vertex k)) \<noteq> 0"
    using assms by (simp_all add: wall2D_vertex_def)
  show "FlowRegime (wall2D_d\<lparr>HAVE_MPI := b\<rparr>) = COMPRESSIBLE \<longrightarrow>
          Gamma_Minus_One (wall2D_d\<lparr>HAVE_MPI := b\<rparr>) \<noteq> 0 \<and> Prandtl_Lam wall2D_config \<noteq> 0"
    by (simp add: wall2D_d_def wall2D_config_def)
qed

lemma wall2D_HeatFlux:
  assumes "Friction_quantities (wall2D_d\<lparr>HAVE_MPI := b\<rparr>) wall2D_config geometry wall2D_nodes
             (wall2D_vertex k) = Inr w"
  shows "HeatFlux_w w = 2 * (1 + real k)"
proof -
  from assms obtain sh where
    sh: "Friction_shear (wall2D_d\<lparr>HAVE_MPI := b\<rparr>) wall2D_config geometry wall2D_nodes
           (wall2D_vertex k) = Inr sh"
    and w: "Friction_wall (wall2D_d\<lparr>HAVE_MPI := b\<rparr>) wall2D_config geometry wall2D_nodes
              (wall2D_vertex k) sh = Inr w"
    by (auto simp: Friction_quantities_def split: sum.splits)
  have u: "UnitNormal_w sh 0 = 0" "UnitNormal_w sh (Suc 0) = 1"
    by (simp_all add: Friction_shear_fields(2) [OF sh] wall2D_defs lessThan_two)
  have c: "FlowRegime (wall2D_d\<lparr>HAVE_MPI := b\<rparr>) = COMPRESSIBLE"
    by (simp add: wall2D_d_def)
  show ?thesis
    by (simp add: Friction_wall_fields(5) [OF w c] u wall2D_defs lessThan_two algebra_simps)
qed

lemma wall2D_vertices:
  assumes "iVertex < length (vertex wall2D_geometry iMarker)"
  shows "iVertex < 2 \<and> (\<exists>k. vertex wall2D_geometry iMarker ! iVertex = wall2D_vertex k)"
  using assms by (auto simp: wall2D_geometry_def less_Suc_eq split: if_splits)

lemma wall2D_shape:
  "iMarker < 2 \<Longrightarrow> skin_shape wall2D_allocated iMarker = [2, 2]"
  by (simp add: skin_shape_def wall2D_allocated_def solver_allocated_def wall2D_d_def
      wall2D_geometry_def numeral_2_eq_2)

lemma skin_in_bounds_square: "iVertex < 2 \<Longrightarrow> skin_in_bounds 2 [2, 2] iVertex"
  by (auto simp: skin_in_bounds_def less_Suc_eq numeral_2_eq_2)

lemma wall2D_defined:
  assumes "\<And>k. 0 < Density nodes k \<and> LaminarViscosity nodes k \<noteq> 0"
    and "vertex geometry = vertex wall2D_geometry"
    and "skin_shape s = skin_shape wall2D_allocated"
  shows "Friction_defined (wall2D_d\<lparr>HAVE_MPI := b\<rparr>) wall2D_config geometry nodes s"
  unfolding Friction_defined_def vertex_defined_def
proof (intro allI impI conjI)
  fix iMarker iVertex
  assume m: "iMarker < nMarker (wall2D_d\<lparr>HAVE_MPI := b\<rparr>)"
    and v: "iVertex < length (vertex geometry iMarker)"
  from m have m2: "iMarker < 2"
    by (simp add: wall2D_d_def)
  from v wall2D_vertices [of iVertex iMarker] obtain k where
    v2: "iVertex < 2" and k: "vertex geometry iMarker ! iVertex = wall2D_vertex k"
    by (auto simp: assms(2))
  show "\<not> isl (Friction_quantities (wall2D_d\<lparr>HAVE_MPI := b\<rparr>) wall2D_config geometry nodes
                 (vertex geometry iMarker ! iVertex))"
    using wall2D_quantities [of nodes k b geometry] assms(1) by (auto simp: k isl_iff)
  show "skin_in_bounds (nDim (wall2D_d\<lparr>HAVE_MPI := b\<rparr>)) (skin_shape s iMarker) iVertex"
    using skin_in_bounds_square [OF v2] by (simp add: assms(3) wall2D_shape [OF m2] wall2D_d_def)
  show "RefLength wall2D_config \<noteq> 0"
    by (simp add: wall2D_config_def)
qed

lemma wall2D_Friction_Forces:
  "\<exists>s'. Friction_Forces wall2D_d wall2D_config wall2D_geometry wall2D_nodes ranks
          wall2D_allocated = Inr s'"
  using wall2D_defined [of wall2D_nodes wall2D_geometry wall2D_allocated False]
  by (simp add: Friction_Forces_Inr wall2D_plain wall2D_nodes_def)




subsection \<open>Pressure\_Forces starts the totals afresh\<close>

lemma Pressure_vertex_put:
  "Pressure_vertex d config geometry nodes factor Monitoring Origin iMarker iVertex
     (put_totals T nf h mh sc s, acc)
   = map_prod (put_totals T nf h mh sc) id
       (Pressure_vertex d config geometry nodes factor Monitoring Origin iMarker iVertex (s, acc))"
  by (simp add: Pressure_vertex_def put_totals_def Let_def)

lemma fold_map_prod:
  assumes "\<And>x s acc. f x (g s, acc) = map_prod g id (f x (s, acc))"
  shows "fold f xs (g s, acc) = map_prod g id (fold f xs (s, acc))"
proof (induction xs arbitrary: s acc)
  case Nil
  show ?case by simp
next
  case (Cons x xs)
  obtain s1 acc1 where 1: "f x (s, acc) = (s1, acc1)"
    by (cases "f x (s, acc)")
  then have "f x (g s, acc) = (g s1, acc1)"
    using assms [of x s acc] by simp
  then show ?case
    using 1 Cons.IH [of s1 acc1] by simp
qed

lemma Pressure_vertices_put:
  "fold (Pressure_vertex d config geometry nodes factor Monitoring Origin iMarker) vs
     (put_totals T nf h mh sc s, acc)
   = map_prod (put_totals T nf h mh sc) id
       (fold (Pressure_vertex d config geometry nodes factor Monitoring Origin iMarker) vs (s, acc))"
  by (rule fold_map_prod) (rule Pressure_vertex_put)

lemma put_totals_commute [simp]:
  "(put_totals T nf h mh sc s)\<lparr>InvCoeff := x\<rparr> = put_totals T nf h mh sc (s\<lparr>InvCoeff := x\<rparr>)"
  "(put_totals T nf h mh sc s)\<lparr>CNearFieldOF_Inv := y\<rparr>
     = put_totals T nf h mh sc (s\<lparr>CNearFieldOF_Inv := y\<rparr>)"
  "(put_totals T nf h mh sc s)\<lparr>AllBoundInvCoeff := z\<rparr>
     = put_totals T nf h mh sc (s\<lparr>AllBoundInvCoeff := z\<rparr>)"
  "(put_totals T nf h mh sc s)\<lparr>SurfaceInvCoeff := u\<rparr>
     = put_totals T nf h mh sc (s\<lparr>SurfaceInvCoeff := u\<rparr>)"
  "(put_totals T nf h mh sc s)\<lparr>AllBound_CNearFieldOF_Inv := v\<rparr>
     = put_totals T nf h mh sc (s\<lparr>AllBound_CNearFieldOF_Inv := v\<rparr>)"
  by (simp_all add: put_totals_def)

lemma put_totals_read [simp]:
  "InvCoeff (put_totals T nf h mh sc s) = InvCoeff s"
  "CNearFieldOF_Inv (put_totals T nf h mh sc s) = CNearFieldOF_Inv s"
  "AllBoundInvCoeff (put_totals T nf h mh sc s) = AllBoundInvCoeff s"
  "SurfaceInvCoeff (put_totals T nf h mh sc s) = SurfaceInvCoeff s"
  "AllBound_CNearFieldOF_Inv (put_totals T nf h mh sc s) = AllBound_CNearFieldOF_Inv s"
  "CPressure (put_totals T nf h mh sc s) = CPressure s"
  by (simp_all add: put_totals_def)

lemma Pressure_marker_put:
  "Pressure_marker d config geometry nodes factor iMarker (put_totals T nf h mh sc s, Origin)
   = map_prod (put_totals T nf h mh sc) id
       (Pressure_marker d config geometry nodes factor iMarker (s, Origin))"
  unfolding Pressure_marker_def
  by (simp add: Let_def Pressure_vertices_put case_prod_map_prod split: prod.splits)


lemma Pressure_markers_put:
  "fold (Pressure_marker d config geometry nodes factor) ms (put_totals T nf h mh sc s, Origin)
   = map_prod (put_totals T nf h mh sc) id
       (fold (Pressure_marker d config geometry nodes factor) ms (s, Origin))"
  by (rule fold_map_prod) (rule Pressure_marker_put)

lemma Pressure_init_put:
  "Pressure_init (put_totals T nf h mh sc s)
     = put_totals AeroCoeffs_setZero 0 0 0 (setZero sc) (Pressure_init s)"
  by (simp add: Pressure_init_def put_totals_def Let_def)

lemma put_totals_own:
  "put_totals (TotalCoeff s) (Total_CNearFieldOF s) (Total_Heat s) (Total_MaxHeat s)
     (SurfaceCoeff s) s = s"
  by (simp add: put_totals_def)

lemma Pressure_local_put:
  "Pressure_local d config geometry nodes (put_totals T nf h mh sc s)
     = put_totals AeroCoeffs_setZero 0 0 0 (setZero sc)
         (Pressure_local d config geometry nodes s)"
  by (simp add: Pressure_local_def Pressure_init_put Pressure_markers_put)

lemma Pressure_reduce_put:
  "Pressure_reduce d config (put_totals T nf h mh sc s) ranks
     = put_totals T nf h mh sc (Pressure_reduce d config s ranks)"
  by (simp add: Pressure_reduce_def Pressure_reduce_AllBound_def Let_def put_totals_def)

lemma Pressure_reduced_put:
  "Pressure_reduced d config geometry nodes ranks (put_totals T nf h mh sc s)
     = put_totals AeroCoeffs_setZero 0 0 0 (setZero sc)
         (Pressure_reduced d config geometry nodes ranks s)"
  by (simp add: Pressure_reduced_def Pressure_local_put Pressure_reduce_put Let_def)

lemma Pressure_Forces_put:
  "Pressure_Forces d config geometry nodes ranks (put_totals T nf h mh sc s)
     = Pressure_totals d config
         (put_totals AeroCoeffs_setZero 0 0 0 (setZero sc)
            (Pressure_reduced d config geometry nodes ranks s))"
  using Pressure_reduced_put [of d config geometry nodes ranks T nf h mh sc s]
  by (simp add: Pressure_Forces_def Pressure_reduced_def Let_def)

lemma slots_surface_fold:
  "distinct is \<Longrightarrow>
   slots (fold (\<lambda>i X. X\<lparr>slots := (slots X)(i := upd (slots Y i) (slots X i))\<rparr>) is X) k
     = (if k \<in> set is then upd (slots Y k) (slots X k) else slots X k)"
  by (induction "is" arbitrary: X) auto

lemma slots_surface_loop:
  "slots (surface_loop n upd Y X) k = (if k < n then upd (slots Y k) (slots X k) else slots X k)"
  by (simp add: surface_loop_def slots_surface_fold)

lemma Pressure_TotalCoeff_assigns:
  "Pressure_TotalCoeff eps A T = Pressure_TotalCoeff eps A AeroCoeffs_setZero"
  by (simp add: Pressure_TotalCoeff_def Let_def AeroCoeffs_setZero_def)

lemma Pressure_totals_put:
  "TotalCoeff (Pressure_totals d config (put_totals T nf h mh sc y))
     = Pressure_TotalCoeff (EPS d) (AllBoundInvCoeff y) AeroCoeffs_setZero"
  "Total_CNearFieldOF (Pressure_totals d config (put_totals T nf h mh sc y))
     = AllBound_CNearFieldOF_Inv y"
  "Total_Heat (Pressure_totals d config (put_totals T nf h mh sc y)) = h"
  "Total_MaxHeat (Pressure_totals d config (put_totals T nf h mh sc y)) = mh"
  "SurfaceCoeff (Pressure_totals d config (put_totals T nf h mh sc y))
     = surface_loop (nMarker_Monitoring config) (Pressure_SurfaceCoeff_slot (EPS d))
         (SurfaceInvCoeff y) sc"
  using Pressure_TotalCoeff_assigns [of "EPS d" "AllBoundInvCoeff y" T]
  by (simp_all add: Pressure_totals_def put_totals_def Let_def)

lemma Pressure_Forces_discards:
  "Total_Heat (Pressure_Forces d config geometry nodes ranks s) = 0"
  "Total_MaxHeat (Pressure_Forces d config geometry nodes ranks s) = 0"
  "TotalCoeff (Pressure_Forces d config geometry nodes ranks (put_totals T nf h mh sc s))
     = TotalCoeff (Pressure_Forces d config geometry nodes ranks s)"
  "Total_CNearFieldOF (Pressure_Forces d config geometry nodes ranks (put_totals T nf h mh sc s))
     = Total_CNearFieldOF (Pressure_Forces d config geometry nodes ranks s)"
  using Pressure_Forces_put [of d config geometry nodes ranks "TotalCoeff s"
      "Total_CNearFieldOF s" "Total_Heat s" "Total_MaxHeat s" "SurfaceCoeff s" s]
  by (simp_all add: put_totals_own Pressure_Forces_put Pressure_totals_put)

lemma Pressure_Forces_discards_surface:
  assumes "size' sc = int (nMarker_Monitoring config)"
    and "size' (SurfaceCoeff s) = int (nMarker_Monitoring config)"
    and "i < nMarker_Monitoring config"
  shows "slots (SurfaceCoeff (Pressure_Forces d config geometry nodes ranks
                                (put_totals T nf h mh sc s))) i
           = slots (SurfaceCoeff (Pressure_Forces d config geometry nodes ranks s)) i"
  using Pressure_Forces_put [of d config geometry nodes ranks "TotalCoeff s"
      "Total_CNearFieldOF s" "Total_Heat s" "Total_MaxHeat s" "SurfaceCoeff s" s] assms
  by (simp add: put_totals_own Pressure_Forces_put Pressure_totals_put slots_surface_loop
        slots_setZero)

text \<open>
  C9. Pressure\_Forces zeroes \<^verbatim>\<open>TotalCoeff\<close>, \<^verbatim>\<open>SurfaceCoeff\<close>, \<^verbatim>\<open>Total_CNearFieldOF\<close>,
  \<^verbatim>\<open>Total_Heat\<close> and \<^verbatim>\<open>Total_MaxHeat\<close> before it integrates. After it the two heat totals are
  0, and the coefficient totals, the near-field total and the slots of \<^verbatim>\<open>SurfaceCoeff\<close> are
  the same whatever these members held before: what an earlier Momentum\_Forces or
  Friction\_Forces has stored in them is lost, so the totals of an iteration are complete
  only when Pressure\_Forces runs first. (\<^verbatim>\<open>SurfaceCoeff\<close> has the size that \<^verbatim>\<open>Allocate\<close> gives
  it, the number of monitored surfaces.)
\<close>

theorem Pressure_Forces_discards_earlier_totals:
  "Total_Heat (Pressure_Forces d config geometry nodes ranks s) = 0
   \<and> Total_MaxHeat (Pressure_Forces d config geometry nodes ranks s) = 0
   \<and> TotalCoeff (Pressure_Forces d config geometry nodes ranks (put_totals T nf h mh sc s))
       = TotalCoeff (Pressure_Forces d config geometry nodes ranks s)
   \<and> Total_CNearFieldOF (Pressure_Forces d config geometry nodes ranks
                            (put_totals T nf h mh sc s))
       = Total_CNearFieldOF (Pressure_Forces d config geometry nodes ranks s)
   \<and> (size' sc = int (nMarker_Monitoring config)
        \<and> size' (SurfaceCoeff s) = int (nMarker_Monitoring config)
      \<longrightarrow> (\<forall>i<nMarker_Monitoring config.
             slots (SurfaceCoeff (Pressure_Forces d config geometry nodes ranks
                                    (put_totals T nf h mh sc s))) i
               = slots (SurfaceCoeff (Pressure_Forces d config geometry nodes ranks s)) i))
   \<and> (\<forall>s1. Friction_Forces d config geometry nodes ranks s = Inr s1
      \<longrightarrow> Total_Heat (Pressure_Forces d config geometry nodes ranks s1) = 0
         \<and> Total_MaxHeat (Pressure_Forces d config geometry nodes ranks s1) = 0)"
  using Pressure_Forces_discards [of d config geometry nodes ranks]
    Pressure_Forces_discards_surface [of sc config s _ d geometry nodes ranks T nf h mh]
  by simp

theorem Pressure_Forces_discards_earlier_totals_witness:
  "size' (SurfaceCoeff wall2D_allocated) = int (nMarker_Monitoring wall2D_config)
   \<and> 0 < nMarker_Monitoring wall2D_config
   \<and> slots (SurfaceCoeff (Pressure_Forces wall2D_d wall2D_config wall2D_geometry wall2D_nodes []
        (put_totals (AeroCoeffs_setZero\<lparr>CD := 5\<rparr>) 1 2 3
           (SurfaceCoeff wall2D_allocated\<lparr>slots := (\<lambda>_. AeroCoeffs_setZero\<lparr>CL := 7\<rparr>)\<rparr>)
           wall2D_allocated))) 0
       = slots (SurfaceCoeff (Pressure_Forces wall2D_d wall2D_config wall2D_geometry
                                wall2D_nodes [] wall2D_allocated)) 0
   \<and> (\<exists>s1. Friction_Forces wall2D_d wall2D_config wall2D_geometry wall2D_nodes []
               wall2D_allocated = Inr s1
           \<and> Total_Heat (Pressure_Forces wall2D_d wall2D_config wall2D_geometry wall2D_nodes []
                           s1) = 0
           \<and> Total_MaxHeat (Pressure_Forces wall2D_d wall2D_config wall2D_geometry wall2D_nodes
                              [] s1) = 0)"
proof -
  have sz: "size' (SurfaceCoeff wall2D_allocated) = int (nMarker_Monitoring wall2D_config)"
    by (simp add: wall2D_allocated_def solver_allocated_def wall2D_config_def)
  have sz': "size' (SurfaceCoeff wall2D_allocated
                \<lparr>slots := (\<lambda>_. AeroCoeffs_setZero\<lparr>CL := 7\<rparr>)\<rparr>)
               = int (nMarker_Monitoring wall2D_config)"
    using sz by simp
  have n: "0 < nMarker_Monitoring wall2D_config"
    by (simp add: wall2D_config_def)
  obtain s1 where s1: "Friction_Forces wall2D_d wall2D_config wall2D_geometry wall2D_nodes []
               wall2D_allocated = Inr s1"
    using wall2D_Friction_Forces by blast
  show ?thesis
    using sz sz' n s1
      Pressure_Forces_discards_earlier_totals [of wall2D_d wall2D_config wall2D_geometry
        wall2D_nodes "[]" wall2D_allocated "AeroCoeffs_setZero\<lparr>CD := 5\<rparr>" 1 2 3
        "SurfaceCoeff wall2D_allocated\<lparr>slots := (\<lambda>_. AeroCoeffs_setZero\<lparr>CL := 7\<rparr>)\<rparr>"]
    by blast
qed


subsection \<open>The heat flux of a marker\<close>

lemma Friction_markers_AllBound:
  assumes "fold_err (Friction_marker d config geometry nodes factor) ms (s, Origin)
             = Inr (s', Origin')"
    and "distinct ms"
  shows "AllBound_MaxHF_Visc s'
           = AllBound_MaxHF_Visc s
               + sum_list (map (\<lambda>iMarker. pow_MaxNorm (MaxHF_Visc s' iMarker))
                   (filter (\<lambda>iMarker. viscous_wall config iMarker
                                        \<and> Marker_All_Monitoring config iMarker) ms))"
  using assms
proof (induction ms arbitrary: s Origin)
  case Nil
  then show ?case by simp
next
  case (Cons m ms)
  from Cons.prems(1) obtain s1 O1 where
    1: "Friction_marker d config geometry nodes factor m (s, Origin) = Inr (s1, O1)"
    and 2: "fold_err (Friction_marker d config geometry nodes factor) ms (s1, O1)
              = Inr (s', Origin')"
    by (auto split: sum.splits)
  have "viscous_row m (fst (s', Origin')) = viscous_row m (fst (s1, O1))"
  proof (rule fold_err_keeps [where g = "\<lambda>st. viscous_row m (fst st)", OF _ 2])
    fix k and st st' :: "CFVMFlowSolverBase \<times> vec"
    assume "k \<in> set ms"
      and "Friction_marker d config geometry nodes factor k st = Inr st'"
    then show "viscous_row m (fst st') = viscous_row m (fst st)"
      using Friction_marker_other_row [of d config geometry nodes factor k "fst st" "snd st"
          "fst st'" "snd st'" m] Cons.prems(2)
      by auto
  qed
  then have keep: "MaxHF_Visc s' m = MaxHF_Visc s1 m"
    by (simp add: viscous_row_def)
  have step: "AllBound_MaxHF_Visc s1
                = AllBound_MaxHF_Visc s
                    + (if viscous_wall config m \<and> Marker_All_Monitoring config m
                       then pow_MaxNorm (MaxHF_Visc s1 m) else 0)"
  proof (cases "viscous_wall config m")
    case True
    then show ?thesis
      using Friction_marker_own_row [OF 1 True] by simp
  next
    case False
    then show ?thesis
      using 1 Friction_marker_not_viscous [OF False, of d geometry nodes factor s Origin]
      by auto
  qed
  have "AllBound_MaxHF_Visc s'
           = AllBound_MaxHF_Visc s1
               + sum_list (map (\<lambda>iMarker. pow_MaxNorm (MaxHF_Visc s' iMarker))
                   (filter (\<lambda>iMarker. viscous_wall config iMarker
                                        \<and> Marker_All_Monitoring config iMarker) ms))"
    using Cons.IH [OF 2] Cons.prems(2) by simp
  then show ?case
    using step keep by simp
qed

lemma Friction_local_AllBound:
  assumes "Friction_local d config geometry nodes s = Inr l"
  shows "AllBound_MaxHF_Visc l
           = pow_inv_MaxNorm
               (sum_list (map (\<lambda>iMarker. pow_MaxNorm (MaxHF_Visc l iMarker))
                  (filter (\<lambda>iMarker. viscous_wall config iMarker
                                       \<and> Marker_All_Monitoring config iMarker)
                     [0 ..< nMarker d])))"
proof -
  from assms obtain sf Of where
    loop: "fold_err (Friction_marker d config geometry nodes (force_factor d config))
             [0 ..< nMarker d] (Friction_init config s, RefOriginMoment config 0)
           = Inr (sf, Of)"
    and lf: "l = Friction_global (EPS d) sf"
    by (auto simp: Friction_local_def split: sum.splits prod.splits)
  have "AllBound_MaxHF_Visc sf
          = sum_list (map (\<lambda>iMarker. pow_MaxNorm (MaxHF_Visc sf iMarker))
              (filter (\<lambda>iMarker. viscous_wall config iMarker
                                   \<and> Marker_All_Monitoring config iMarker)
                 [0 ..< nMarker d]))"
    using Friction_markers_AllBound [OF loop] by (simp add: Friction_init_fields)
  then show ?thesis
    by (simp add: lf Friction_global_def Let_def)
qed

lemma Friction_Forces_MaxHF:
  assumes "Friction_Forces d config geometry nodes ranks s = Inr s'"
  shows "\<exists>l. Friction_local d config geometry nodes s = Inr l
           \<and> MaxHF_Visc s' = MaxHF_Visc l
           \<and> (HAVE_MPI d \<and> Comm_Level config = COMM_FULL \<longrightarrow>
                Total_MaxHeat s'
                  = pow_inv_MaxNorm
                      (pow_MaxNorm (AllBound_MaxHF_Visc l)
                         + sum_list (map (\<lambda>r. pow_MaxNorm (AllBound_MaxHF_Visc r)) ranks)))"
proof -
  from Friction_Forces_local [OF assms] obtain l where
    l: "Friction_local d config geometry nodes s = Inr l"
    and s': "s' = Friction_totals d config
                    (if HAVE_MPI d then Friction_reduce d config l ranks else l)"
    by blast
  have "MaxHF_Visc s' = MaxHF_Visc l"
    by (simp add: s' Friction_totals_def Friction_reduce_def Friction_reduce_Surface_fields
        Friction_reduce_AllBound_def Let_def)
  moreover have "Total_MaxHeat s'
                  = pow_inv_MaxNorm
                      (pow_MaxNorm (AllBound_MaxHF_Visc l)
                         + sum_list (map (\<lambda>r. pow_MaxNorm (AllBound_MaxHF_Visc r)) ranks))"
    if "HAVE_MPI d" and "Comm_Level config = COMM_FULL"
    using that
    by (simp add: s' Friction_totals_def Friction_reduce_def Friction_reduce_Surface_fields
        Friction_reduce_AllBound_def Allreduce_def Let_def comp_def)
  ultimately show ?thesis
    using l by blast
qed

text \<open>
  C5. In a pass of Friction\_Forces that returns, in two or three dimensions, the entry of
  \<^verbatim>\<open>MaxHF_Visc\<close> of a monitored viscous wall marker is the eighth root of the sum, over the
  vertices of the marker whose node the domain owns, of the eighth power of the heat flux
  stored for the vertex, which is the heat flux computed at that vertex. The value of the
  process, \<^verbatim>\<open>AllBound_MaxHF_Visc\<close> before the all-reduce, is the eighth root of the sum of the
  eighth powers of these entries. With MPI and full communication the total is the eighth
  root of the sum over the processes of the eighth powers of their values.
\<close>

theorem MaxHF_Visc_is_L8_norm:
  assumes "Friction_Forces d config geometry nodes ranks s = Inr s'"
    and "iMarker < nMarker d" and "viscous_wall config iMarker"
    and "Marker_All_Monitoring config iMarker" and "nDim d = 2 \<or> nDim d = 3"
  shows "MaxHF_Visc s' iMarker
           = root 8
               (sum_list (map (\<lambda>iVertex. HeatFlux s' iMarker iVertex ^ 8)
                  (filter (\<lambda>iVertex. GetDomain geometry
                                       (Node (vertex geometry iMarker ! iVertex)))
                     [0 ..< length (vertex geometry iMarker)])))
         \<and> (\<forall>iVertex<length (vertex geometry iMarker).
               \<exists>w. Friction_quantities d config geometry nodes
                      (vertex geometry iMarker ! iVertex) = Inr w
                 \<and> HeatFlux s' iMarker iVertex = HeatFlux_w w)
         \<and> (\<exists>l. Friction_local d config geometry nodes s = Inr l
               \<and> AllBound_MaxHF_Visc l
                   = root 8
                       (sum_list (map (\<lambda>iMarker. MaxHF_Visc s' iMarker ^ 8)
                          (filter (\<lambda>iMarker. viscous_wall config iMarker
                                               \<and> Marker_All_Monitoring config iMarker)
                             [0 ..< nMarker d])))
               \<and> (HAVE_MPI d \<and> Comm_Level config = COMM_FULL \<longrightarrow>
                    Total_MaxHeat s'
                      = root 8
                          (AllBound_MaxHF_Visc l ^ 8
                             + sum_list (map (\<lambda>r. AllBound_MaxHF_Visc r ^ 8) ranks))))"
proof -
  from Friction_Forces_row [OF assms(1,2)] obtain s0 O0 s1 O1 where
    step: "Friction_marker d config geometry nodes (force_factor d config) iMarker (s0, O0)
             = Inr (s1, O1)"
    and row: "viscous_row iMarker s' = viscous_row iMarker s1"
    by blast
  from row have same: "MaxHF_Visc s' iMarker = MaxHF_Visc s1 iMarker"
    "HeatFlux s' iMarker = HeatFlux s1 iMarker"
    by (simp_all add: viscous_row_def)
  note own = Friction_marker_own_row [OF step assms(3)]
  have A: "MaxHF_Visc s' iMarker
           = root 8
               (sum_list (map (\<lambda>iVertex. HeatFlux s' iMarker iVertex ^ 8)
                  (filter (\<lambda>iVertex. GetDomain geometry
                                       (Node (vertex geometry iMarker ! iVertex)))
                     [0 ..< length (vertex geometry iMarker)])))"
    using own assms(4,5) by (simp add: same pow_MaxNorm_def pow_inv_MaxNorm_def MaxNorm_def)
  have B: "\<forall>iVertex<length (vertex geometry iMarker).
               \<exists>w. Friction_quantities d config geometry nodes
                      (vertex geometry iMarker ! iVertex) = Inr w
                 \<and> HeatFlux s' iMarker iVertex = HeatFlux_w w"
    using own unfolding same by blast
  from Friction_Forces_MaxHF [OF assms(1)] obtain l where
    l: "Friction_local d config geometry nodes s = Inr l"
    and m: "MaxHF_Visc s' = MaxHF_Visc l"
    and t: "HAVE_MPI d \<and> Comm_Level config = COMM_FULL \<longrightarrow>
                Total_MaxHeat s'
                  = pow_inv_MaxNorm
                      (pow_MaxNorm (AllBound_MaxHF_Visc l)
                         + sum_list (map (\<lambda>r. pow_MaxNorm (AllBound_MaxHF_Visc r)) ranks))"
    by blast
  have C: "AllBound_MaxHF_Visc l
                   = root 8
                       (sum_list (map (\<lambda>iMarker. MaxHF_Visc s' iMarker ^ 8)
                          (filter (\<lambda>iMarker. viscous_wall config iMarker
                                               \<and> Marker_All_Monitoring config iMarker)
                             [0 ..< nMarker d])))"
    using Friction_local_AllBound [OF l]
    by (simp add: m pow_MaxNorm_def pow_inv_MaxNorm_def MaxNorm_def)
  have D: "HAVE_MPI d \<and> Comm_Level config = COMM_FULL \<longrightarrow>
                    Total_MaxHeat s'
                      = root 8
                          (AllBound_MaxHF_Visc l ^ 8
                             + sum_list (map (\<lambda>r. AllBound_MaxHF_Visc r ^ 8) ranks))"
    using t by (simp add: pow_MaxNorm_def pow_inv_MaxNorm_def MaxNorm_def)
  show ?thesis
    using A B l C D by blast
qed

lemma wall2D_owned_vertices:
  "vertex wall2D_owned = vertex wall2D_geometry"
  "length (vertex wall2D_owned 0) = 2"
  "vertex wall2D_owned 0 ! 0 = wall2D_vertex 0"
  "vertex wall2D_owned 0 ! Suc 0 = wall2D_vertex 1"
  "GetDomain wall2D_owned iPoint"
  by (simp_all add: wall2D_owned_def wall2D_geometry_def)

lemma upt_two: "[0 ..< 2] = [0, Suc 0]"
  by (simp add: upt_rec numeral_2_eq_2)

theorem MaxHF_Visc_is_L8_norm_witness:
  "\<exists>s'. Friction_Forces (wall2D_d\<lparr>HAVE_MPI := True\<rparr>) wall2D_config wall2D_owned wall2D_nodes
            [wall2D_allocated\<lparr>AllBound_MaxHF_Visc := 3\<rparr>] wall2D_allocated = Inr s'
      \<and> 0 < nMarker (wall2D_d\<lparr>HAVE_MPI := True\<rparr>) \<and> viscous_wall wall2D_config 0
      \<and> Marker_All_Monitoring wall2D_config 0 \<and> nDim (wall2D_d\<lparr>HAVE_MPI := True\<rparr>) = 2
      \<and> HAVE_MPI (wall2D_d\<lparr>HAVE_MPI := True\<rparr>) \<and> Comm_Level wall2D_config = COMM_FULL
      \<and> GetDomain wall2D_owned (Node (vertex wall2D_owned 0 ! 0))
      \<and> GetDomain wall2D_owned (Node (vertex wall2D_owned 0 ! 1))
      \<and> HeatFlux s' 0 0 = 2 \<and> HeatFlux s' 0 1 = 4
      \<and> MaxHF_Visc s' 0 = root 8 (2 ^ 8 + 4 ^ 8)
      \<and> MaxHF_Visc s' 0 \<noteq> 4 \<and> MaxHF_Visc s' 0 \<noteq> 2 + 4
      \<and> Total_MaxHeat s' = root 8 (2 ^ 8 + 4 ^ 8 + 3 ^ 8)
      \<and> Total_MaxHeat s' \<noteq> MaxHF_Visc s' 0 + 3"
proof -
  obtain s' where run:
    "Friction_Forces (wall2D_d\<lparr>HAVE_MPI := True\<rparr>) wall2D_config wall2D_owned wall2D_nodes
       [wall2D_allocated\<lparr>AllBound_MaxHF_Visc := 3\<rparr>] wall2D_allocated = Inr s'"
    using wall2D_defined [of wall2D_nodes wall2D_owned wall2D_allocated True]
      Friction_Forces_Inr [of "wall2D_d\<lparr>HAVE_MPI := True\<rparr>" wall2D_config wall2D_owned
        wall2D_nodes "[wall2D_allocated\<lparr>AllBound_MaxHF_Visc := 3\<rparr>]" wall2D_allocated]
    by (auto simp: wall2D_owned_vertices(1) wall2D_nodes_def)
  have h: "0 < nMarker (wall2D_d\<lparr>HAVE_MPI := True\<rparr>)" "viscous_wall wall2D_config 0"
    "Marker_All_Monitoring wall2D_config 0"
    "nDim (wall2D_d\<lparr>HAVE_MPI := True\<rparr>) = 2 \<or> nDim (wall2D_d\<lparr>HAVE_MPI := True\<rparr>) = 3"
    by (simp_all add: wall2D_d_def wall2D_config_def viscous_wall_def)
  have m: "HAVE_MPI (wall2D_d\<lparr>HAVE_MPI := True\<rparr>)" "Comm_Level wall2D_config = COMM_FULL"
    "nDim (wall2D_d\<lparr>HAVE_MPI := True\<rparr>) = 2"
    by (simp_all add: wall2D_d_def wall2D_config_def)
  have g: "GetDomain wall2D_owned (Node (vertex wall2D_owned 0 ! 0))"
    "GetDomain wall2D_owned (Node (vertex wall2D_owned 0 ! 1))"
    by (simp_all add: wall2D_owned_vertices(5))
  note t = MaxHF_Visc_is_L8_norm [OF run h]
  have q0: "HeatFlux s' 0 0 = 2"
    using t [THEN conjunct2, THEN conjunct1, rule_format, of 0]
      wall2D_HeatFlux [of True wall2D_owned 0]
    by (auto simp: wall2D_owned_vertices(2-5))
  have q1: "HeatFlux s' 0 (Suc 0) = 4"
    using t [THEN conjunct2, THEN conjunct1, rule_format, of "Suc 0"]
      wall2D_HeatFlux [of True wall2D_owned 1]
    by (auto simp: wall2D_owned_vertices(2-5))
  have A: "MaxHF_Visc s' 0 = root 8 65792"
    using t [THEN conjunct1] by (simp add: wall2D_owned_vertices(2-5) upt_two q0 q1)
  have r4: "root 8 65536 = (4::real)"
    using real_root_power_cancel [of 8 "4::real"] by simp
  have r6: "root 8 1679616 = (6::real)"
    using real_root_power_cancel [of 8 "6::real"] by simp
  have r7: "root 8 5764801 = (7::real)"
    using real_root_power_cancel [of 8 "7::real"] by simp
  have A4: "MaxHF_Visc s' 0 \<noteq> 4"
    using real_root_eq_iff [of 8 "65792::real" 65536] by (simp add: A r4)
  have A6: "MaxHF_Visc s' 0 \<noteq> 2 + 4"
    using real_root_eq_iff [of 8 "65792::real" 1679616] by (simp add: A r6)
  have p: "MaxHF_Visc s' 0 ^ 8 = 65792"
    unfolding A by (rule real_root_pow_pos2) simp_all
  have f: "filter (\<lambda>iMarker. viscous_wall wall2D_config iMarker
                               \<and> Marker_All_Monitoring wall2D_config iMarker)
             [0 ..< nMarker (wall2D_d\<lparr>HAVE_MPI := True\<rparr>)] = [0]"
    by (simp add: wall2D_d_def wall2D_config_def viscous_wall_def upt_two)
  from t [THEN conjunct2, THEN conjunct2] obtain l where
    l0: "AllBound_MaxHF_Visc (l :: CFVMFlowSolverBase)
           = root 8
               (sum_list (map (\<lambda>iMarker. MaxHF_Visc s' iMarker ^ 8)
                  (filter (\<lambda>iMarker. viscous_wall wall2D_config iMarker
                                       \<and> Marker_All_Monitoring wall2D_config iMarker)
                     [0 ..< nMarker (wall2D_d\<lparr>HAVE_MPI := True\<rparr>)])))"
    and T0: "HAVE_MPI (wall2D_d\<lparr>HAVE_MPI := True\<rparr>) \<and> Comm_Level wall2D_config = COMM_FULL \<longrightarrow>
               Total_MaxHeat s'
                 = root 8
                     (AllBound_MaxHF_Visc l ^ 8
                        + sum_list (map (\<lambda>r. AllBound_MaxHF_Visc r ^ 8)
                            [wall2D_allocated\<lparr>AllBound_MaxHF_Visc := 3\<rparr>]))"
    by blast
  have l: "AllBound_MaxHF_Visc l = root 8 (MaxHF_Visc s' 0 ^ 8)"
    unfolding l0 f by simp
  have T: "Total_MaxHeat s' = root 8 (AllBound_MaxHF_Visc l ^ 8 + 3 ^ 8)"
    using T0 m(1,2) by simp
  have l8: "AllBound_MaxHF_Visc l ^ 8 = 65792"
    unfolding l p by (rule real_root_pow_pos2) simp_all
  have B: "Total_MaxHeat s' = root 8 72353"
    unfolding T l8 by simp
  have "root 8 72353 < (7::real)"
    using real_root_less_iff [of 8 "72353::real" 5764801] by (simp add: r7)
  moreover have "(4::real) \<le> root 8 65792"
    using real_root_le_iff [of 8 "65536::real" 65792] by (simp add: r4)
  ultimately have B7: "Total_MaxHeat s' \<noteq> MaxHF_Visc s' 0 + 3"
    unfolding A B by linarith
  have A': "MaxHF_Visc s' 0 = root 8 (2 ^ 8 + 4 ^ 8)"
    using A by simp
  have B': "Total_MaxHeat s' = root 8 (2 ^ 8 + 4 ^ 8 + 3 ^ 8)"
    using B by simp
  have q1': "HeatFlux s' 0 1 = 4"
    using q1 by simp
  show ?thesis
    using run h(1-3) m g q0 q1' A' A4 A6 B' B7 by blast
qed


section \<open>The store of the skin friction\<close>

text \<open>
  \<^verbatim>\<open>Allocate\<close> sizes \<^verbatim>\<open>CSkinFriction\<close> with
  \<^verbatim>\<open>Alloc3D(nMarker, nVertex, nDim, CSkinFriction)\<close>: \<^verbatim>\<open>nVertex[iMarker]\<close> rows of
  \<^verbatim>\<open>nDim\<close> numbers for a marker. The vertex loop of Friction\_Forces stores
  \<^verbatim>\<open>CSkinFriction[iMarker][iDim][iVertex]\<close>, the row \<^verbatim>\<open>iDim\<close> and the column
  \<^verbatim>\<open>iVertex\<close>. The two agree on a marker whose number of vertices is the number of
  dimensions and on no other marker with a vertex.
\<close>

lemma skin_shape_allocated:
  "iMarker < nMarker d \<Longrightarrow>
     skin_shape (solver_allocated d nVertex' config) iMarker
       = replicate (nVertex' iMarker) (nDim d)"
  by (simp add: skin_shape_def solver_allocated_def)

lemma skin_in_bounds_allocated:
  "skin_in_bounds n (replicate nV n) iVertex = (n = 0 \<or> (n \<le> nV \<and> iVertex < n))"
proof (cases "n = 0")
  case True
  then show ?thesis
    by (simp add: skin_in_bounds_def)
next
  case False
  show ?thesis
  proof
    assume a: "skin_in_bounds n (replicate nV n) iVertex"
    from False have "n - 1 < n"
      by simp
    with a have b: "n - 1 < nV \<and> iVertex < replicate nV n ! (n - 1)"
      unfolding skin_in_bounds_def length_replicate by blast
    then have "iVertex < n"
      by (auto simp: nth_replicate)
    moreover from b have "n \<le> nV"
      by arith
    ultimately show "n = 0 \<or> (n \<le> nV \<and> iVertex < n)"
      by simp
  next
    assume "n = 0 \<or> (n \<le> nV \<and> iVertex < n)"
    with False show "skin_in_bounds n (replicate nV n) iVertex"
      by (simp add: skin_in_bounds_def)
  qed
qed

lemma Friction_allocated_not_defined:
  assumes "iMarker < nMarker d" and "viscous_wall config iMarker"
    and "0 < nDim d" and "0 < nVertex' iMarker"
    and "length (vertex geometry iMarker) = nVertex' iMarker"
    and "nVertex' iMarker \<noteq> nDim d"
  shows "\<not> Friction_defined d config geometry nodes (solver_allocated d nVertex' config)"
proof
  assume a: "Friction_defined d config geometry nodes (solver_allocated d nVertex' config)"
  have "nVertex' iMarker - 1 < length (vertex geometry iMarker)"
    using assms(4,5) by simp
  with a assms(1,2) have
    "skin_in_bounds (nDim d) (skin_shape (solver_allocated d nVertex' config) iMarker)
       (nVertex' iMarker - 1)"
    unfolding Friction_defined_def vertex_defined_def by blast
  then have "nDim d \<le> nVertex' iMarker \<and> nVertex' iMarker - 1 < nDim d"
    using assms(3)
    by (simp add: skin_shape_allocated [OF assms(1)] skin_in_bounds_allocated)
  with assms(4,6) show False
    by arith
qed

lemma strip2D_vertices:
  "iVertex < length (vertex strip2D_geometry iMarker) \<Longrightarrow>
     \<exists>k. vertex strip2D_geometry iMarker ! iVertex = wall2D_vertex k"
  by (auto simp: strip2D_geometry_def wall2D_geometry_def less_Suc_eq nth_Cons'
      split: if_splits)

lemma strip2D_quantities:
  "\<not> isl (Friction_quantities wall2D_d wall2D_config strip2D_geometry wall2D_nodes
            (wall2D_vertex k))"
  using wall2D_quantities [of wall2D_nodes k False strip2D_geometry]
  by (auto simp: isl_iff wall2D_plain wall2D_nodes_def)

text \<open>
  C8. The claim says that in Pressure\_Forces, Momentum\_Forces and Friction\_Forces the
  contributions of a vertex are added only when its node is owned by the domain and the
  marker is monitored, that the sums of an unmonitored marker stay zero, and that the arrays
  of the vertices, \<^verbatim>\<open>CSkinFriction\<close> among them, are written for every vertex. The store of
  \<^verbatim>\<open>CSkinFriction\<close> in Friction\_Forces does not fit the array that \<^verbatim>\<open>Allocate\<close> made:
  from the members as \<^verbatim>\<open>Allocate\<close> leaves them, for any viscous wall marker below
  \<^verbatim>\<open>nMarker\<close> that has a vertex and whose number of vertices is not \<^verbatim>\<open>nDim\<close>
  (\<^verbatim>\<open>nDim\<close> positive), a pass of Friction\_Forces does not return. When the numbers of
  every vertex are defined and \<^verbatim>\<open>RefLength\<close> is not zero, what stops it is a store outside
  the array, so the skin friction is not written for every vertex of such a marker.
\<close>

theorem CSkinFriction_store_out_of_bounds:
  assumes "iMarker < nMarker d" and "viscous_wall config iMarker"
    and "0 < nDim d" and "0 < nVertex' iMarker"
    and "length (vertex geometry iMarker) = nVertex' iMarker"
    and "nVertex' iMarker \<noteq> nDim d"
  shows "isl (Friction_Forces d config geometry nodes ranks (solver_allocated d nVertex' config))
    \<and> ((\<forall>iMarker<nMarker d. \<forall>iVertex<length (vertex geometry iMarker).
            \<not> isl (Friction_quantities d config geometry nodes
                     (vertex geometry iMarker ! iVertex)))
          \<and> RefLength config \<noteq> 0 \<longrightarrow>
        Friction_Forces d config geometry nodes ranks (solver_allocated d nVertex' config)
          = Inl OutOfBounds)"
proof -
  let ?r = "Friction_Forces d config geometry nodes ranks (solver_allocated d nVertex' config)"
  have "\<not> (\<exists>s'. ?r = Inr s')"
    unfolding Friction_Forces_Inr
    using assms
    by (rule Friction_allocated_not_defined [where iMarker = iMarker and nVertex' = nVertex'])
  then obtain e where e: "?r = Inl e"
    by (cases ?r) simp_all
  have "isl ?r"
    by (simp add: e)
  moreover have "?r = Inl OutOfBounds"
    if "\<forall>iMarker<nMarker d. \<forall>iVertex<length (vertex geometry iMarker).
          \<not> isl (Friction_quantities d config geometry nodes (vertex geometry iMarker ! iVertex))"
      and "RefLength config \<noteq> 0"
    using Friction_Forces_error [OF e that] e by simp
  ultimately show ?thesis
    by blast
qed

theorem CSkinFriction_store_out_of_bounds_witness:
  "0 < nMarker wall2D_d \<and> viscous_wall wall2D_config 0 \<and> nDim wall2D_d = 2
     \<and> length (vertex strip2D_geometry 0) = 3
     \<and> vertex strip2D_geometry 0 = [wall2D_vertex 0, wall2D_vertex 1, wall2D_vertex 2]
     \<and> skin_shape strip2D_allocated 0 = [2, 2, 2]
     \<and> \<not> isl (Friction_quantities wall2D_d wall2D_config strip2D_geometry wall2D_nodes
                (wall2D_vertex 0))
     \<and> \<not> isl (Friction_quantities wall2D_d wall2D_config strip2D_geometry wall2D_nodes
                (wall2D_vertex 1))
     \<and> \<not> isl (Friction_quantities wall2D_d wall2D_config strip2D_geometry wall2D_nodes
                (wall2D_vertex 2))
     \<and> RefLength wall2D_config \<noteq> 0
     \<and> Friction_Forces wall2D_d wall2D_config strip2D_geometry wall2D_nodes [] strip2D_allocated
         = Inl OutOfBounds
     \<and> (\<exists>s'. Friction_Forces wall2D_d wall2D_config wall2D_geometry wall2D_nodes []
                wall2D_allocated = Inr s')"
proof -
  have h: "0 < nMarker wall2D_d" "viscous_wall wall2D_config 0" "0 < nDim wall2D_d"
    "0 < length (vertex strip2D_geometry 0)"
    "length (vertex strip2D_geometry 0) = length (vertex strip2D_geometry 0)"
    "length (vertex strip2D_geometry 0) \<noteq> nDim wall2D_d"
    by (simp_all add: wall2D_d_def wall2D_config_def viscous_wall_def strip2D_geometry_def)
  have q: "\<forall>iMarker<nMarker wall2D_d. \<forall>iVertex<length (vertex strip2D_geometry iMarker).
             \<not> isl (Friction_quantities wall2D_d wall2D_config strip2D_geometry wall2D_nodes
                      (vertex strip2D_geometry iMarker ! iVertex))"
  proof (intro allI impI)
    fix iMarker iVertex
    assume "iVertex < length (vertex strip2D_geometry iMarker)"
    from strip2D_vertices [OF this] obtain k where
      "vertex strip2D_geometry iMarker ! iVertex = wall2D_vertex k" ..
    then show "\<not> isl (Friction_quantities wall2D_d wall2D_config strip2D_geometry wall2D_nodes
                       (vertex strip2D_geometry iMarker ! iVertex))"
      by (simp add: strip2D_quantities)
  qed
  have r: "RefLength wall2D_config \<noteq> 0"
    by (simp add: wall2D_config_def)
  have a: "solver_allocated wall2D_d (\<lambda>iMarker. length (vertex strip2D_geometry iMarker))
             wall2D_config = strip2D_allocated"
    by (simp add: strip2D_allocated_def)
  have "Friction_Forces wall2D_d wall2D_config strip2D_geometry wall2D_nodes []
          strip2D_allocated = Inl OutOfBounds"
    using CSkinFriction_store_out_of_bounds [where d = wall2D_d and config = wall2D_config
        and iMarker = 0 and geometry = strip2D_geometry
        and nVertex' = "\<lambda>iMarker. length (vertex strip2D_geometry iMarker)"
        and nodes = wall2D_nodes and ranks = "[]", OF h] q r
    unfolding a by blast
  moreover have "skin_shape strip2D_allocated 0 = [2, 2, 2]"
    by (simp add: skin_shape_def strip2D_allocated_def solver_allocated_def wall2D_d_def
        strip2D_geometry_def numeral_3_eq_3 numeral_2_eq_2)
  moreover have "vertex strip2D_geometry 0 = [wall2D_vertex 0, wall2D_vertex 1, wall2D_vertex 2]"
    "length (vertex strip2D_geometry 0) = 3" "nDim wall2D_d = 2"
    by (simp_all add: strip2D_geometry_def wall2D_d_def)
  moreover note h(1,2) r strip2D_quantities [of 0] strip2D_quantities [of 1]
    strip2D_quantities [of 2] wall2D_Friction_Forces [of "[]"]
  ultimately show ?thesis
    by blast
qed

end
